(* ===== verification/Journey_Prelude.thy ===== *)
theory Journey_Prelude
  imports Complex_Main "HOL-Library.Multiset"
begin

text \<open>
  Shared vocabulary of the journey-planner development.

  \<^item> The fact collections \<open>handler_defs\<close> (unfolding equations of the page's event
    handlers), \<open>frame\<close> (fields an operation leaves alone) and \<open>inv_defs\<close> (the
    definitions of the invariants), which the component theories fill and the proofs
    pass to \<open>simp\<close> and \<open>auto\<close>.
  \<^item> \<open>'a updated\<close>: what a React state updater hands back. React compares the returned
    value with the previous one by reference, so an updater that returns its argument
    (\<open>Same\<close>) causes neither a re-render nor an effect run, while a freshly built array
    (\<open>Fresh\<close>) does. \<open>Holed\<close> records that the updater built an array with an
    \<open>undefined\<close> slot at the given position; JavaScript raises nothing at that point,
    the next read of a field of that slot does.
  \<^item> \<open>swap_at\<close>: the destructuring swap \<^verbatim>\<open>[a[i], a[j]] = [a[j], a[i]]\<close> on an array,
    with the facts about it (length, elements, positions, involution) that the waypoint
    store and the map view share.
  \<^item> Generic facts on \<open>remove1\<close> and \<open>dropWhile\<close> used by the marker and string
    loops.
\<close>

section \<open>Fact collections\<close>

named_theorems handler_defs "unfolding equations of event handlers and effects"
named_theorems frame "fields that an operation leaves unchanged"
named_theorems inv_defs "definitions of invariants"

section \<open>Results of a state updater\<close>

datatype 'a updated = Same | Fresh 'a | Holed nat

text \<open>The value the state holds after the update, where there is one.\<close>

fun commit :: "'a \<Rightarrow> 'a updated \<Rightarrow> 'a option" where
  "commit prev Same = Some prev"
| "commit prev (Fresh new) = Some new"
| "commit prev (Holed k) = None"

fun rerenders :: "'a updated \<Rightarrow> bool" where
  "rerenders Same = False"
| "rerenders (Fresh new) = True"
| "rerenders (Holed k) = True"

section \<open>Swapping two positions of an array\<close>

definition swap_at :: "nat \<Rightarrow> nat \<Rightarrow> 'a list \<Rightarrow> 'a list" where
  "swap_at i j xs = xs[i := xs ! j, j := xs ! i]"

lemma length_swap_at [simp]: "length (swap_at i j xs) = length xs"
  by (simp add: swap_at_def)

lemma swap_at_same [simp]: "swap_at i i xs = xs"
  by (simp add: swap_at_def)

lemma swap_at_commute: "swap_at i j xs = swap_at j i xs"
  by (cases "i = j") (simp_all add: swap_at_def list_update_swap)

lemma nth_swap_at:
  assumes "i < length xs" and "j < length xs" and "k < length xs"
  shows "swap_at i j xs ! k = (if k = j then xs ! i else if k = i then xs ! j else xs ! k)"
  using assms by (simp add: swap_at_def nth_list_update)

lemma mset_swap_at [simp]:
  "i < length xs \<Longrightarrow> j < length xs \<Longrightarrow> mset (swap_at i j xs) = mset xs"
  unfolding swap_at_def by (rule mset_swap)

lemma set_swap_at [simp]:
  "i < length xs \<Longrightarrow> j < length xs \<Longrightarrow> set (swap_at i j xs) = set xs"
  unfolding swap_at_def by (rule set_swap)

lemma swap_at_involution:
  assumes "i < length xs" and "j < length xs"
  shows "swap_at i j (swap_at i j xs) = xs"
proof (rule nth_equalityI)
  show "length (swap_at i j (swap_at i j xs)) = length xs" by simp
next
  fix k assume "k < length (swap_at i j (swap_at i j xs))"
  then have k: "k < length xs" by simp
  with assms show "swap_at i j (swap_at i j xs) ! k = xs ! k"
    by (simp add: nth_swap_at)
qed

lemma map_swap_at:
  assumes "i < length xs" and "j < length xs"
  shows "map f (swap_at i j xs) = swap_at i j (map f xs)"
  using assms by (simp add: swap_at_def map_update)

section \<open>Lists\<close>

lemma fold_remove1_self: "fold remove1 xs (xs @ ys) = ys"
  by (induction xs arbitrary: ys) simp_all

lemma fold_remove1_all [simp]: "fold remove1 xs xs = []"
  using fold_remove1_self [of xs "[]"] by simp

lemma length_dropWhile_less:
  assumes "xs \<noteq> []" and "P (hd xs)"
  shows "length (dropWhile P xs) < length xs"
proof (cases xs)
  case Nil
  with assms show ?thesis by simp
next
  case (Cons x xs')
  with assms have "dropWhile P xs = dropWhile P xs'" by simp
  with Cons show ?thesis by (simp add: le_imp_less_Suc length_dropWhile_le)
qed

lemma set_dropWhile_eq_minus: "set (dropWhile (\<lambda>c. c = a) xs) - {a} = set xs - {a}"
  by (induction xs) auto

lemma in_set_map_filter:
  "f x = Some y \<Longrightarrow> x \<in> set xs \<Longrightarrow> y \<in> set (List.map_filter f xs)"
  by (force simp: List.map_filter_def)

lemma map_fst_zip_upt:
  "map (\<lambda>x. f (fst x)) (zip [0..<length ps] ps) = map f [0..<length ps]"
proof -
  have "map (\<lambda>x. f (fst x)) (zip [0..<length ps] ps)
      = map f (map fst (zip [0..<length ps] ps))"
    by (simp only: map_map comp_def)
  also have "map fst (zip [0..<length ps] ps) = [0..<length ps]"
    by simp
  finally show ?thesis .
qed

end
