(* ===== verification/JS_Number.thy ===== *)
theory JS_Number
  imports Journey_Prelude
begin

text \<open>
  JavaScript numbers as the page uses them: coordinates are compared with \<^verbatim>\<open><\<close> and
  \<^verbatim>\<open>>\<close> only (the bounding-box loop of \<^verbatim>\<open>geocodeScenes\<close>), so a number is modelled by
  its mathematical value, \<open>Fin r\<close>, or one of the three special values \<open>NaN\<close>,
  \<open>PosInf\<close>, \<open>NegInf\<close> that \<^verbatim>\<open>parseFloat\<close> can return. Comparison of two doubles is
  exact, so \<open>js_lt\<close> on the values is the comparison of the program; rounding of
  arithmetic is not modelled because the page does no arithmetic on coordinates.
  Every comparison with \<open>NaN\<close> is false, which is what makes the bounding box of a list
  with an unparsable coordinate depend on where that coordinate stands.

  The lemmas show that \<open>js_lt\<close> is a strict linear order on the numbers that are not
  \<open>NaN\<close>, and give the derived non-strict comparison \<open>js_le\<close> and the interval test
  \<open>js_between\<close> that the coordinate invariant of the specification uses.
\<close>

section \<open>Values and comparison\<close>

datatype jsnum = NaN | NegInf | Fin real | PosInf

fun js_lt :: "jsnum \<Rightarrow> jsnum \<Rightarrow> bool" where
  "js_lt (Fin a) (Fin b) = (a < b)"
| "js_lt NegInf (Fin b) = True"
| "js_lt NegInf PosInf = True"
| "js_lt (Fin a) PosInf = True"
| "js_lt _ _ = False"

abbreviation js_gt :: "jsnum \<Rightarrow> jsnum \<Rightarrow> bool" where
  "js_gt a b \<equiv> js_lt b a"

definition is_nan :: "jsnum \<Rightarrow> bool" where
  "is_nan a \<longleftrightarrow> a = NaN"

definition js_le :: "jsnum \<Rightarrow> jsnum \<Rightarrow> bool" where
  "js_le a b \<longleftrightarrow> \<not> is_nan a \<and> \<not> is_nan b \<and> \<not> js_lt b a"

definition js_between :: "real \<Rightarrow> real \<Rightarrow> jsnum \<Rightarrow> bool" where
  "js_between lo hi a \<longleftrightarrow> js_le (Fin lo) a \<and> js_le a (Fin hi)"

section \<open>Order properties\<close>

lemma is_nan_simps [simp]:
  "is_nan NaN" "\<not> is_nan NegInf" "\<not> is_nan (Fin r)" "\<not> is_nan PosInf"
  by (simp_all add: is_nan_def)

lemma js_lt_NaN [simp]: "\<not> js_lt NaN a" "\<not> js_lt a NaN"
  by (cases a; simp)+

lemma js_lt_nan_left: "is_nan a \<Longrightarrow> \<not> js_lt a b"
  by (simp add: is_nan_def)

lemma js_lt_nan_right: "is_nan b \<Longrightarrow> \<not> js_lt a b"
  by (simp add: is_nan_def)

lemma js_lt_irrefl [simp]: "\<not> js_lt a a"
  by (cases a) simp_all

lemma js_lt_asym: "js_lt a b \<Longrightarrow> \<not> js_lt b a"
  by (cases a; cases b; simp)

lemma js_lt_trans: "js_lt a b \<Longrightarrow> js_lt b c \<Longrightarrow> js_lt a c"
  by (cases a; cases b; cases c; simp)

lemma js_lt_not_nan: "js_lt a b \<Longrightarrow> \<not> is_nan a \<and> \<not> is_nan b"
  by (cases a; cases b; simp)

lemma js_lt_linear: "\<not> is_nan a \<Longrightarrow> \<not> is_nan b \<Longrightarrow> js_lt a b \<or> a = b \<or> js_lt b a"
  by (cases a; cases b; auto)

lemma js_le_refl: "\<not> is_nan a \<Longrightarrow> js_le a a"
  by (simp add: js_le_def)

lemma js_le_trans: "js_le a b \<Longrightarrow> js_le b c \<Longrightarrow> js_le a c"
  unfolding js_le_def by (cases a; cases b; cases c; simp)

lemma js_le_antisym: "js_le a b \<Longrightarrow> js_le b a \<Longrightarrow> a = b"
  unfolding js_le_def by (cases a; cases b; simp)

lemma js_le_iff: "js_le a b \<longleftrightarrow> \<not> is_nan a \<and> \<not> is_nan b \<and> (js_lt a b \<or> a = b)"
  unfolding js_le_def by (cases a; cases b; auto)

lemma js_lt_imp_le: "js_lt a b \<Longrightarrow> js_le a b"
  by (simp add: js_le_iff js_lt_not_nan)

lemma js_lt_le_trans: "js_lt a b \<Longrightarrow> js_le b c \<Longrightarrow> js_le a c"
  by (blast intro: js_lt_imp_le js_le_trans)

lemma js_le_Fin [simp]: "js_le (Fin a) (Fin b) \<longleftrightarrow> a \<le> b"
  by (auto simp: js_le_def)

lemma js_between_Fin [simp]: "js_between lo hi (Fin r) \<longleftrightarrow> lo \<le> r \<and> r \<le> hi"
  by (simp add: js_between_def)

lemma js_between_finite: "js_between lo hi a \<Longrightarrow> \<exists>r. a = Fin r"
  unfolding js_between_def js_le_def by (cases a) simp_all

lemma js_between_not_nan: "js_between lo hi a \<Longrightarrow> \<not> is_nan a"
  by (auto dest: js_between_finite)

end
