(* ===== verification/JS_String.thy ===== *)
theory JS_String
  imports Journey_Prelude
begin

text \<open>
  The string operations of the JavaScript library that the page calls:
  \<^verbatim>\<open>String.prototype.trim\<close>, \<^verbatim>\<open>split(/\n+/)\<close>, the truthiness test of
  \<^verbatim>\<open>filter(Boolean)\<close> on strings, and the decimal rendering of an array length inside a
  template literal. A string is a \<open>char list\<close>; the code units of the page's inputs
  are taken to be below 256, so the white space that \<^verbatim>\<open>trim\<close> strips is tab, line
  feed, vertical tab, form feed, carriage return, space and no-break space.

  \<open>split_newlines\<close> follows the regular-expression split: the separators are the
  maximal runs of line feeds, a leading or trailing run leaves an empty first or last
  piece, and a string without line feed is its own only piece. Its recursion is on the
  rest of the string behind a run, so it is a \<^theory_text>\<open>function\<close> with a termination proof.
  \<open>split_on\<close> is the reference splitter that cuts at every single separator; the two
  agree once empty pieces are dropped (\<open>nonempty_split_newlines\<close>).
\<close>

section \<open>White space and trimming\<close>

definition newline :: char where
  "newline = CHR 0x0A"

definition js_spaces :: "char list" where
  "js_spaces = [CHR 0x09, CHR 0x0A, CHR 0x0B, CHR 0x0C, CHR 0x0D, CHR 0x20, CHR 0xA0]"

definition is_js_space :: "char \<Rightarrow> bool" where
  "is_js_space c \<longleftrightarrow> c \<in> set js_spaces"

definition trimStart :: "string \<Rightarrow> string" where
  "trimStart s = dropWhile is_js_space s"

definition trimEnd :: "string \<Rightarrow> string" where
  "trimEnd s = rev (dropWhile is_js_space (rev s))"

definition trim :: "string \<Rightarrow> string" where
  "trim s = trimEnd (trimStart s)"

definition truthy :: "string \<Rightarrow> bool" where
  "truthy s \<longleftrightarrow> s \<noteq> []"

section \<open>Splitting at runs of line feeds\<close>

function split_newlines :: "string \<Rightarrow> string list" where
  "split_newlines s =
     (if dropWhile (\<lambda>c. c \<noteq> newline) s = [] then [s]
      else takeWhile (\<lambda>c. c \<noteq> newline) s
           # split_newlines (dropWhile (\<lambda>c. c = newline) (dropWhile (\<lambda>c. c \<noteq> newline) s)))"
  by pat_completeness auto

termination
proof (relation "measure length")
  show "wf (measure length)" by simp
next
  fix s :: string
  let ?rest = "dropWhile (\<lambda>c. c \<noteq> newline) s"
  assume ne: "?rest \<noteq> []"
  then have "hd ?rest = newline"
    using hd_dropWhile [of "\<lambda>c. c \<noteq> newline" s] by simp
  with ne have "length (dropWhile (\<lambda>c. c = newline) ?rest) < length ?rest"
    by (intro length_dropWhile_less) simp_all
  also have "\<dots> \<le> length s" by (rule length_dropWhile_le)
  finally show "(dropWhile (\<lambda>c. c = newline) ?rest, s) \<in> measure length" by simp
qed

declare split_newlines.simps [simp del]

fun split_on :: "char \<Rightarrow> string \<Rightarrow> string list" where
  "split_on c [] = [[]]"
| "split_on c (x # xs) =
     (if x = c then [] # split_on c xs
      else (case split_on c xs of
              [] \<Rightarrow> [[x]]
            | seg # segs \<Rightarrow> (x # seg) # segs))"

section \<open>Decimal rendering of a count\<close>

definition digit_char :: "nat \<Rightarrow> char" where
  "digit_char d = ''0123456789'' ! d"

fun string_of_nat :: "nat \<Rightarrow> string" where
  "string_of_nat n =
     (if n < 10 then [digit_char n]
      else string_of_nat (n div 10) @ [digit_char (n mod 10)])"

declare string_of_nat.simps [simp del]

definition digit_val :: "char \<Rightarrow> nat" where
  "digit_val c = of_char c - 48"

definition nat_of_string :: "string \<Rightarrow> nat" where
  "nat_of_string s = fold (\<lambda>c n. 10 * n + digit_val c) s 0"

section \<open>Facts about trimming\<close>

lemma trimEnd_append_spaces:
  "trimEnd s @ rev (takeWhile is_js_space (rev s)) = s"
proof -
  have "rev (takeWhile is_js_space (rev s) @ dropWhile is_js_space (rev s)) = s"
    by simp
  then show ?thesis by (simp add: trimEnd_def del: takeWhile_dropWhile_id)
qed

lemma trimStart_prepend_spaces: "takeWhile is_js_space s @ trimStart s = s"
  by (simp add: trimStart_def)

lemma trimStart_fixed: "s = [] \<or> \<not> is_js_space (hd s) \<Longrightarrow> trimStart s = s"
  by (cases s) (auto simp: trimStart_def)

lemma trimEnd_fixed: "s = [] \<or> \<not> is_js_space (last s) \<Longrightarrow> trimEnd s = s"
  by (cases s rule: rev_cases) (auto simp: trimEnd_def)

lemma hd_trimStart: "trimStart s \<noteq> [] \<Longrightarrow> \<not> is_js_space (hd (trimStart s))"
  unfolding trimStart_def by (rule hd_dropWhile)

lemma last_trimEnd: "trimEnd s \<noteq> [] \<Longrightarrow> \<not> is_js_space (last (trimEnd s))"
  unfolding trimEnd_def using hd_dropWhile [of is_js_space "rev s"]
  by (simp add: last_rev)

lemma hd_trimEnd: "trimEnd s \<noteq> [] \<Longrightarrow> hd (trimEnd s) = hd s"
  using trimEnd_append_spaces [of s] by (metis hd_append2)

lemma trimEnd_Nil [simp]: "trimEnd [] = []"
  by (simp add: trimEnd_def)

lemma hd_trim: "trim s \<noteq> [] \<Longrightarrow> \<not> is_js_space (hd (trim s))"
proof -
  assume ne: "trim s \<noteq> []"
  then have "trimStart s \<noteq> []" by (auto simp: trim_def)
  then have "\<not> is_js_space (hd (trimStart s))" by (rule hd_trimStart)
  moreover from ne have "hd (trim s) = hd (trimStart s)"
    unfolding trim_def by (rule hd_trimEnd)
  ultimately show ?thesis by simp
qed

lemma last_trim: "trim s \<noteq> [] \<Longrightarrow> \<not> is_js_space (last (trim s))"
  unfolding trim_def by (rule last_trimEnd)

lemma trim_fixed:
  assumes "s = [] \<or> (\<not> is_js_space (hd s) \<and> \<not> is_js_space (last s))"
  shows "trim s = s"
  using assms by (auto simp: trim_def trimStart_fixed trimEnd_fixed)

lemma trim_idem: "trim (trim s) = trim s"
  by (rule trim_fixed) (use hd_trim last_trim in blast)

lemma trim_decompose:
  "takeWhile is_js_space s @ trim s @ rev (takeWhile is_js_space (rev (trimStart s))) = s"
  by (simp add: trim_def trimEnd_append_spaces trimStart_prepend_spaces)

lemma trim_empty_iff: "trim s = [] \<longleftrightarrow> (\<forall>c \<in> set s. is_js_space c)"
proof
  assume "trim s = []"
  with trim_decompose [of s]
  have "s = takeWhile is_js_space s @ rev (takeWhile is_js_space (rev (trimStart s)))"
    by simp
  then have "set s \<subseteq> {c. is_js_space c}"
    by (metis (no_types, lifting) Un_iff mem_Collect_eq set_append set_rev set_takeWhileD subsetI)
  then show "\<forall>c \<in> set s. is_js_space c" by blast
next
  assume "\<forall>c \<in> set s. is_js_space c"
  then have "trimStart s = []" by (simp add: trimStart_def)
  then show "trim s = []" by (simp add: trim_def)
qed

lemma set_trim_subset: "set (trim s) \<subseteq> set s"
  by (metis trim_decompose Un_upper1 Un_upper2 set_append subset_trans)

section \<open>Facts about splitting\<close>

lemma split_newlines_last:
  "dropWhile (\<lambda>c. c \<noteq> newline) s = [] \<Longrightarrow> split_newlines s = [s]"
  by (subst split_newlines.simps) simp

lemma split_newlines_more:
  assumes "dropWhile (\<lambda>c. c \<noteq> newline) s \<noteq> []"
  shows "split_newlines s = takeWhile (\<lambda>c. c \<noteq> newline) s
     # split_newlines (dropWhile (\<lambda>c. c = newline) (dropWhile (\<lambda>c. c \<noteq> newline) s))"
proof -
  have "split_newlines s =
     (if dropWhile (\<lambda>c. c \<noteq> newline) s = [] then [s]
      else takeWhile (\<lambda>c. c \<noteq> newline) s
           # split_newlines (dropWhile (\<lambda>c. c = newline) (dropWhile (\<lambda>c. c \<noteq> newline) s)))"
    by (rule split_newlines.simps)
  with assms show ?thesis by (simp only: if_False)
qed

lemma split_newlines_no_newline:
  "seg \<in> set (split_newlines s) \<Longrightarrow> newline \<notin> set seg"
proof (induction s rule: split_newlines.induct)
  case (1 s)
  show ?case
  proof (cases "dropWhile (\<lambda>c. c \<noteq> newline) s = []")
    case True
    with "1.prems" have "seg = s" by (simp add: split_newlines_last)
    moreover from True have "\<forall>c \<in> set s. c \<noteq> newline" by (simp add: dropWhile_eq_Nil_conv)
    ultimately show ?thesis by blast
  next
    case False
    with "1.prems" consider "seg = takeWhile (\<lambda>c. c \<noteq> newline) s"
      | "seg \<in> set (split_newlines (dropWhile (\<lambda>c. c = newline) (dropWhile (\<lambda>c. c \<noteq> newline) s)))"
      by (auto simp: split_newlines_more [OF False])
    then show ?thesis
    proof cases
      case 1
      then show ?thesis by (auto dest: set_takeWhileD)
    next
      case 2
      with False show ?thesis by (rule "1.IH")
    qed
  qed
qed

lemma split_newlines_not_Nil: "split_newlines s \<noteq> []"
  by (simp add: split_newlines.simps [of s])

lemma is_js_space_newline [simp]: "is_js_space newline"
  by (simp add: is_js_space_def js_spaces_def newline_def)

lemma set_split_newlines: "\<Union> (set ` set (split_newlines s)) = set s - {newline}"
proof (induction s rule: split_newlines.induct)
  case (1 s)
  let ?rest = "dropWhile (\<lambda>c. c \<noteq> newline) s"
  show ?case
  proof (cases "?rest = []")
    case True
    then have "newline \<notin> set s" by (auto simp: dropWhile_eq_Nil_conv)
    with True show ?thesis by (simp add: split_newlines_last)
  next
    case False
    have s: "set s = set (takeWhile (\<lambda>c. c \<noteq> newline) s) \<union> set ?rest"
      by (metis set_append takeWhile_dropWhile_id)
    have t: "newline \<notin> set (takeWhile (\<lambda>c. c \<noteq> newline) s)"
      by (auto dest: set_takeWhileD)
    have "\<Union> (set ` set (split_newlines s))
        = set (takeWhile (\<lambda>c. c \<noteq> newline) s) \<union> (set (dropWhile (\<lambda>c. c = newline) ?rest) - {newline})"
      using "1.IH" [OF False] by (simp add: split_newlines_more [OF False])
    also have "\<dots> = set (takeWhile (\<lambda>c. c \<noteq> newline) s) \<union> (set ?rest - {newline})"
      by (simp only: set_dropWhile_eq_minus)
    also have "\<dots> = set s - {newline}"
      using t s by auto
    finally show ?thesis .
  qed
qed

lemma split_on_not_Nil [simp]: "split_on c s \<noteq> []"
  by (induction s) (auto split: list.splits)

lemma split_on_no_sep: "c \<notin> set s \<Longrightarrow> split_on c s = [s]"
  by (induction s) auto

lemma split_on_append_sep:
  "c \<notin> set pre \<Longrightarrow> split_on c (pre @ c # rest) = pre # split_on c rest"
  by (induction pre) auto

lemma split_on_last: "dropWhile (\<lambda>x. x \<noteq> c) s = [] \<Longrightarrow> split_on c s = [s]"
  by (rule split_on_no_sep) (auto simp: dropWhile_eq_Nil_conv)

lemma split_on_more:
  assumes "dropWhile (\<lambda>x. x \<noteq> c) s \<noteq> []"
  shows "split_on c s
    = takeWhile (\<lambda>x. x \<noteq> c) s # split_on c (tl (dropWhile (\<lambda>x. x \<noteq> c) s))"
proof -
  note False = assms
  let ?pre = "takeWhile (\<lambda>x. x \<noteq> c) s" and ?rest = "dropWhile (\<lambda>x. x \<noteq> c) s"
  from False have hd: "hd ?rest = c" using hd_dropWhile [of "\<lambda>x. x \<noteq> c" s] by simp
  with False have "s = ?pre @ c # tl ?rest" by (metis takeWhile_dropWhile_id list.collapse)
  moreover have "c \<notin> set ?pre" by (auto dest: set_takeWhileD)
  ultimately show ?thesis
    by (metis split_on_append_sep)
qed

lemma truthy_split_on_dropWhile:
  "filter truthy (split_on c (dropWhile (\<lambda>x. x = c) s)) = filter truthy (split_on c s)"
  by (induction s) (auto simp: truthy_def)

theorem nonempty_split_newlines:
  "filter truthy (split_newlines s) = filter truthy (split_on newline s)"
proof (induction s rule: split_newlines.induct)
  case (1 s)
  let ?rest = "dropWhile (\<lambda>c. c \<noteq> newline) s"
  show ?case
  proof (cases "?rest = []")
    case True
    then show ?thesis
      by (simp only: split_newlines_last split_on_last)
  next
    case False
    then have hd: "hd ?rest = newline" using hd_dropWhile [of "\<lambda>c. c \<noteq> newline" s] by simp
    with False have "dropWhile (\<lambda>c. c = newline) ?rest = dropWhile (\<lambda>c. c = newline) (tl ?rest)"
      by (cases ?rest) auto
    then have "filter truthy (split_newlines (dropWhile (\<lambda>c. c = newline) ?rest))
        = filter truthy (split_on newline (tl ?rest))"
      using "1.IH" [OF False] by (simp add: truthy_split_on_dropWhile)
    then show ?thesis
      by (simp only: split_newlines_more [OF False] split_on_more [OF False] filter.simps)
  qed
qed

section \<open>Facts about the decimal rendering\<close>

lemma digit_val_digit_char: "d < 10 \<Longrightarrow> digit_val (digit_char d) = d"
proof -
  assume "d < 10"
  then have "d \<in> set [0..<10]" by simp
  then show ?thesis
    unfolding digit_val_def digit_char_def
    by (simp add: upt_rec) (elim disjE; simp)
qed

lemma nat_of_string_append:
  "nat_of_string (s @ [c]) = 10 * nat_of_string s + digit_val c"
  by (simp add: nat_of_string_def)

theorem nat_of_string_of_nat: "nat_of_string (string_of_nat n) = n"
proof (induction n rule: string_of_nat.induct)
  case (1 n)
  show ?case
  proof (cases "n < 10")
    case True
    then show ?thesis
      by (simp add: string_of_nat.simps [of n] nat_of_string_def digit_val_digit_char)
  next
    case False
    with "1.IH" have "nat_of_string (string_of_nat (n div 10)) = n div 10" by simp
    with False show ?thesis
      by (simp add: string_of_nat.simps [of n] nat_of_string_append digit_val_digit_char)
  qed
qed

lemma string_of_nat_inj: "string_of_nat m = string_of_nat n \<longleftrightarrow> m = n"
  by (metis nat_of_string_of_nat)

lemma string_of_nat_digit: "n < 10 \<Longrightarrow> string_of_nat n = [digit_char n]"
  by (simp add: string_of_nat.simps [of n])

lemma string_of_nat_not_Nil: "string_of_nat n \<noteq> []"
  by (simp add: string_of_nat.simps [of n])

end
