(* ===== verification/Waypoint_Store.thy ===== *)
theory Waypoint_Store
  imports JS_Number JS_String
begin

text \<open>
  The waypoint list of the page (\<^verbatim>\<open>const [waypoints, setWaypoints] = useState([])\<close>) and
  the four ways the page changes it. Each operation is the updater the source hands to
  \<^verbatim>\<open>setWaypoints\<close>, as a function from the previous list to an \<open>updated\<close> value:

  \<^item> \<open>moveWaypoint\<close>: the updater inside \<^verbatim>\<open>moveWaypoint(index, direction)\<close>. The only
    guard of the source is on \<^verbatim>\<open>newIndex\<close>; when it fails the previous array itself is
    returned (\<open>Same\<close>). When it holds and \<^verbatim>\<open>index\<close> is a position of the array, the
    copy with the two positions swapped is returned. When it holds and \<^verbatim>\<open>index\<close> is
    not a position, \<^verbatim>\<open>reordered[index]\<close> reads \<^verbatim>\<open>undefined\<close> and the swap stores it
    at \<^verbatim>\<open>newIndex\<close>: \<open>Holed\<close>, which names that slot. The array itself is not kept
    (for an \<^verbatim>\<open>index\<close> past the end the assignment to \<^verbatim>\<open>reordered[index]\<close> also extends
    it): the render that follows throws on the \<^verbatim>\<open>undefined\<close> slot before anything
    reads the rest.
  \<^item> \<open>clickWaypoint\<close>: the updater of the map's click handler, which appends
    \<^verbatim>\<open>{ name: `Waypoint ${prev.length + 1}`, coord: [lng, lat] }\<close>.
  \<^item> \<open>clearRoute\<close>: \<^verbatim>\<open>setWaypoints([])\<close>, a fresh empty array whatever the list was.
  \<^item> \<open>replaceAll\<close>: \<^verbatim>\<open>setWaypoints(newWaypoints)\<close> at the end of a geocoding batch.

  \<open>moveAt\<close>, \<open>append_point\<close> are the operations of the store's contract on plain lists;
  the refinement lemmas relate the updaters to them, and \<open>route\<close> (the coordinates in
  order, from which markers and line are drawn) commutes with every operation.
\<close>

section \<open>Waypoints\<close>

type_synonym lnglat = "jsnum \<times> jsnum"

record waypoint =
  name :: string
  coord :: lnglat

definition lon :: "waypoint \<Rightarrow> jsnum" where
  "lon wp = fst (coord wp)"

definition lat :: "waypoint \<Rightarrow> jsnum" where
  "lat wp = snd (coord wp)"

definition route :: "waypoint list \<Rightarrow> lnglat list" where
  "route ws = map coord ws"

section \<open>The updaters\<close>

definition moveWaypoint :: "int \<Rightarrow> int \<Rightarrow> waypoint list \<Rightarrow> waypoint list updated" where
  "moveWaypoint index direction prev =
     (let newIndex = index + direction in
      if newIndex < 0 \<or> newIndex \<ge> int (length prev) then Same
      else if index < 0 \<or> index \<ge> int (length prev) then Holed (nat newIndex)
      else Fresh (swap_at (nat index) (nat newIndex) prev))"

definition waypoint_name :: "nat \<Rightarrow> string" where
  "waypoint_name n = ''Waypoint '' @ string_of_nat n"

definition clickWaypoint :: "jsnum \<Rightarrow> jsnum \<Rightarrow> waypoint list \<Rightarrow> waypoint list updated" where
  "clickWaypoint lng lt prev =
     Fresh (prev @ [\<lparr>name = waypoint_name (length prev + 1), coord = (lng, lt)\<rparr>])"

definition clearRoute :: "waypoint list \<Rightarrow> waypoint list updated" where
  "clearRoute prev = Fresh []"

definition replaceAll :: "waypoint list \<Rightarrow> waypoint list \<Rightarrow> waypoint list updated" where
  "replaceAll newWaypoints prev = Fresh newWaypoints"

text \<open>A run of map clicks, each applied to the list the previous one left.\<close>

fun clicks :: "lnglat list \<Rightarrow> waypoint list \<Rightarrow> waypoint list" where
  "clicks [] ws = ws"
| "clicks (p # ps) ws =
     (case commit ws (clickWaypoint (fst p) (snd p) ws) of
        None \<Rightarrow> ws
      | Some ws' \<Rightarrow> clicks ps ws')"

section \<open>The contract of the store\<close>

definition moveAt :: "nat \<Rightarrow> int \<Rightarrow> 'a list \<Rightarrow> 'a list" where
  "moveAt i d xs =
     (if int i + d < 0 \<or> int i + d \<ge> int (length xs) then xs
      else swap_at i (nat (int i + d)) xs)"

definition valid_coord :: "lnglat \<Rightarrow> bool" where
  "valid_coord c \<longleftrightarrow> js_between (-180) 180 (fst c) \<and> js_between (-90) 90 (snd c)"

definition valid_waypoints :: "waypoint list \<Rightarrow> bool" where
  "valid_waypoints ws \<longleftrightarrow> (\<forall>w \<in> set ws. valid_coord (coord w))"

text \<open>The three-element sample of the page's start-up self-test.\<close>

definition sample :: "waypoint list" where
  "sample = [\<lparr>name = ''A'', coord = (Fin 0, Fin 0)\<rparr>,
             \<lparr>name = ''B'', coord = (Fin 1, Fin 1)\<rparr>,
             \<lparr>name = ''C'', coord = (Fin 2, Fin 2)\<rparr>]"


section \<open>Case analysis of the move updater\<close>

lemma moveWaypoint_out_of_bounds:
  "index + direction < 0 \<or> int (length prev) \<le> index + direction
   \<Longrightarrow> moveWaypoint index direction prev = Same"
  by (auto simp: moveWaypoint_def Let_def)

lemma moveWaypoint_in_bounds:
  assumes "0 \<le> index" "index < int (length prev)"
    and "0 \<le> index + direction" "index + direction < int (length prev)"
  shows "moveWaypoint index direction prev
    = Fresh (swap_at (nat index) (nat (index + direction)) prev)"
  using assms by (simp add: moveWaypoint_def Let_def)

lemma moveWaypoint_FreshE:
  assumes "moveWaypoint index direction prev = Fresh ys"
  obtains "0 \<le> index" "index < int (length prev)"
    "0 \<le> index + direction" "index + direction < int (length prev)"
    "ys = swap_at (nat index) (nat (index + direction)) prev"
  using assms by (auto simp: moveWaypoint_def Let_def split: if_splits)

lemma moveWaypoint_Same_iff:
  "moveWaypoint index direction prev = Same
   \<longleftrightarrow> index + direction < 0 \<or> int (length prev) \<le> index + direction"
  by (auto simp: moveWaypoint_def Let_def)

lemma moveWaypoint_Holed_iff:
  "moveWaypoint index direction prev = Holed k
   \<longleftrightarrow> 0 \<le> index + direction \<and> index + direction < int (length prev)
       \<and> (index < 0 \<or> int (length prev) \<le> index) \<and> k = nat (index + direction)"
  by (auto simp: moveWaypoint_def Let_def)

lemmas sample_simps = sample_def moveWaypoint_def swap_at_def Let_def

section \<open>Reordering\<close>

text \<open>C2: When \<^verbatim>\<open>moveWaypoint\<close> returns a new array, that array has the length of the
  previous one, holds at \<^verbatim>\<open>newIndex\<close> the element that was at \<^verbatim>\<open>index\<close> and at
  \<^verbatim>\<open>index\<close> the one that was at \<^verbatim>\<open>newIndex\<close>, and agrees with the previous array
  everywhere else.\<close>

theorem moveWaypoint_swaps:
  assumes "moveWaypoint index direction prev = Fresh ys"
  shows "length ys = length prev
    \<and> ys ! nat (index + direction) = prev ! nat index
    \<and> ys ! nat index = prev ! nat (index + direction)
    \<and> (\<forall>k < length prev. k \<noteq> nat index \<longrightarrow> k \<noteq> nat (index + direction) \<longrightarrow> ys ! k = prev ! k)"
  using assms by (elim moveWaypoint_FreshE) (simp add: nth_swap_at)

theorem moveWaypoint_swaps_witness:
  "moveWaypoint 0 1 sample = Fresh [sample ! 1, sample ! 0, sample ! 2]
   \<and> map name [sample ! 1, sample ! 0, sample ! 2] = [''B'', ''A'', ''C'']"
  using moveWaypoint_swaps [of 0 1 sample "[sample ! 1, sample ! 0, sample ! 2]"]
  by (simp add: sample_simps)

text \<open>C15: A move whose target \<^verbatim>\<open>index + direction\<close> lies outside the array is
  absorbed: the updater hands back the previous array itself, so the list is unchanged
  and React neither re-renders nor runs the marker effect.\<close>

theorem moveWaypoint_boundary_noop:
  assumes "index + direction < 0 \<or> int (length prev) \<le> index + direction"
  shows "commit prev (moveWaypoint index direction prev) = Some prev
    \<and> \<not> rerenders (moveWaypoint index direction prev)"
  using assms by (simp add: moveWaypoint_out_of_bounds)

theorem moveWaypoint_boundary_noop_witness:
  "commit sample (moveWaypoint 0 (- 1) sample) = Some sample
   \<and> commit sample (moveWaypoint 2 1 sample) = Some sample"
  using moveWaypoint_boundary_noop [of 0 "- 1" sample]
    moveWaypoint_boundary_noop [of 2 1 sample]
  by (simp add: sample_def)

text \<open>C18: A move is undone by the opposite move from the target position:
  after \<^verbatim>\<open>moveWaypoint(index, direction)\<close> has produced a new array,
  \<^verbatim>\<open>moveWaypoint(index + direction, -direction)\<close> on it produces the original list,
  for every direction and not only for \<open>1\<close> and \<open>-1\<close>.\<close>

theorem moveWaypoint_inverse:
  assumes "moveWaypoint index direction prev = Fresh ys"
  shows "moveWaypoint (index + direction) (- direction) ys = Fresh prev"
  using assms
proof (elim moveWaypoint_FreshE)
  assume b: "0 \<le> index" "index < int (length prev)"
    "0 \<le> index + direction" "index + direction < int (length prev)"
    and ys: "ys = swap_at (nat index) (nat (index + direction)) prev"
  then have "moveWaypoint (index + direction) (- direction) ys
      = Fresh (swap_at (nat (index + direction)) (nat index) ys)"
    by (simp add: moveWaypoint_in_bounds)
  also have "swap_at (nat (index + direction)) (nat index) ys = prev"
    using b unfolding ys
    by (simp add: swap_at_commute [of "nat (index + direction)"] swap_at_involution)
  finally show ?thesis .
qed

theorem moveWaypoint_inverse_witness:
  "moveWaypoint 2 (- 1) [sample ! 0, sample ! 2, sample ! 1] = Fresh sample"
  using moveWaypoint_inverse [of 1 1 sample "[sample ! 0, sample ! 2, sample ! 1]"]
  by (simp add: sample_simps)

text \<open>C11: Reordering never adds, drops or duplicates a waypoint: the new array is a
  permutation of the previous one.\<close>

theorem moveWaypoint_permutes:
  assumes "moveWaypoint index direction prev = Fresh ys"
  shows "mset ys = mset prev"
  using assms by (elim moveWaypoint_FreshE) simp

theorem moveWaypoint_permutes_witness:
  "moveWaypoint 0 1 sample = Fresh [sample ! 1, sample ! 0, sample ! 2]
   \<and> mset [sample ! 1, sample ! 0, sample ! 2] = mset sample"
  using moveWaypoint_permutes [of 0 1 sample "[sample ! 1, sample ! 0, sample ! 2]"]
  by (simp add: sample_simps)

text \<open>C38: The guard of \<^verbatim>\<open>moveWaypoint\<close> tests the target only. With a target inside
  the array and an \<^verbatim>\<open>index\<close> outside it, the updater stores \<^verbatim>\<open>undefined\<close> at the
  target position instead of returning the list unchanged.\<close>

theorem moveWaypoint_hole:
  assumes "0 \<le> index + direction" "index + direction < int (length prev)"
    and "index < 0 \<or> int (length prev) \<le> index"
  shows "moveWaypoint index direction prev = Holed (nat (index + direction))"
  using assms by (auto simp: moveWaypoint_def Let_def)

theorem moveWaypoint_hole_witness:
  "moveWaypoint 3 (- 1) sample = Holed 2 \<and> moveWaypoint (- 1) 1 sample = Holed 0"
  using moveWaypoint_hole [of 3 "- 1" sample] moveWaypoint_hole [of "- 1" 1 sample]
  by (simp add: sample_def)

text \<open>The arrow buttons of the list pass the position of their own row, which is a
  position of the array, so no press of a button can produce an array with an
  \<^verbatim>\<open>undefined\<close> slot, whatever the direction.\<close>

lemma button_move_never_holes:
  assumes "i < length prev"
  shows "moveWaypoint (int i) direction prev \<noteq> Holed k"
  using assms by (simp add: moveWaypoint_Holed_iff)

section \<open>Refinement of the store contract\<close>

text \<open>For a position of the array, the updater implements the contract's
  \<open>moveAt\<close>: the list after the update is \<open>moveAt i d\<close> of the list before, in the
  swapping case and in the absorbed case alike.\<close>

theorem moveWaypoint_refines_moveAt:
  assumes "i < length prev"
  shows "commit prev (moveWaypoint (int i) d prev) = Some (moveAt i d prev)"
  using assms by (auto simp: moveWaypoint_def moveAt_def Let_def)

theorem moveWaypoint_refines_moveAt_witness:
  "commit sample (moveWaypoint (int 1) 1 sample) = Some (moveAt 1 1 sample)
   \<and> moveAt 1 1 sample = [sample ! 0, sample ! 2, sample ! 1]"
  using moveWaypoint_refines_moveAt [of 1 sample 1]
  by (simp add: sample_def moveAt_def swap_at_def)

lemma route_swap_at:
  "i < length ws \<Longrightarrow> j < length ws \<Longrightarrow> route (swap_at i j ws) = swap_at i j (route ws)"
  by (simp add: route_def map_swap_at)

text \<open>The route drawn on the map follows the list: reordering the waypoints
  reorders the coordinates of the line in the same way.\<close>

lemma route_moveWaypoint:
  assumes "i < length prev"
  shows "map_option route (commit prev (moveWaypoint (int i) d prev))
    = Some (moveAt i d (route prev))"
  using assms
  by (auto simp: moveWaypoint_def moveAt_def Let_def route_swap_at) (simp_all add: route_def)

lemma route_moveWaypoint_example:
  "map_option route (commit sample (moveWaypoint (int 0) 1 sample))
    = Some [(Fin 1, Fin 1), (Fin 0, Fin 0), (Fin 2, Fin 2)]"
  using route_moveWaypoint [of 0 sample 1]
  by (simp add: sample_def moveAt_def swap_at_def route_def)

lemma moveWaypoint_valid:
  assumes "valid_waypoints prev" and "moveWaypoint index direction prev = Fresh ys"
  shows "valid_waypoints ys"
  using assms(2,1) by (elim moveWaypoint_FreshE) (simp add: valid_waypoints_def)

section \<open>Clearing and appending\<close>

text \<open>Clearing always leaves the empty list and always counts as a change, also when
  the list was empty already.\<close>

lemma clearRoute_empties:
  "commit prev (clearRoute prev) = Some [] \<and> rerenders (clearRoute prev)"
  by (simp add: clearRoute_def)

lemma clicks_append:
  "clicks ps ws = ws @ map (\<lambda>(k, p). \<lparr>name = waypoint_name (length ws + k + 1), coord = p\<rparr>)
      (zip [0..<length ps] ps)"
proof (induction ps arbitrary: ws)
  case Nil
  then show ?case by simp
next
  case (Cons p ps)
  have "zip [0..<Suc (length ps)] (p # ps) = (0, p) # zip (map Suc [0..<length ps]) ps"
    by (simp add: upt_conv_Cons map_Suc_upt del: upt_Suc)
  also have "zip (map Suc [0..<length ps]) ps = map (\<lambda>(k, q). (Suc k, q)) (zip [0..<length ps] ps)"
    by (simp add: zip_map1)
  finally show ?case
    by (simp add: Cons.IH clickWaypoint_def case_prod_unfold comp_def)
qed

text \<open>C39: After any run of map clicks the list has grown by the number of clicks,
  and the route is the old route followed by the clicked coordinates in click order.\<close>

theorem clicks_route:
  "length (clicks ps ws) = length ws + length ps \<and> route (clicks ps ws) = route ws @ ps"
  by (simp add: clicks_append route_def comp_def case_prod_unfold zip_map_fst_snd map_snd_zip)

lemma map_name_clicks:
  "map name (clicks ps []) = map waypoint_name [1..<Suc (length ps)]"
proof -
  have "map name (clicks ps []) = map (\<lambda>k. waypoint_name (Suc k)) [0..<length ps]"
    using map_fst_zip_upt [of "\<lambda>k. waypoint_name (Suc k)" ps]
    by (simp add: clicks_append comp_def case_prod_unfold)
  also have "\<dots> = map waypoint_name (map Suc [0..<length ps])"
    by (simp add: comp_def)
  also have "map Suc [0..<length ps] = [1..<Suc (length ps)]"
    by (simp only: map_Suc_upt One_nat_def)
  finally show ?thesis .
qed

lemma waypoint_name_inj: "waypoint_name m = waypoint_name n \<longleftrightarrow> m = n"
  by (simp add: waypoint_name_def string_of_nat_inj)

text \<open>Clicks on an empty list name the waypoints \<^verbatim>\<open>Waypoint 1\<close>, \<^verbatim>\<open>Waypoint 2\<close>,
  and so on in click order, and no two of these names are equal.\<close>

theorem clicks_names:
  "map name (clicks ps []) = map waypoint_name [1..<Suc (length ps)]
   \<and> distinct (map name (clicks ps []))"
  by (simp add: map_name_clicks distinct_map inj_on_def waypoint_name_inj del: upt_Suc)

lemma clicks_example:
  "clicks [(Fin 1, Fin 2), (Fin 3, Fin 4)] []
    = [\<lparr>name = ''Waypoint 1'', coord = (Fin 1, Fin 2)\<rparr>,
       \<lparr>name = ''Waypoint 2'', coord = (Fin 3, Fin 4)\<rparr>]"
  by (simp add: clickWaypoint_def waypoint_name_def string_of_nat.simps digit_char_def)

end
