(* ===== verification/Bounding_Box.thy ===== *)
theory Bounding_Box
  imports Waypoint_Store
begin

text \<open>
  The bounding-box scan that \<^verbatim>\<open>geocodeScenes\<close> runs before \<^verbatim>\<open>map.fitBounds\<close>, and
  that the page's start-up self-test repeats on three fixed coordinates.

  \<open>bounds_init\<close> takes the four extrema from the first coordinate; \<open>bounds_step\<close> is
  the body of the \<^verbatim>\<open>forEach\<close> callback, four independent \<^verbatim>\<open>if\<close> statements, written
  with \<open>lower\<close> (\<^verbatim>\<open>if (v < lo) lo = v\<close>) and \<open>upper\<close> (\<^verbatim>\<open>if (v > hi) hi = v\<close>);
  \<open>bounds_of\<close> is the whole scan, a left fold over all coordinates, the first one
  included as in the source. On the empty list the source would read
  \<^verbatim>\<open>newWaypoints[0].coord\<close> of \<^verbatim>\<open>undefined\<close> and throw; that is the value \<open>None\<close>.

  The lemmas first treat one axis (\<open>foldl lower\<close>, \<open>foldl upper\<close>), then the record.
  The theorems show that on coordinates without \<open>NaN\<close> the result is the least box
  that holds every coordinate (\<open>bounds_tight\<close>), that on finite coordinates it is given
  by \<open>Min\<close> and \<open>Max\<close> of the library (\<open>bounds_of_finite\<close>), that it does not
  depend on the order of such coordinates (\<open>bounds_permutation\<close>), and what happens
  when a coordinate is \<open>NaN\<close>: a \<open>NaN\<close> in the first waypoint fixes both extrema of
  that axis to \<open>NaN\<close>, a \<open>NaN\<close> in a later one is skipped, so that the box then
  depends on the order (\<open>bounds_order_dependent\<close>).
\<close>

section \<open>The scan\<close>

record bounds =
  minLon :: jsnum
  maxLon :: jsnum
  minLat :: jsnum
  maxLat :: jsnum

definition lower :: "jsnum \<Rightarrow> jsnum \<Rightarrow> jsnum" where
  "lower lo v = (if js_lt v lo then v else lo)"

definition upper :: "jsnum \<Rightarrow> jsnum \<Rightarrow> jsnum" where
  "upper hi v = (if js_gt v hi then v else hi)"

definition bounds_init :: "lnglat \<Rightarrow> bounds" where
  "bounds_init c = \<lparr>minLon = fst c, maxLon = fst c, minLat = snd c, maxLat = snd c\<rparr>"

definition bounds_step :: "bounds \<Rightarrow> lnglat \<Rightarrow> bounds" where
  "bounds_step b c =
     \<lparr>minLon = lower (minLon b) (fst c), maxLon = upper (maxLon b) (fst c),
      minLat = lower (minLat b) (snd c), maxLat = upper (maxLat b) (snd c)\<rparr>"

definition bounds_of :: "lnglat list \<Rightarrow> bounds option" where
  "bounds_of cs = (case cs of [] \<Rightarrow> None | c # _ \<Rightarrow> Some (foldl bounds_step (bounds_init c) cs))"

definition waypoint_bounds :: "waypoint list \<Rightarrow> bounds option" where
  "waypoint_bounds ws = bounds_of (route ws)"

definition coords :: "lnglat list" where
  "coords = [(Fin 0, Fin 0), (Fin 5, Fin 10), (Fin (- 2), Fin 3)]"

definition encloses :: "bounds \<Rightarrow> lnglat \<Rightarrow> bool" where
  "encloses b c \<longleftrightarrow> js_le (minLon b) (fst c) \<and> js_le (fst c) (maxLon b)
     \<and> js_le (minLat b) (snd c) \<and> js_le (snd c) (maxLat b)"

definition no_nan :: "lnglat list \<Rightarrow> bool" where
  "no_nan cs \<longleftrightarrow> (\<forall>c \<in> set cs. \<not> is_nan (fst c) \<and> \<not> is_nan (snd c))"

section \<open>One axis\<close>

lemma lower_nan [simp]: "lower NaN v = NaN" "lower lo NaN = lo"
  by (simp_all add: lower_def)

lemma upper_nan [simp]: "upper NaN v = NaN" "upper hi NaN = hi"
  by (simp_all add: upper_def)

lemma lower_Fin [simp]: "lower (Fin a) (Fin b) = Fin (min a b)"
  by (simp add: lower_def min_def)

lemma upper_Fin [simp]: "upper (Fin a) (Fin b) = Fin (max a b)"
  by (simp add: upper_def max_def)

lemma lower_le: "\<not> is_nan lo \<Longrightarrow> \<not> is_nan v \<Longrightarrow> js_le (lower lo v) lo \<and> js_le (lower lo v) v"
  by (auto simp: lower_def js_le_def dest: js_lt_asym)

lemma upper_ge: "\<not> is_nan hi \<Longrightarrow> \<not> is_nan v \<Longrightarrow> js_le hi (upper hi v) \<and> js_le v (upper hi v)"
  by (auto simp: upper_def js_le_def dest: js_lt_asym)

lemma lower_cases: "lower lo v = lo \<or> lower lo v = v"
  by (simp add: lower_def)

lemma upper_cases: "upper hi v = hi \<or> upper hi v = v"
  by (simp add: upper_def)

lemma foldl_lower_nan [simp]: "foldl lower NaN vs = NaN"
  by (induction vs) simp_all

lemma foldl_upper_nan [simp]: "foldl upper NaN vs = NaN"
  by (induction vs) simp_all

lemma foldl_lower_mem: "foldl lower lo vs \<in> insert lo (set vs)"
  by (induction vs arbitrary: lo) (use lower_cases in force)+

lemma foldl_upper_mem: "foldl upper hi vs \<in> insert hi (set vs)"
  by (induction vs arbitrary: hi) (use upper_cases in force)+

lemma foldl_lower_not_nan:
  "\<not> is_nan lo \<Longrightarrow> \<forall>v \<in> set vs. \<not> is_nan v \<Longrightarrow> \<not> is_nan (foldl lower lo vs)"
  using foldl_lower_mem [of lo vs] by auto

lemma foldl_upper_not_nan:
  "\<not> is_nan hi \<Longrightarrow> \<forall>v \<in> set vs. \<not> is_nan v \<Longrightarrow> \<not> is_nan (foldl upper hi vs)"
  using foldl_upper_mem [of hi vs] by auto

lemma foldl_lower_le:
  assumes "\<not> is_nan lo" and "\<forall>v \<in> set vs. \<not> is_nan v"
  shows "js_le (foldl lower lo vs) lo \<and> (\<forall>v \<in> set vs. js_le (foldl lower lo vs) v)"
  using assms
proof (induction vs arbitrary: lo)
  case Nil
  then show ?case by (simp add: js_le_refl)
next
  case (Cons x xs)
  then have x: "\<not> is_nan x" and xs: "\<forall>v \<in> set xs. \<not> is_nan v" by simp_all
  from Cons.prems(1) x have l: "js_le (lower lo x) lo" "js_le (lower lo x) x"
    by (simp_all add: lower_le)
  then have "\<not> is_nan (lower lo x)" by (simp add: js_le_def)
  from Cons.IH [OF this xs]
  have "js_le (foldl lower (lower lo x) xs) (lower lo x)"
    and "\<forall>v \<in> set xs. js_le (foldl lower (lower lo x) xs) v" by simp_all
  with l show ?case by (auto intro: js_le_trans)
qed

lemma foldl_upper_ge:
  assumes "\<not> is_nan hi" and "\<forall>v \<in> set vs. \<not> is_nan v"
  shows "js_le hi (foldl upper hi vs) \<and> (\<forall>v \<in> set vs. js_le v (foldl upper hi vs))"
  using assms
proof (induction vs arbitrary: hi)
  case Nil
  then show ?case by (simp add: js_le_refl)
next
  case (Cons x xs)
  then have x: "\<not> is_nan x" and xs: "\<forall>v \<in> set xs. \<not> is_nan v" by simp_all
  from Cons.prems(1) x have l: "js_le hi (upper hi x)" "js_le x (upper hi x)"
    by (simp_all add: upper_ge)
  then have "\<not> is_nan (upper hi x)" by (simp add: js_le_def)
  from Cons.IH [OF this xs]
  have "js_le (upper hi x) (foldl upper (upper hi x) xs)"
    and "\<forall>v \<in> set xs. js_le v (foldl upper (upper hi x) xs)" by simp_all
  with l show ?case by (auto intro: js_le_trans)
qed

lemma foldl_lower_Fin: "foldl lower (Fin x) (map Fin rs) = Fin (Min (set (x # rs)))"
  unfolding Min.set_eq_fold by (induction rs arbitrary: x) (simp_all add: min.commute)

lemma foldl_upper_Fin: "foldl upper (Fin x) (map Fin rs) = Fin (Max (set (x # rs)))"
  unfolding Max.set_eq_fold by (induction rs arbitrary: x) (simp_all add: max.commute)

lemma foldl_lower_skip_nan:
  "foldl lower lo (filter (\<lambda>v. \<not> is_nan v) vs) = foldl lower lo vs"
  by (induction vs arbitrary: lo) (auto simp: is_nan_def)

lemma foldl_upper_skip_nan:
  "foldl upper hi (filter (\<lambda>v. \<not> is_nan v) vs) = foldl upper hi vs"
  by (induction vs arbitrary: hi) (auto simp: is_nan_def)

section \<open>The box\<close>

lemma foldl_bounds_step:
  "foldl bounds_step b cs =
     \<lparr>minLon = foldl lower (minLon b) (map fst cs), maxLon = foldl upper (maxLon b) (map fst cs),
      minLat = foldl lower (minLat b) (map snd cs), maxLat = foldl upper (maxLat b) (map snd cs)\<rparr>"
  by (induction cs arbitrary: b) (simp_all add: bounds_step_def)

lemma lower_self [simp]: "lower v v = v"
  by (simp add: lower_def)

lemma upper_self [simp]: "upper v v = v"
  by (simp add: upper_def)

lemma bounds_of_Nil [simp]: "bounds_of [] = None"
  by (simp add: bounds_of_def)

lemma bounds_step_init [simp]: "bounds_step (bounds_init c) c = bounds_init c"
  by (simp add: bounds_step_def bounds_init_def)

lemma bounds_of_Cons:
  "bounds_of (c # cs) = Some
     \<lparr>minLon = foldl lower (fst c) (map fst cs), maxLon = foldl upper (fst c) (map fst cs),
      minLat = foldl lower (snd c) (map snd cs), maxLat = foldl upper (snd c) (map snd cs)\<rparr>"
  by (simp add: bounds_of_def foldl_bounds_step) (simp add: bounds_init_def)

lemma bounds_of_SomeE:
  assumes "bounds_of cs = Some b"
  obtains c cs' where "cs = c # cs'"
    and "minLon b = foldl lower (fst c) (map fst cs')"
    and "maxLon b = foldl upper (fst c) (map fst cs')"
    and "minLat b = foldl lower (snd c) (map snd cs')"
    and "maxLat b = foldl upper (snd c) (map snd cs')"
  using assms by (cases cs) (auto simp: bounds_of_Cons)

lemma bounds_encloses:
  assumes "no_nan cs" and "bounds_of cs = Some b"
  shows "\<forall>c \<in> set cs. encloses b c"
  using assms(2)
proof (rule bounds_of_SomeE)
  fix c cs' assume cs: "cs = c # cs'"
    and b: "minLon b = foldl lower (fst c) (map fst cs')"
      "maxLon b = foldl upper (fst c) (map fst cs')"
      "minLat b = foldl lower (snd c) (map snd cs')"
      "maxLat b = foldl upper (snd c) (map snd cs')"
  from assms(1) cs have c: "\<not> is_nan (fst c)" "\<not> is_nan (snd c)"
    and f: "\<forall>v \<in> set (map fst cs'). \<not> is_nan v" and s: "\<forall>v \<in> set (map snd cs'). \<not> is_nan v"
    by (auto simp: no_nan_def)
  note lo = foldl_lower_le [OF c(1) f] foldl_lower_le [OF c(2) s]
    and hi = foldl_upper_ge [OF c(1) f] foldl_upper_ge [OF c(2) s]
  show ?thesis
    unfolding cs encloses_def b using lo hi by auto
qed

lemma bounds_attained:
  assumes "bounds_of cs = Some b"
  shows "minLon b \<in> fst ` set cs \<and> maxLon b \<in> fst ` set cs
    \<and> minLat b \<in> snd ` set cs \<and> maxLat b \<in> snd ` set cs"
  using assms
proof (rule bounds_of_SomeE)
  fix c cs' assume cs: "cs = c # cs'"
    and b: "minLon b = foldl lower (fst c) (map fst cs')"
      "maxLon b = foldl upper (fst c) (map fst cs')"
      "minLat b = foldl lower (snd c) (map snd cs')"
      "maxLat b = foldl upper (snd c) (map snd cs')"
  show ?thesis
    unfolding cs b
    using foldl_lower_mem [of "fst c" "map fst cs'"] foldl_upper_mem [of "fst c" "map fst cs'"]
      foldl_lower_mem [of "snd c" "map snd cs'"] foldl_upper_mem [of "snd c" "map snd cs'"]
    by auto
qed

lemma bounds_minimal:
  assumes "bounds_of cs = Some b" and "\<forall>c \<in> set cs. encloses b' c"
  shows "js_le (minLon b') (minLon b) \<and> js_le (maxLon b) (maxLon b')
    \<and> js_le (minLat b') (minLat b) \<and> js_le (maxLat b) (maxLat b')"
  using bounds_attained [OF assms(1)] assms(2) by (auto simp: encloses_def)

text \<open>C4: On coordinates none of which is \<open>NaN\<close>, the scan yields a box that holds
  every coordinate, each side of which passes through one of the coordinates, and which
  lies inside every other box that holds them all: the bounding box.\<close>

theorem bounds_tight:
  assumes "no_nan cs" and "bounds_of cs = Some b"
  shows "(\<forall>c \<in> set cs. encloses b c)
    \<and> minLon b \<in> fst ` set cs \<and> maxLon b \<in> fst ` set cs
    \<and> minLat b \<in> snd ` set cs \<and> maxLat b \<in> snd ` set cs
    \<and> (\<forall>b'. (\<forall>c \<in> set cs. encloses b' c) \<longrightarrow>
          js_le (minLon b') (minLon b) \<and> js_le (maxLon b) (maxLon b')
          \<and> js_le (minLat b') (minLat b) \<and> js_le (maxLat b) (maxLat b'))"
  using bounds_encloses [OF assms] bounds_attained [OF assms(2)] bounds_minimal [OF assms(2)]
  by blast

theorem bounds_tight_witness:
  "no_nan coords \<and> encloses (the (bounds_of coords)) (Fin 5, Fin 10)
   \<and> encloses (the (bounds_of coords)) (Fin (- 2), Fin 3)
   \<and> minLon (the (bounds_of coords)) = Fin (- 2)"
  using bounds_tight [of coords "the (bounds_of coords)"]
  by (simp add: coords_def no_nan_def bounds_of_Cons)

text \<open>C14: On finite coordinates the scan computes the minimum and maximum of the
  longitudes and of the latitudes, as \<open>Min\<close> and \<open>Max\<close> of the library define them.\<close>

theorem bounds_of_finite:
  assumes "ps \<noteq> []"
  shows "bounds_of (map (map_prod Fin Fin) ps) = Some
     \<lparr>minLon = Fin (Min (fst ` set ps)), maxLon = Fin (Max (fst ` set ps)),
      minLat = Fin (Min (snd ` set ps)), maxLat = Fin (Max (snd ` set ps))\<rparr>"
proof (cases ps)
  case Nil
  with assms show ?thesis by simp
next
  case (Cons p ps')
  have "bounds_of (map (map_prod Fin Fin) ps) = Some
     \<lparr>minLon = foldl lower (Fin (fst p)) (map Fin (map fst ps')),
      maxLon = foldl upper (Fin (fst p)) (map Fin (map fst ps')),
      minLat = foldl lower (Fin (snd p)) (map Fin (map snd ps')),
      maxLat = foldl upper (Fin (snd p)) (map Fin (map snd ps'))\<rparr>"
    unfolding Cons by (simp add: bounds_of_Cons comp_def)
  also have "set (fst p # map fst ps') = fst ` set ps" and "set (snd p # map snd ps') = snd ` set ps"
    unfolding Cons by simp_all
  ultimately show ?thesis
    by (simp only: foldl_lower_Fin foldl_upper_Fin)
qed

theorem bounds_of_finite_witness:
  "bounds_of (map (map_prod Fin Fin) [(2.2945, 48.8584), (2.3376, 48.8606)]) = Some
     \<lparr>minLon = Fin 2.2945, maxLon = Fin 2.3376, minLat = Fin 48.8584, maxLat = Fin 48.8606\<rparr>"
  using bounds_of_finite [of "[(2.2945, 48.8584), (2.3376, 48.8606)]"]
  by simp

text \<open>The assertion of the page's self-test holds: the scan of
  \<^verbatim>\<open>[[0, 0], [5, 10], [-2, 3]]\<close> gives \<^verbatim>\<open>minLon = -2\<close>, \<^verbatim>\<open>maxLon = 5\<close>,
  \<^verbatim>\<open>minLat = 0\<close>, \<^verbatim>\<open>maxLat = 10\<close>.\<close>

lemma bounds_self_test:
  "bounds_of coords = Some \<lparr>minLon = Fin (- 2), maxLon = Fin 5, minLat = Fin 0, maxLat = Fin 10\<rparr>"
  by (simp add: coords_def bounds_of_def bounds_init_def bounds_step_def)

text \<open>When the longitude of the first waypoint is \<open>NaN\<close>, both longitude extrema
  of the box are \<open>NaN\<close> whatever the other waypoints are, because every later
  comparison with them is false.\<close>

theorem bounds_nan_head:
  assumes "is_nan (fst c)"
  shows "\<exists>b. bounds_of (c # cs) = Some b \<and> minLon b = NaN \<and> maxLon b = NaN"
  using assms by (simp add: bounds_of_Cons is_nan_def)

theorem bounds_nan_head_witness:
  "\<exists>b. bounds_of [(NaN, Fin 1), (Fin 5, Fin 2)] = Some b \<and> minLon b = NaN \<and> maxLon b = NaN"
  using bounds_nan_head [of "(NaN, Fin 1)" "[(Fin 5, Fin 2)]"] by simp

text \<open>A \<open>NaN\<close> behind the first waypoint leaves the extrema of its axis as they
  were: the extrema of an axis are those of the first value and the later values that
  are not \<open>NaN\<close>.\<close>

theorem bounds_skips_later_nan:
  assumes "bounds_of (c # cs) = Some b"
  shows "minLon b = foldl lower (fst c) (filter (\<lambda>v. \<not> is_nan v) (map fst cs))
    \<and> maxLon b = foldl upper (fst c) (filter (\<lambda>v. \<not> is_nan v) (map fst cs))
    \<and> minLat b = foldl lower (snd c) (filter (\<lambda>v. \<not> is_nan v) (map snd cs))
    \<and> maxLat b = foldl upper (snd c) (filter (\<lambda>v. \<not> is_nan v) (map snd cs))"
  using assms by (auto simp: bounds_of_Cons foldl_lower_skip_nan foldl_upper_skip_nan)

theorem bounds_skips_later_nan_witness:
  "minLon (the (bounds_of [(Fin 1, Fin 0), (NaN, Fin 7), (Fin 3, NaN)])) = Fin 1
   \<and> maxLon (the (bounds_of [(Fin 1, Fin 0), (NaN, Fin 7), (Fin 3, NaN)])) = Fin 3
   \<and> maxLat (the (bounds_of [(Fin 1, Fin 0), (NaN, Fin 7), (Fin 3, NaN)])) = Fin 7"
  using bounds_skips_later_nan [of "(Fin 1, Fin 0)" "[(NaN, Fin 7), (Fin 3, NaN)]"
      "the (bounds_of [(Fin 1, Fin 0), (NaN, Fin 7), (Fin 3, NaN)])"]
  by (simp add: bounds_of_Cons)

text \<open>The box of coordinates without \<open>NaN\<close> does not depend on their order, so
  reordering the waypoints never changes the view that fits them.\<close>

theorem bounds_permutation:
  assumes "no_nan cs" and "mset cs = mset cs'"
  shows "bounds_of cs = bounds_of cs'"
proof (cases cs)
  case Nil
  with assms(2) show ?thesis by simp
next
  case (Cons c cs0)
  with assms(2) have "cs' \<noteq> []" by auto
  then obtain b b' where b: "bounds_of cs = Some b" and b': "bounds_of cs' = Some b'"
    using Cons by (cases cs') (auto simp: bounds_of_Cons)
  from assms have set: "set cs' = set cs" and nn: "no_nan cs'"
    by (auto simp: no_nan_def dest: mset_eq_setD)
  have 1: "\<forall>c \<in> set cs. encloses b' c" using bounds_encloses [OF nn b'] set by simp
  have 2: "\<forall>c \<in> set cs'. encloses b c" using bounds_encloses [OF assms(1) b] set by simp
  from bounds_minimal [OF b 1] bounds_minimal [OF b' 2]
  have "minLon b = minLon b'" "maxLon b = maxLon b'" "minLat b = minLat b'" "maxLat b = maxLat b'"
    by (auto intro: js_le_antisym)
  then have "b = b'" by simp
  with b b' show ?thesis by simp
qed

theorem bounds_permutation_witness:
  "bounds_of [(Fin 5, Fin 10), (Fin 0, Fin 0), (Fin (- 2), Fin 3)] = bounds_of coords"
  using bounds_permutation [of "[(Fin 5, Fin 10), (Fin 0, Fin 0), (Fin (- 2), Fin 3)]" coords]
  by (simp add: coords_def no_nan_def)

text \<open>C40: With a \<open>NaN\<close> among the coordinates the box depends on the order of the
  waypoints. Take any waypoints whose longitudes are numbers and one more whose
  longitude is \<open>NaN\<close>: with that one in front, both longitude extrema of the box are
  \<open>NaN\<close>; with that one at the end it is skipped, and the longitude extrema are the
  numbers they are without it. The two boxes differ although the waypoints are the
  same.\<close>

theorem bounds_order_dependent:
  assumes "is_nan (fst c)" and "cs \<noteq> []" and "\<forall>d \<in> set cs. \<not> is_nan (fst d)"
  shows "\<exists>b b' b0. bounds_of (c # cs) = Some b \<and> bounds_of (cs @ [c]) = Some b'
      \<and> bounds_of cs = Some b0
      \<and> minLon b = NaN \<and> maxLon b = NaN
      \<and> minLon b' = minLon b0 \<and> maxLon b' = maxLon b0
      \<and> \<not> is_nan (minLon b') \<and> \<not> is_nan (maxLon b') \<and> b \<noteq> b'"
proof -
  from assms(2) obtain d ds where cs: "cs = d # ds" by (cases cs) auto
  with assms(3) have nn: "\<not> is_nan (fst d)" "\<forall>v \<in> set (map fst ds). \<not> is_nan v" by auto
  then have "\<not> is_nan (foldl lower (fst d) (map fst ds))"
    and "\<not> is_nan (foldl upper (fst d) (map fst ds))"
    by (simp_all add: foldl_lower_not_nan foldl_upper_not_nan)
  with assms(1) show ?thesis
    unfolding cs by (auto simp: bounds_of_Cons is_nan_def)
qed

theorem bounds_order_dependent_witness:
  "bounds_of [(NaN, Fin 0), (Fin 1, Fin 0)] \<noteq> bounds_of [(Fin 1, Fin 0), (NaN, Fin 0)]
   \<and> minLon (the (bounds_of [(NaN, Fin 0), (Fin 1, Fin 0)])) = NaN
   \<and> minLon (the (bounds_of [(Fin 1, Fin 0), (NaN, Fin 0)])) = Fin 1"
  using bounds_order_dependent [of "(NaN, Fin 0)" "[(Fin 1, Fin 0)]"]
  by (simp add: bounds_of_Cons)

lemma bounds_valid:
  assumes "\<forall>c \<in> set cs. valid_coord c" and "bounds_of cs = Some b"
  shows "valid_coord (minLon b, minLat b) \<and> valid_coord (maxLon b, maxLat b)"
  using bounds_attained [OF assms(2)] assms(1) by (auto simp: valid_coord_def)

lemma bounds_single: "bounds_of [c] = Some (bounds_init c)"
  by (simp add: bounds_of_def)

end
