(* ===== verification/Map_View.thy ===== *)
theory Map_View
  imports Waypoint_Store Bounding_Box
begin

text \<open>
  The map view adapter: the part of \<^verbatim>\<open>src/unnamed/part_000\<close> that owns the MapLibre
  widget and keeps its markers and its route line in step with the waypoint store.

  \<^item> \<open>widget\<close> records what the page can observe of a MapLibre map: the sources and
    layers of its style, the terrain setting, the data of the \<^verbatim>\<open>route\<close> source
    (\<open>None\<close> until the source exists), the controls, the markers attached to it, the
    camera and whether the \<^verbatim>\<open>load\<close> event has fired. \<open>new_map\<close>, \<open>addControl\<close>,
    \<open>on_load\<close>, \<open>addTo\<close>, \<open>remove_marker\<close>, \<open>setData\<close>, \<open>setTerrain\<close> and \<open>fitBounds\<close>
    are the calls the page makes on it, with the arguments the page passes.
  \<^item> \<open>view\<close> is the state the adapter keeps in refs (\<^verbatim>\<open>mapRef\<close>, \<^verbatim>\<open>markersRef\<close>,
    \<^verbatim>\<open>maplibreRef\<close>) and in the closure of the mount effect (\<^verbatim>\<open>isMounted\<close>); the field
    \<open>importPending\<close> says that the promise of the dynamic import is still unresolved.
    The record is extensible and the operations are stated on \<open>'a view_scheme\<close>, so
    the page state of \<^verbatim>\<open>Page_Controller\<close> extends it and inherits them.
  \<^item> \<open>import_resolved\<close>, \<open>map_loaded\<close> and \<open>unmount\<close> are the three callbacks of the mount
    effect; \<open>render_markers\<close> is the body of the effect that depends on the waypoints;
    \<open>set_terrain\<close> and \<open>fit_view\<close> are the calls the handlers make through
    \<^verbatim>\<open>mapRef.current\<close>, each guarded by the null test of the source.
  \<^item> The lemmas give the closed form of the marker loops (\<open>fold_remove_marker_eq\<close>,
    \<open>fold_addTo_eq\<close>) and of the whole effect (\<open>render_markers_Some\<close>), the frame of each
    loop, and the content of the markers (\<open>nth_markers_of\<close>, \<open>map_pos_markers_of\<close>,
    \<open>map_label_markers_of\<close>).

  The calls on the widget are total: each records what the page asked for. What the
  library does with a request it refuses (a marker or a box with a coordinate that is
  \<open>NaN\<close> or out of range, terrain set before the style has loaded) is code of MapLibre
  and is not modelled, so the lemmas say what the page hands to the map, not what the
  map draws.

  A marker is identified by its label and position, so \<open>remove_marker\<close> takes out one
  equal marker where the widget takes out the very object; the two agree whenever the
  markers the adapter remembers are the markers attached, which is the invariant of
  \<^verbatim>\<open>Page_Lifecycle\<close>.
\<close>

section \<open>The widget\<close>

record terrain_spec =
  source :: string
  exaggeration :: real

record marker =
  label :: string
  pos :: lnglat

datatype camera = Looking lnglat real real | Fitted bounds nat

record widget =
  sources :: "string list"
  layers :: "string list"
  terrain :: "terrain_spec option"
  route_data :: "lnglat list option"
  controls :: "string list"
  attached :: "marker list"
  camera :: camera
  loaded :: bool

definition terrain_on :: terrain_spec where
  "terrain_on = \<lparr>source = ''terrain'', exaggeration = 1.5\<rparr>"

definition new_map :: widget where
  "new_map =
     \<lparr>sources = [''osm-tiles'', ''terrain''],
      layers = [''osm-tiles''],
      terrain = Some terrain_on,
      route_data = None,
      controls = [],
      attached = [],
      camera = Looking (Fin 0, Fin 0) 2 0,
      loaded = False\<rparr>"

definition addControl :: "string \<Rightarrow> widget \<Rightarrow> widget" where
  "addControl c w = w\<lparr>controls := controls w @ [c]\<rparr>"

definition on_load :: "widget \<Rightarrow> widget" where
  "on_load w =
     w\<lparr>sources := sources w @ [''route''],
       route_data := Some [],
       layers := layers w @ [''route-line'', ''sky''],
       loaded := True\<rparr>"

definition addTo :: "marker \<Rightarrow> widget \<Rightarrow> widget" where
  "addTo mk w = w\<lparr>attached := attached w @ [mk]\<rparr>"

definition remove_marker :: "marker \<Rightarrow> widget \<Rightarrow> widget" where
  "remove_marker mk w = w\<lparr>attached := remove1 mk (attached w)\<rparr>"

definition setData :: "lnglat list \<Rightarrow> widget \<Rightarrow> widget" where
  "setData cs w = (case route_data w of None \<Rightarrow> w | Some old \<Rightarrow> w\<lparr>route_data := Some cs\<rparr>)"

definition setTerrain :: "terrain_spec option \<Rightarrow> widget \<Rightarrow> widget" where
  "setTerrain t w = w\<lparr>terrain := t\<rparr>"

definition fitBounds :: "bounds \<Rightarrow> nat \<Rightarrow> widget \<Rightarrow> widget" where
  "fitBounds b padding w = w\<lparr>camera := Fitted b padding\<rparr>"

section \<open>The adapter state\<close>

record view =
  mapRef :: "widget option"
  markersRef :: "marker list"
  maplibreRef :: bool
  isMounted :: bool
  importPending :: bool

definition view_init :: view where
  "view_init = \<lparr>mapRef = None, markersRef = [], maplibreRef = False, isMounted = True,
                 importPending = True\<rparr>"

definition import_resolved :: "'a view_scheme \<Rightarrow> 'a view_scheme" where
  "import_resolved v =
     (if \<not> isMounted v then v\<lparr>importPending := False\<rparr>
      else v\<lparr>importPending := False, maplibreRef := True,
             mapRef := Some (addControl ''NavigationControl'' new_map)\<rparr>)"

definition map_loaded :: "'a view_scheme \<Rightarrow> 'a view_scheme" where
  "map_loaded v =
     (case mapRef v of None \<Rightarrow> v | Some w \<Rightarrow> v\<lparr>mapRef := Some (on_load w)\<rparr>)"

definition markers_of :: "waypoint list \<Rightarrow> marker list" where
  "markers_of ws =
     map (\<lambda>(index, wp). \<lparr>label = string_of_nat (index + 1), pos = coord wp\<rparr>) (enumerate 0 ws)"

definition render_markers :: "waypoint list \<Rightarrow> 'a view_scheme \<Rightarrow> 'a view_scheme" where
  "render_markers ws v =
     (case mapRef v of
        None \<Rightarrow> v
      | Some w \<Rightarrow>
          let w1 = fold remove_marker (markersRef v) w;
              ms = (if maplibreRef v then markers_of ws else []);
              w2 = fold addTo ms w1;
              w3 = setData (route ws) w2
          in v\<lparr>markersRef := ms, mapRef := Some w3\<rparr>)"

definition set_terrain :: "bool \<Rightarrow> 'a view_scheme \<Rightarrow> 'a view_scheme" where
  "set_terrain enabled v =
     (case mapRef v of
        None \<Rightarrow> v
      | Some w \<Rightarrow> v\<lparr>mapRef := Some (setTerrain (if enabled then None else Some terrain_on) w)\<rparr>)"

definition fit_view :: "waypoint list \<Rightarrow> 'a view_scheme \<Rightarrow> 'a view_scheme" where
  "fit_view ws v =
     (case mapRef v of
        None \<Rightarrow> v
      | Some w \<Rightarrow>
          (case waypoint_bounds ws of
             None \<Rightarrow> v
           | Some b \<Rightarrow> v\<lparr>mapRef := Some (fitBounds b 50 w)\<rparr>))"

definition unmount :: "'a view_scheme \<Rightarrow> 'a view_scheme" where
  "unmount v = v\<lparr>isMounted := False, mapRef := None\<rparr>"

declare addControl_def [handler_defs] on_load_def [handler_defs] addTo_def [handler_defs]
  remove_marker_def [handler_defs] setData_def [handler_defs] setTerrain_def [handler_defs]
  fitBounds_def [handler_defs] import_resolved_def [handler_defs] map_loaded_def [handler_defs]
  render_markers_def [handler_defs] set_terrain_def [handler_defs] fit_view_def [handler_defs]
  unmount_def [handler_defs]

section \<open>The marker loops\<close>


lemma attached_fold_remove [simp]:
  "attached (fold remove_marker ms w) = fold remove1 ms (attached w)"
  by (induction ms arbitrary: w) (simp_all add: remove_marker_def)

lemma attached_fold_addTo [simp]: "attached (fold addTo ms w) = attached w @ ms"
  by (induction ms arbitrary: w) (simp_all add: addTo_def)

lemma fold_remove_marker_more [frame]:
  "terrain (fold remove_marker ms w) = terrain w"
  "route_data (fold remove_marker ms w) = route_data w"
  "loaded (fold remove_marker ms w) = loaded w"
  "camera (fold remove_marker ms w) = camera w"
  "sources (fold remove_marker ms w) = sources w"
  "layers (fold remove_marker ms w) = layers w"
  "controls (fold remove_marker ms w) = controls w"
  by (induction ms arbitrary: w; simp add: remove_marker_def)+

lemma fold_addTo_more [frame]:
  "terrain (fold addTo ms w) = terrain w"
  "route_data (fold addTo ms w) = route_data w"
  "loaded (fold addTo ms w) = loaded w"
  "camera (fold addTo ms w) = camera w"
  "sources (fold addTo ms w) = sources w"
  "layers (fold addTo ms w) = layers w"
  "controls (fold addTo ms w) = controls w"
  by (induction ms arbitrary: w; simp add: addTo_def)+

lemma fold_remove_marker_eq:
  "fold remove_marker ms w = w\<lparr>attached := fold remove1 ms (attached w)\<rparr>"
  by (induction ms arbitrary: w) (simp_all add: remove_marker_def)

lemma fold_addTo_eq: "fold addTo ms w = w\<lparr>attached := attached w @ ms\<rparr>"
  by (induction ms arbitrary: w) (simp_all add: addTo_def)

lemma setData_eq: "setData cs w = w\<lparr>route_data := map_option (\<lambda>old. cs) (route_data w)\<rparr>"
  by (cases "route_data w") (simp_all add: setData_def)

lemma render_markers_None: "mapRef v = None \<Longrightarrow> render_markers ws v = v"
  by (simp add: render_markers_def)

lemma render_markers_Some:
  assumes "mapRef v = Some w"
  shows "render_markers ws v =
     v\<lparr>markersRef := (if maplibreRef v then markers_of ws else []),
       mapRef := Some (w\<lparr>attached := fold remove1 (markersRef v) (attached w)
                            @ (if maplibreRef v then markers_of ws else []),
                          route_data := map_option (\<lambda>old. route ws) (route_data w)\<rparr>)\<rparr>"
  using assms
  by (simp add: render_markers_def Let_def fold_remove_marker_eq fold_addTo_eq setData_eq)

text \<open>The effect touches the markers and the route data of the widget and nothing
  else: style, terrain, camera and controls are as before.\<close>

lemma render_markers_keeps:
  assumes "mapRef v = Some w"
  shows "\<exists>w'. mapRef (render_markers ws v) = Some w'
    \<and> terrain w' = terrain w \<and> camera w' = camera w \<and> loaded w' = loaded w
    \<and> sources w' = sources w \<and> layers w' = layers w \<and> controls w' = controls w"
  using assms
  by (cases "route_data (fold addTo (if maplibreRef v then markers_of ws else [])
        (fold remove_marker (markersRef v) w))")
    (simp_all add: render_markers_def Let_def setData_def frame)

lemma length_markers_of [simp]: "length (markers_of ws) = length ws"
  by (simp add: markers_of_def)

lemma nth_markers_of:
  "i < length ws \<Longrightarrow> markers_of ws ! i = \<lparr>label = string_of_nat (i + 1), pos = coord (ws ! i)\<rparr>"
  by (simp add: markers_of_def nth_enumerate_eq)

lemma map_pos_markers_of: "map pos (markers_of ws) = route ws"
  by (rule nth_equalityI) (simp_all add: nth_markers_of route_def)

lemma map_label_markers_of: "map label (markers_of ws) = map string_of_nat [1..<Suc (length ws)]"
  by (rule nth_equalityI) (simp_all add: nth_markers_of del: upt_Suc)

lemma markers_of_Nil [simp]: "markers_of [] = []"
  by (simp add: markers_of_def)

section \<open>The render effect\<close>

text \<open>C9: When the adapter remembers exactly the markers on the map and the library
  is loaded, one run of the render effect for the waypoints \<open>ws\<close> leaves on the map one
  marker per waypoint, in the order of the store, labelled 1, 2, 3, ... and placed at the
  waypoint's coordinate; no marker of the previous run survives; the adapter remembers
  the new markers; and the route line, where the source exists, holds the coordinates
  of \<open>ws\<close> in order.\<close>

theorem render_markers_sync:
  assumes "mapRef v = Some w" and "attached w = markersRef v" and "maplibreRef v"
  shows "\<exists>w'. mapRef (render_markers ws v) = Some w'
    \<and> attached w' = markers_of ws
    \<and> markersRef (render_markers ws v) = markers_of ws
    \<and> map pos (attached w') = route ws
    \<and> map label (attached w') = map string_of_nat [1..<Suc (length ws)]
    \<and> route_data w' = map_option (\<lambda>old. route ws) (route_data w)"
  using assms
  by (simp add: render_markers_Some map_pos_markers_of map_label_markers_of del: upt_Suc)

theorem render_markers_sync_witness:
  "\<exists>w'. mapRef (render_markers sample (map_loaded (import_resolved view_init))) = Some w'
    \<and> attached w' = markers_of sample
    \<and> markersRef (render_markers sample (map_loaded (import_resolved view_init))) = markers_of sample
    \<and> map pos (attached w') = route sample
    \<and> map label (attached w') = map string_of_nat [1..<Suc (length sample)]
    \<and> route_data w' = Some (route sample)"
  using render_markers_sync [of "map_loaded (import_resolved view_init)"
      "on_load (addControl ''NavigationControl'' new_map)" sample]
  by (simp add: import_resolved_def map_loaded_def view_init_def on_load_def addControl_def
      new_map_def)

end
