(* ===== verification/Parse_Float.thy ===== *)
theory Parse_Float
  imports JS_Number JS_String
begin

text \<open>
  The values a geocoding reply can hold and the library function \<^verbatim>\<open>parseFloat\<close> that
  \<^verbatim>\<open>geocodeScenes\<close> applies to the \<^verbatim>\<open>lon\<close> and \<^verbatim>\<open>lat\<close> fields of the first candidate.

  \<open>json\<close> is the result of \<^verbatim>\<open>res.json()\<close>; an object is the list of its members in
  the order of the text. \<open>parseFloat\<close> takes \<open>None\<close> for \<^verbatim>\<open>undefined\<close> (a field
  the candidate does not have). It converts its argument to a string and reads the
  longest prefix that is a decimal literal: white space is skipped, then an optional
  sign, then \<^verbatim>\<open>Infinity\<close> or digits with an optional fraction and an optional exponent
  (\<open>unsigned_literal\<close>, \<open>exponent_part\<close>); what follows the literal is ignored, and
  without a literal the result is \<open>NaN\<close>. A number converts to a string that reads
  back as itself, so \<open>parseFloat\<close> of a number is that number; \<^verbatim>\<open>null\<close>, booleans,
  objects and \<^verbatim>\<open>undefined\<close> convert to strings that start with a letter or a bracket;
  an array converts to its elements joined by commas, so only its first element counts.
  The value of a literal is its exact decimal value: the rounding to the nearest double
  and the overflow of a huge exponent to \<^verbatim>\<open>Infinity\<close> are not modelled.
\<close>

section \<open>JSON values\<close>

datatype json =
    JNull
  | JBool bool
  | JNum jsnum
  | JStr string
  | JArr "json list"
  | JObj "(string \<times> json) list"

section \<open>Decimal literals\<close>

definition is_digit :: "char \<Rightarrow> bool" where
  "is_digit c \<longleftrightarrow> c \<in> set ''0123456789''"

definition digits_val :: "string \<Rightarrow> real" where
  "digits_val ds = real (nat_of_string ds)"

definition scale10 :: "real \<Rightarrow> int \<Rightarrow> real" where
  "scale10 x e = (if 0 \<le> e then x * 10 ^ nat e else x / 10 ^ nat (- e))"

text \<open>The exponent part at the head of a string, and how many characters it takes.\<close>

definition exponent_part :: "string \<Rightarrow> int" where
  "exponent_part s =
     (case s of
        [] \<Rightarrow> 0
      | c # r \<Rightarrow>
          if c = CHR ''e'' \<or> c = CHR ''E'' then
            (case r of
               [] \<Rightarrow> 0
             | d # r' \<Rightarrow>
                 if d = CHR ''-'' then - int (nat_of_string (takeWhile is_digit r'))
                 else if d = CHR ''+'' then int (nat_of_string (takeWhile is_digit r'))
                 else int (nat_of_string (takeWhile is_digit r)))
          else 0)"

definition unsigned_literal :: "string \<Rightarrow> jsnum" where
  "unsigned_literal t =
     (if take 8 t = ''Infinity'' then PosInf
      else
        let ip = takeWhile is_digit t;
            r1 = dropWhile is_digit t;
            fp = (case r1 of [] \<Rightarrow> [] | c # r \<Rightarrow> if c = CHR ''.'' then takeWhile is_digit r else []);
            r2 = (case r1 of [] \<Rightarrow> [] | c # r \<Rightarrow> if c = CHR ''.'' then dropWhile is_digit r else r1)
        in if ip = [] \<and> fp = [] then NaN
           else Fin (scale10 (digits_val ip + digits_val fp / 10 ^ length fp) (exponent_part r2)))"

definition js_neg :: "jsnum \<Rightarrow> jsnum" where
  "js_neg a = (case a of NaN \<Rightarrow> NaN | NegInf \<Rightarrow> PosInf | Fin r \<Rightarrow> Fin (- r) | PosInf \<Rightarrow> NegInf)"

definition parseFloat_str :: "string \<Rightarrow> jsnum" where
  "parseFloat_str s =
     (case trimStart s of
        [] \<Rightarrow> NaN
      | c # r \<Rightarrow>
          if c = CHR ''-'' then js_neg (unsigned_literal r)
          else if c = CHR ''+'' then unsigned_literal r
          else unsigned_literal (c # r))"

fun parseFloat :: "json option \<Rightarrow> jsnum" where
  "parseFloat None = NaN"
| "parseFloat (Some JNull) = NaN"
| "parseFloat (Some (JBool b)) = NaN"
| "parseFloat (Some (JNum n)) = n"
| "parseFloat (Some (JStr s)) = parseFloat_str s"
| "parseFloat (Some (JArr [])) = NaN"
| "parseFloat (Some (JArr (x # xs))) = parseFloat (Some x)"
| "parseFloat (Some (JObj kvs)) = NaN"

section \<open>Facts about parsing\<close>

lemma js_neg_neg [simp]: "js_neg (js_neg a) = a"
  by (cases a) (simp_all add: js_neg_def)

lemma is_nan_js_neg [simp]: "is_nan (js_neg a) \<longleftrightarrow> is_nan a"
  by (cases a) (simp_all add: js_neg_def)

lemma js_lt_neg: "js_lt (js_neg a) (js_neg b) \<longleftrightarrow> js_lt b a"
  by (cases a; cases b; simp add: js_neg_def)

lemma scale10_zero [simp]: "scale10 x 0 = x"
  by (simp add: scale10_def)

lemma exponent_part_Nil [simp]: "exponent_part [] = 0"
  by (simp add: exponent_part_def)

lemma parseFloat_str_skips_space:
  "is_js_space c \<Longrightarrow> parseFloat_str (c # s) = parseFloat_str s"
  by (simp add: parseFloat_str_def trimStart_def)

lemma unsigned_literal_digits:
  assumes "ds \<noteq> []" and "\<forall>c \<in> set ds. is_digit c"
  shows "unsigned_literal ds = Fin (real (nat_of_string ds))"
proof -
  from assms have inf: "take 8 ds \<noteq> ''Infinity''"
    by (cases ds) (auto simp: is_digit_def)
  from assms(2) have tw: "takeWhile is_digit ds = ds" and dw: "dropWhile is_digit ds = []"
    by simp_all
  show ?thesis
    unfolding unsigned_literal_def Let_def tw dw
    using inf assms(1) by (simp add: digits_val_def nat_of_string_def)
qed

lemmas parseFloat_eval = parseFloat_str_def trimStart_def is_js_space_def js_spaces_def
  unsigned_literal_def is_digit_def Let_def digits_val_def nat_of_string_def digit_val_def
  scale10_def exponent_part_def js_neg_def

lemma parseFloat_examples:
  "parseFloat_str ''48.8584'' = Fin 48.8584"
  "parseFloat_str ''  -2.5e-1xyz'' = Fin (- 0.25)"
  "parseFloat_str ''.5'' = Fin 0.5"
  "parseFloat_str ''5.'' = Fin 5"
  "parseFloat_str ''.'' = NaN"
  "parseFloat_str ''1e'' = Fin 1"
  "parseFloat_str ''-Infinityx'' = NegInf"
  "parseFloat_str ''abc'' = NaN"
  "parseFloat_str [] = NaN"
  by (simp_all add: parseFloat_eval)

end
