(* ===== verification/Geocoding.thy ===== *)
theory Geocoding
  imports Parse_Float Waypoint_Store "HOL-Library.Sublist"
begin

text \<open>
  The geocoding batch of \<^verbatim>\<open>geocodeScenes\<close>, without the page around it.

  \<^item> \<open>scene_names\<close> is the first statement: the text area split at runs of line
    feeds, each piece trimmed, empty pieces dropped.
  \<^item> The geocoding service is the environment: a \<open>network\<close> gives, for the number of
    the request within the batch and the name sent, the \<open>response\<close> that request
    gets. \<open>Rejected msg\<close> is a \<^verbatim>\<open>fetch\<close> that throws, \<open>Replied ok b\<close> a reply with
    its \<^verbatim>\<open>res.ok\<close> flag whose body either fails to parse as JSON or parses.
  \<^item> \<open>geocode_one\<close> is the body of the \<^verbatim>\<open>for\<close> loop, \<^verbatim>\<open>try\<close> and \<^verbatim>\<open>catch\<close>
    included: every \<^verbatim>\<open>throw\<close> and every rejected promise ends in the notice of the
    \<^verbatim>\<open>catch\<close> block, an empty or non-array reply in the notice of the \<^verbatim>\<open>else\<close>
    branch, anything else in a waypoint whose coordinate is \<^verbatim>\<open>parseFloat\<close> of the
    fields \<^verbatim>\<open>lon\<close> and \<^verbatim>\<open>lat\<close> of the first candidate. A first candidate \<^verbatim>\<open>null\<close>
    makes the destructuring throw; the text of that error is the engine's
    (\<open>destructure_message\<close> is V8's).
  \<^item> \<open>batch_step\<close> and \<open>geocode_batch\<close> are the loop: requests are issued one after
    the other in the order of the names, and the batch collects the names requested, the
    notices shown and the waypoints found.

  \<open>found_at\<close> and \<open>notice_at\<close> describe the outcome of the request at one position;
  \<open>geocode_batch_eq\<close> shows that the loop computes exactly the outcomes of all
  positions in order, from which the theorems on order, counts and requests follow.
  \<open>request_name\<close> is the shape of a name that \<open>scene_names\<close> lets through.
\<close>

section \<open>Names\<close>

definition scene_names :: "string \<Rightarrow> string list" where
  "scene_names sceneText = filter truthy (map trim (split_newlines sceneText))"

section \<open>Responses\<close>

datatype body = Unparsable string | Parsed json

datatype response = Rejected string | Replied bool body

type_synonym network = "nat \<Rightarrow> string \<Rightarrow> response"

definition lookup_prop :: "string \<Rightarrow> json \<Rightarrow> json option" where
  "lookup_prop k v = (case v of JObj kvs \<Rightarrow> map_of (rev kvs) k | _ \<Rightarrow> None)"

section \<open>Notices\<close>

definition empty_notice :: string where
  "empty_notice = ''Please enter one or more scene names to geocode.''"

definition missing_notice :: "string \<Rightarrow> string" where
  "missing_notice nm = ''Could not find location: '' @ nm"

definition error_notice :: "string \<Rightarrow> string \<Rightarrow> string" where
  "error_notice nm msg = ''Error geocoding '' @ nm @ '': '' @ msg"

definition failed_message :: "string \<Rightarrow> string" where
  "failed_message nm = ''Geocoding failed for '' @ nm"

definition destructure_message :: string where
  "destructure_message = ''Cannot destructure property 'lat' of 'data[0]' as it is null.''"

section \<open>One lookup\<close>

datatype outcome = Found waypoint | Notice string

definition geocode_one :: "string \<Rightarrow> response \<Rightarrow> outcome" where
  "geocode_one nm r =
     (case r of
        Rejected msg \<Rightarrow> Notice (error_notice nm msg)
      | Replied ok b \<Rightarrow>
          if \<not> ok then Notice (error_notice nm (failed_message nm))
          else (case b of
                  Unparsable msg \<Rightarrow> Notice (error_notice nm msg)
                | Parsed data \<Rightarrow>
                    (case data of
                       JArr (first # rest) \<Rightarrow>
                         if first = JNull then Notice (error_notice nm destructure_message)
                         else Found \<lparr>name = nm,
                                coord = (parseFloat (lookup_prop ''lon'' first),
                                         parseFloat (lookup_prop ''lat'' first))\<rparr>
                     | _ \<Rightarrow> Notice (missing_notice nm))))"

section \<open>The batch\<close>

record batch =
  requests :: "string list"
  notices :: "string list"
  newWaypoints :: "waypoint list"

definition batch_start :: batch where
  "batch_start = \<lparr>requests = [], notices = [], newWaypoints = []\<rparr>"

definition batch_step :: "network \<Rightarrow> batch \<Rightarrow> string \<Rightarrow> batch" where
  "batch_step net b nm =
     (case geocode_one nm (net (length (requests b)) nm) of
        Found wp \<Rightarrow> b\<lparr>requests := requests b @ [nm], newWaypoints := newWaypoints b @ [wp]\<rparr>
      | Notice n \<Rightarrow> b\<lparr>requests := requests b @ [nm], notices := notices b @ [n]\<rparr>)"

definition geocode_batch :: "network \<Rightarrow> string list \<Rightarrow> batch" where
  "geocode_batch net names = foldl (batch_step net) batch_start names"

definition eiffel_louvre :: string where
  "eiffel_louvre = ''Eiffel Tower'' @ [newline, newline] @ ''Louvre Museum''"

section \<open>Reference description of a batch\<close>

definition found_at :: "network \<Rightarrow> nat \<times> string \<Rightarrow> waypoint option" where
  "found_at net p =
     (case geocode_one (snd p) (net (fst p) (snd p)) of Found wp \<Rightarrow> Some wp | Notice n \<Rightarrow> None)"

definition notice_at :: "network \<Rightarrow> nat \<times> string \<Rightarrow> string option" where
  "notice_at net p =
     (case geocode_one (snd p) (net (fst p) (snd p)) of Found wp \<Rightarrow> None | Notice n \<Rightarrow> Some n)"

text \<open>The shape of a name that a request can carry: not empty, on one line, and with
  no white space at either end.\<close>

definition request_name :: "string \<Rightarrow> bool" where
  "request_name nm \<longleftrightarrow>
     nm \<noteq> [] \<and> newline \<notin> set nm \<and> \<not> is_js_space (hd nm) \<and> \<not> is_js_space (last nm)"

section \<open>Facts about the names\<close>

lemma trim_Nil [simp]: "trim [] = []"
  by (simp add: trim_def trimStart_def)

lemma truthy_trim_filter:
  "filter truthy (map trim (filter truthy xs)) = filter truthy (map trim xs)"
  by (induction xs) (auto simp: truthy_def)

text \<open>A name of a batch is what \<^verbatim>\<open>trim\<close> leaves of a piece of the text between line
  feeds, and is not empty.\<close>

lemma scene_names_line:
  assumes "nm \<in> set (scene_names s)"
  obtains seg where "newline \<notin> set seg" and "nm = trim seg" and "nm \<noteq> []"
proof -
  from assms obtain seg where "seg \<in> set (split_newlines s)" and "nm = trim seg" and "nm \<noteq> []"
    by (auto simp: scene_names_def truthy_def)
  with that show thesis by (auto dest: split_newlines_no_newline)
qed

text \<open>Splitting at runs of line feeds and dropping empty pieces gives the same
  names as cutting the text at every single line feed, trimming each line and dropping
  the lines that are empty or blank: one name per non-blank line, in the order of the
  lines.\<close>

theorem scene_names_split_on:
  "scene_names s = filter truthy (map trim (split_on newline s))"
proof -
  have "scene_names s = filter truthy (map trim (filter truthy (split_newlines s)))"
    by (simp only: scene_names_def truthy_trim_filter)
  also have "\<dots> = filter truthy (map trim (filter truthy (split_on newline s)))"
    by (simp only: nonempty_split_newlines)
  finally show ?thesis by (simp only: truthy_trim_filter)
qed

lemma scene_names_request: "list_all request_name (scene_names s)"
proof -
  have "request_name nm" if "nm \<in> set (scene_names s)" for nm
  proof -
    from that obtain seg where "newline \<notin> set seg" and "nm = trim seg" and "nm \<noteq> []"
      by (rule scene_names_line)
    then show ?thesis
      using set_trim_subset [of seg] by (auto simp: request_name_def hd_trim last_trim)
  qed
  then show ?thesis by (simp add: list_all_iff)
qed

text \<open>C33: Every name of a batch is non-empty, holds no line feed, and neither starts
  nor ends with white space.\<close>

theorem scene_name_shape:
  assumes "nm \<in> set (scene_names s)"
  shows "nm \<noteq> [] \<and> newline \<notin> set nm \<and> \<not> is_js_space (hd nm) \<and> \<not> is_js_space (last nm)"
proof -
  from assms obtain seg where "newline \<notin> set seg" and "nm = trim seg" and "nm \<noteq> []"
    by (rule scene_names_line)
  then show ?thesis
    using set_trim_subset [of seg] by (auto simp: hd_trim last_trim)
qed

theorem scene_name_shape_witness:
  "''Louvre Museum'' \<in> set (scene_names eiffel_louvre)
   \<and> scene_names eiffel_louvre = [''Eiffel Tower'', ''Louvre Museum'']"
  using scene_name_shape [of "''Louvre Museum''" eiffel_louvre]
  by (simp add: eiffel_louvre_def scene_names_def split_newlines.simps newline_def truthy_def
      trim_def trimStart_def trimEnd_def is_js_space_def js_spaces_def)

lemma eiffel_louvre_names: "scene_names eiffel_louvre = [''Eiffel Tower'', ''Louvre Museum'']"
  by (simp add: eiffel_louvre_def scene_names_def split_newlines.simps newline_def truthy_def
      trim_def trimStart_def trimEnd_def is_js_space_def js_spaces_def)

lemma scene_names_Nil_iff: "scene_names s = [] \<longleftrightarrow> (\<forall>c \<in> set s. is_js_space c)"
proof -
  have "scene_names s = [] \<longleftrightarrow> (\<forall>seg \<in> set (split_newlines s). \<forall>c \<in> set seg. is_js_space c)"
    by (auto simp: scene_names_def filter_empty_conv truthy_def trim_empty_iff)
  also have "\<dots> \<longleftrightarrow> (\<forall>c \<in> \<Union> (set ` set (split_newlines s)). is_js_space c)"
    by blast
  also have "\<dots> \<longleftrightarrow> (\<forall>c \<in> set s. is_js_space c)"
    unfolding set_split_newlines by auto
  finally show ?thesis .
qed

section \<open>Facts about one lookup\<close>

lemma geocode_one_name: "geocode_one nm r = Found wp \<Longrightarrow> name wp = nm"
  by (auto simp: geocode_one_def split: response.splits body.splits json.splits list.splits if_splits)

lemma found_at_name: "found_at net p = Some wp \<Longrightarrow> name wp = snd p"
  by (auto simp: found_at_def split: outcome.splits dest: geocode_one_name)

lemma found_or_notice: "found_at net p = None \<longleftrightarrow> notice_at net p \<noteq> None"
  by (simp add: found_at_def notice_at_def split: outcome.splits)

section \<open>Facts about the batch\<close>

lemma requests_batch_step [simp]: "requests (batch_step net b nm) = requests b @ [nm]"
  by (simp add: batch_step_def split: outcome.splits)

lemma notices_batch_step [simp]:
  "notices (batch_step net b nm)
    = notices b @ (case notice_at net (length (requests b), nm) of None \<Rightarrow> [] | Some n \<Rightarrow> [n])"
  by (simp add: batch_step_def notice_at_def split: outcome.splits)

lemma newWaypoints_batch_step [simp]:
  "newWaypoints (batch_step net b nm)
    = newWaypoints b @ (case found_at net (length (requests b), nm) of None \<Rightarrow> [] | Some wp \<Rightarrow> [wp])"
  by (simp add: batch_step_def found_at_def split: outcome.splits)

lemma foldl_batch_step:
  "foldl (batch_step net) b names =
     \<lparr>requests = requests b @ names,
      notices = notices b @ List.map_filter (notice_at net) (enumerate (length (requests b)) names),
      newWaypoints = newWaypoints b
        @ List.map_filter (found_at net) (enumerate (length (requests b)) names)\<rparr>"
proof (induction names arbitrary: b)
  case Nil
  then show ?case by (simp add: map_filter_simps)
next
  case (Cons nm names)
  have "foldl (batch_step net) b (nm # names) = foldl (batch_step net) (batch_step net b nm) names"
    by simp
  also note Cons.IH [of "batch_step net b nm"]
  finally show ?case
    by (simp add: map_filter_simps split: option.splits)
qed

lemma geocode_batch_eq:
  "geocode_batch net names =
     \<lparr>requests = names,
      notices = List.map_filter (notice_at net) (enumerate 0 names),
      newWaypoints = List.map_filter (found_at net) (enumerate 0 names)\<rparr>"
  by (simp add: geocode_batch_def foldl_batch_step batch_start_def)

lemma length_map_filter_split:
  "length (List.map_filter (found_at net) ps) + length (List.map_filter (notice_at net) ps)
    = length ps"
  by (induction ps) (auto simp: map_filter_simps found_at_def notice_at_def split: outcome.splits)

lemma map_name_found:
  "map name (List.map_filter (found_at net) ps)
    = map snd (filter (\<lambda>p. found_at net p \<noteq> None) ps)"
  by (induction ps) (auto simp: map_filter_simps dest: found_at_name split: option.splits)

text \<open>C3: The batch stores exactly the lookups that succeed, in the order of the
  names. Its waypoints are the waypoints of the replies that \<open>geocode_one\<close> accepts, each
  for the reply to the request at its own position, in input order; its notices are, in
  the same order, those of the replies it does not accept. So the names of the waypoints
  are the names that succeeded, none is moved, none is invented, and a failed name
  leaves a notice and no waypoint.\<close>

theorem geocode_batch_order:
  "newWaypoints (geocode_batch net names) = List.map_filter (found_at net) (enumerate 0 names)
   \<and> notices (geocode_batch net names) = List.map_filter (notice_at net) (enumerate 0 names)
   \<and> map name (newWaypoints (geocode_batch net names))
       = map snd (filter (\<lambda>p. found_at net p \<noteq> None) (enumerate 0 names))
   \<and> subseq (map name (newWaypoints (geocode_batch net names))) names"
proof -
  have "subseq (map snd (filter (\<lambda>p. found_at net p \<noteq> None) (enumerate 0 names)))
      (map snd (enumerate 0 names))"
    by (intro subseq_map subseq_filter_left)
  then show ?thesis by (simp add: geocode_batch_eq map_name_found)
qed

theorem geocode_batch_order_witness:
  "newWaypoints (geocode_batch
      (\<lambda>k nm. if k = 1 then Replied True (Parsed (JArr [])) else Replied True (Parsed (JArr [JNum (Fin 1)])))
      [''a'', ''b'', ''c''])
     = [\<lparr>name = ''a'', coord = (NaN, NaN)\<rparr>, \<lparr>name = ''c'', coord = (NaN, NaN)\<rparr>]
   \<and> notices (geocode_batch
      (\<lambda>k nm. if k = 1 then Replied True (Parsed (JArr [])) else Replied True (Parsed (JArr [JNum (Fin 1)])))
      [''a'', ''b'', ''c''])
     = [''Could not find location: b'']"
  using geocode_batch_order [of
      "\<lambda>k nm. if k = 1 then Replied True (Parsed (JArr [])) else Replied True (Parsed (JArr [JNum (Fin 1)]))"
      "[''a'', ''b'', ''c'']"]
  by (simp add: enumerate_eq_zip upt_rec map_filter_simps found_at_def notice_at_def
      geocode_one_def lookup_prop_def missing_notice_def)

text \<open>Every name of a batch ends in exactly one of a waypoint and a notice.\<close>

lemma geocode_batch_count:
  "length (newWaypoints (geocode_batch net names)) + length (notices (geocode_batch net names))
    = length names"
  by (simp add: geocode_batch_eq length_map_filter_split)

text \<open>C32: A batch issues exactly one request per name, in the order of the names;
  for the text \<^verbatim>\<open>Eiffel Tower\<close>, blank line, \<^verbatim>\<open>Louvre Museum\<close> these are two requests,
  whatever the service answers.\<close>

theorem geocode_batch_requests:
  "requests (geocode_batch net names) = names
   \<and> requests (geocode_batch net (scene_names eiffel_louvre)) = [''Eiffel Tower'', ''Louvre Museum'']"
  by (simp add: geocode_batch_eq eiffel_louvre_def scene_names_def split_newlines.simps
      newline_def truthy_def trim_def trimStart_def trimEnd_def is_js_space_def js_spaces_def)

text \<open>C10: A lookup yields a waypoint exactly when the request succeeded with a JSON
  array whose first element is not \<^verbatim>\<open>null\<close>; the waypoint then has the name that was
  looked up and \<^verbatim>\<open>parseFloat\<close> of the candidate's \<^verbatim>\<open>lon\<close> and \<^verbatim>\<open>lat\<close> as coordinate.
  Every other reply ends in a notice.\<close>

theorem geocode_one_Found_iff:
  "geocode_one nm r = Found wp \<longleftrightarrow>
     (\<exists>first rest. r = Replied True (Parsed (JArr (first # rest))) \<and> first \<noteq> JNull
        \<and> wp = \<lparr>name = nm, coord = (parseFloat (lookup_prop ''lon'' first),
                                      parseFloat (lookup_prop ''lat'' first))\<rparr>)"
  by (auto simp: geocode_one_def split: response.splits body.splits json.splits list.splits)

text \<open>A coordinate is stored as \<^verbatim>\<open>parseFloat\<close> returns it. A candidate without a
  \<^verbatim>\<open>lon\<close> or a \<^verbatim>\<open>lat\<close> field gives \<open>NaN\<close> there, and a number is kept whatever its size;
  in both cases the coordinate is outside the ranges of longitude and latitude.\<close>

lemma unusable_candidate:
  "lookup_prop ''lon'' first = None \<or> lookup_prop ''lat'' first = None
   \<Longrightarrow> \<not> valid_coord (parseFloat (lookup_prop ''lon'' first), parseFloat (lookup_prop ''lat'' first))"
  "lookup_prop ''lat'' first = Some (JNum v) \<Longrightarrow> \<not> js_between (- 90) 90 v
   \<Longrightarrow> \<not> valid_coord (parseFloat (lookup_prop ''lon'' first), parseFloat (lookup_prop ''lat'' first))"
  "lookup_prop ''lon'' first = Some (JNum v) \<Longrightarrow> \<not> js_between (- 180) 180 v
   \<Longrightarrow> \<not> valid_coord (parseFloat (lookup_prop ''lon'' first), parseFloat (lookup_prop ''lat'' first))"
  by (auto simp: valid_coord_def dest: js_between_not_nan)

text \<open>C34: No reply is validated. Whenever the reply to one of the requests of a batch
  is a successful one whose first candidate is not \<^verbatim>\<open>null\<close>, the batch stores a waypoint
  for it with the coordinate \<^verbatim>\<open>parseFloat\<close> reads off the candidate; if that coordinate
  is not a longitude between -180 and 180 with a latitude between -90 and 90, for one
  because a field is missing, the waypoints of the batch violate the invariant of the
  store.\<close>

theorem geocode_batch_unvalidated:
  assumes "i < length names"
    and "net i (names ! i) = Replied True (Parsed (JArr (first # rest)))" and "first \<noteq> JNull"
    and "\<not> valid_coord (parseFloat (lookup_prop ''lon'' first), parseFloat (lookup_prop ''lat'' first))"
  shows "\<lparr>name = names ! i, coord = (parseFloat (lookup_prop ''lon'' first),
                                     parseFloat (lookup_prop ''lat'' first))\<rparr>
      \<in> set (newWaypoints (geocode_batch net names))
    \<and> \<not> valid_waypoints (newWaypoints (geocode_batch net names))"
proof -
  let ?wp = "\<lparr>name = names ! i, coord = (parseFloat (lookup_prop ''lon'' first),
      parseFloat (lookup_prop ''lat'' first))\<rparr>"
  from assms(2,3) have "found_at net (i, names ! i) = Some ?wp"
    by (simp add: found_at_def geocode_one_def)
  moreover from assms(1) have "(i, names ! i) \<in> set (enumerate 0 names)"
    by (simp add: in_set_enumerate_eq)
  ultimately have "?wp \<in> set (newWaypoints (geocode_batch net names))"
    by (simp add: geocode_batch_eq in_set_map_filter)
  with assms(4) show ?thesis by (force simp: valid_waypoints_def)
qed

theorem geocode_batch_unvalidated_witness:
  "newWaypoints (geocode_batch
      (\<lambda>k nm. Replied True (Parsed (JArr [JObj [(''lat'', JStr ''123''), (''lon'', JStr ''2'')]])))
      [''Paris'']) = [\<lparr>name = ''Paris'', coord = (Fin 2, Fin 123)\<rparr>]
   \<and> \<not> valid_waypoints (newWaypoints (geocode_batch
      (\<lambda>k nm. Replied True (Parsed (JArr [JObj [(''lat'', JStr ''123''), (''lon'', JStr ''2'')]])))
      [''Paris'']))"
  using geocode_batch_unvalidated [of 0 "[''Paris'']"
      "\<lambda>k nm. Replied True (Parsed (JArr [JObj [(''lat'', JStr ''123''), (''lon'', JStr ''2'')]]))"
      "JObj [(''lat'', JStr ''123''), (''lon'', JStr ''2'')]" "[]"]
  by (simp add: geocode_batch_def batch_step_def batch_start_def geocode_one_def lookup_prop_def
      parseFloat_eval valid_coord_def)

lemma geocode_one_notice_names:
  assumes "geocode_one nm r = Notice n"
  shows "\<exists>pre post. n = pre @ nm @ post"
proof -
  from assms consider msg where "n = error_notice nm msg" | "n = missing_notice nm"
    by (auto simp: geocode_one_def split: response.splits body.splits json.splits list.splits
        if_splits)
  then show ?thesis
  proof cases
    case 1
    then have "n = ''Error geocoding '' @ nm @ ('': '' @ msg)" by (simp add: error_notice_def)
    then show ?thesis by blast
  next
    case 2
    then have "n = ''Could not find location: '' @ nm @ []" by (simp add: missing_notice_def)
    then show ?thesis by blast
  qed
qed

end
