(* ===== verification/Page_Controller.thy ===== *)
theory Page_Controller
  imports Map_View Geocoding
begin

text \<open>
  The page controller: the React component of \<^verbatim>\<open>src/unnamed/part_000\<close> as a state record,
  one function per handler, and a labelled transition system over the events the browser
  can deliver to it.

  \<^item> \<open>page\<close> extends the adapter's \<open>view\<close> by the four \<^verbatim>\<open>useState\<close> cells (\<^verbatim>\<open>prompt\<close>,
    \<^verbatim>\<open>sceneText\<close>, \<^verbatim>\<open>waypoints\<close>, \<^verbatim>\<open>terrainEnabled\<close>), by the list of \<^verbatim>\<open>alert\<close> dialogs
    shown so far, and by \<open>crashed\<close>, which records that a render read a field of an
    \<^verbatim>\<open>undefined\<close> array slot.
  \<^item> \<open>setWaypoints\<close> is React's state setter together with the effect that depends on
    the waypoints: an updater that returns the array it was given changes nothing and
    runs no effect; a fresh array is stored and \<open>render_markers\<close> runs on it; after
    unmount the setter is ignored. The effect is run in the same step as the update.
  \<^item> \<open>geocodeScenes\<close>, \<open>toggleTerrain\<close> and (through \<open>setWaypoints\<close>) \<open>moveWaypoint\<close>,
    \<open>clearRoute\<close> and the click handler are the handlers; \<open>up_disabled\<close> and
    \<open>down_disabled\<close> are the \<^verbatim>\<open>disabled\<close> attributes of the two arrow buttons;
    \<open>self_test\<close> is the conjunction of the two \<^verbatim>\<open>console.assert\<close> conditions of the
    mount-time self test.
  \<^item> \<open>event\<close>, \<open>enabled\<close>, \<open>handle\<close>, \<open>page_step\<close> and \<open>reachable\<close> are the transition
    system; \<open>run\<close> executes a list of events and is \<open>None\<close> when one of them cannot
    occur in the state it meets.

  A geocoding request is one event here: the whole loop over the names runs against
  the network of that event before any other event is handled. \<^verbatim>\<open>Page_Async\<close> runs the
  loop one reply at a time, between other events, and shows that this theory's step is
  one of its schedules.
\<close>

section \<open>State of the page\<close>

record page = view +
  prompt :: string
  sceneText :: string
  waypoints :: "waypoint list"
  terrainEnabled :: bool
  alerts :: "string list"
  crashed :: bool

definition page_init :: page where
  "page_init =
     \<lparr>mapRef = None, markersRef = [], maplibreRef = False, isMounted = True,
      importPending = True,
      prompt = [], sceneText = [], waypoints = [], terrainEnabled = False,
      alerts = [], crashed = False\<rparr>"

section \<open>Handlers\<close>

definition setWaypoints :: "(waypoint list \<Rightarrow> waypoint list updated) \<Rightarrow> page \<Rightarrow> page" where
  "setWaypoints upd s =
     (if \<not> isMounted s then s
      else (case upd (waypoints s) of
              Same \<Rightarrow> s
            | Fresh ws \<Rightarrow> render_markers ws (s\<lparr>waypoints := ws\<rparr>)
            | Holed k \<Rightarrow> unmount (s\<lparr>crashed := True\<rparr>)))"

definition geocodeScenes :: "network \<Rightarrow> page \<Rightarrow> page" where
  "geocodeScenes net s =
     (let names = scene_names (sceneText s) in
      if names = [] then s\<lparr>alerts := alerts s @ [empty_notice]\<rparr>
      else
        let b = geocode_batch net names;
            s1 = s\<lparr>alerts := alerts s @ notices b\<rparr>
        in if newWaypoints b = [] then s1
           else setWaypoints (replaceAll (newWaypoints b)) (fit_view (newWaypoints b) s1))"

definition toggleTerrain :: "page \<Rightarrow> page" where
  "toggleTerrain s =
     (case mapRef s of
        None \<Rightarrow> s
      | Some w \<Rightarrow> (set_terrain (terrainEnabled s) s)\<lparr>terrainEnabled := \<not> terrainEnabled s\<rparr>)"

definition up_disabled :: "nat \<Rightarrow> bool" where
  "up_disabled index \<longleftrightarrow> index = 0"

definition down_disabled :: "waypoint list \<Rightarrow> nat \<Rightarrow> bool" where
  "down_disabled ws index \<longleftrightarrow> int index = int (length ws) - 1"

definition self_test :: bool where
  "self_test \<longleftrightarrow>
     (let reordered = swap_at 0 1 sample
      in name (reordered ! 0) = ''B'' \<and> name (reordered ! 1) = ''A'')
     \<and> (case bounds_of coords of
          None \<Rightarrow> False
        | Some b \<Rightarrow> minLon b = Fin (- 2) \<and> maxLon b = Fin 5 \<and> minLat b = Fin 0 \<and> maxLat b = Fin 10)"

section \<open>Events\<close>

datatype event =
    ImportResolved
  | MapLoad
  | MapClick jsnum jsnum
  | Geocode network
  | MoveUp nat
  | MoveDown nat
  | ClearRoute
  | ToggleTerrain
  | SetSceneText string
  | SetPrompt string
  | Unmount

fun handle :: "event \<Rightarrow> page \<Rightarrow> page" where
  "handle ImportResolved s = import_resolved s"
| "handle MapLoad s = map_loaded s"
| "handle (MapClick lng lt) s = setWaypoints (clickWaypoint lng lt) s"
| "handle (Geocode net) s = geocodeScenes net s"
| "handle (MoveUp i) s = setWaypoints (moveWaypoint (int i) (- 1)) s"
| "handle (MoveDown i) s = setWaypoints (moveWaypoint (int i) 1) s"
| "handle ClearRoute s = setWaypoints clearRoute s"
| "handle ToggleTerrain s = toggleTerrain s"
| "handle (SetSceneText t) s = s\<lparr>sceneText := t\<rparr>"
| "handle (SetPrompt t) s = s\<lparr>prompt := t\<rparr>"
| "handle Unmount s = unmount s"

fun enabled :: "page \<Rightarrow> event \<Rightarrow> bool" where
  "enabled s ImportResolved = importPending s"
| "enabled s MapLoad = (case mapRef s of None \<Rightarrow> False | Some w \<Rightarrow> \<not> loaded w)"
| "enabled s (MapClick lng lt) = (mapRef s \<noteq> None)"
| "enabled s (Geocode net) = isMounted s"
| "enabled s (MoveUp i) = (isMounted s \<and> i < length (waypoints s) \<and> \<not> up_disabled i)"
| "enabled s (MoveDown i) =
     (isMounted s \<and> i < length (waypoints s) \<and> \<not> down_disabled (waypoints s) i)"
| "enabled s ClearRoute = isMounted s"
| "enabled s ToggleTerrain = isMounted s"
| "enabled s (SetSceneText t) = isMounted s"
| "enabled s (SetPrompt t) = isMounted s"
| "enabled s Unmount = isMounted s"

inductive page_step :: "page \<Rightarrow> event \<Rightarrow> page \<Rightarrow> bool" where
  step: "enabled s e \<Longrightarrow> page_step s e (handle e s)"

inductive reachable :: "page \<Rightarrow> bool" where
  reach_init: "reachable page_init"
| reach_step: "reachable s \<Longrightarrow> page_step s e t \<Longrightarrow> reachable t"

fun run :: "event list \<Rightarrow> page \<Rightarrow> page option" where
  "run [] s = Some s"
| "run (e # es) s = (if enabled s e then run es (handle e s) else None)"

declare setWaypoints_def [handler_defs] toggleTerrain_def [handler_defs]
  clickWaypoint_def [handler_defs] clearRoute_def [handler_defs] replaceAll_def [handler_defs]
  up_disabled_def [handler_defs] down_disabled_def [handler_defs]

text \<open>Two networks used in the examples: one that finds Paris for every query, and
  one that in addition knows no place called Atlantis.\<close>

definition paris_reply :: response where
  "paris_reply = Replied True (Parsed (JArr [JObj [(''lat'', JStr ''48.85''), (''lon'', JStr ''2.35'')]]))"

definition paris_net :: network where
  "paris_net k nm = paris_reply"

definition atlantis_net :: network where
  "atlantis_net k nm = (if nm = ''Atlantis'' then Replied True (Parsed (JArr [])) else paris_reply)"

lemmas page_eval = page_init_def new_map_def Let_def handler_defs

lemmas geocode_eval = geocodeScenes_def scene_names_def split_newlines.simps newline_def
  truthy_def trim_def trimStart_def trimEnd_def is_js_space_def js_spaces_def
  geocode_batch_def batch_step_def batch_start_def geocode_one_def lookup_prop_def
  waypoint_bounds_def route_def bounds_of_def bounds_init_def bounds_step_def
  lower_def upper_def markers_of_def paris_net_def atlantis_net_def paris_reply_def

section \<open>The state setter\<close>

lemma setWaypoints_Fresh:
  "isMounted s \<Longrightarrow> upd (waypoints s) = Fresh ws
   \<Longrightarrow> setWaypoints upd s = render_markers ws (s\<lparr>waypoints := ws\<rparr>)"
  by (simp add: setWaypoints_def)

lemma setWaypoints_Same: "upd (waypoints s) = Same \<Longrightarrow> setWaypoints upd s = s"
  by (simp add: setWaypoints_def)

lemma setWaypoints_unmounted: "\<not> isMounted s \<Longrightarrow> setWaypoints upd s = s"
  by (simp add: setWaypoints_def)

section \<open>Fields the view operations leave alone\<close>

lemma render_markers_fields [simp, frame]:
  "isMounted (render_markers ws s) = isMounted s"
  "waypoints (render_markers ws s) = waypoints s"
  "alerts (render_markers ws s) = alerts s"
  "crashed (render_markers ws s) = crashed s"
  "terrainEnabled (render_markers ws s) = terrainEnabled s"
  by (cases "mapRef s"; simp add: render_markers_None render_markers_Some)+

lemma mapRef_render_None [simp]: "mapRef (render_markers ws v) = None \<longleftrightarrow> mapRef v = None"
  by (cases "mapRef v") (simp_all add: render_markers_None render_markers_Some)

lemma fit_view_fields [simp, frame]:
  "isMounted (fit_view ws s) = isMounted s"
  "waypoints (fit_view ws s) = waypoints s"
  "alerts (fit_view ws s) = alerts s"
  "markersRef (fit_view ws s) = markersRef s"
  "maplibreRef (fit_view ws s) = maplibreRef s"
  by (cases "mapRef s"; cases "waypoint_bounds ws"; simp add: fit_view_def)+

lemma fit_view_Some:
  "mapRef s = Some w \<Longrightarrow> waypoint_bounds ws = Some b
   \<Longrightarrow> mapRef (fit_view ws s) = Some (w\<lparr>camera := Fitted b 50\<rparr>)"
  by (simp add: fit_view_def fitBounds_def)

lemma waypoint_bounds_Some: "ws \<noteq> [] \<Longrightarrow> \<exists>b. waypoint_bounds ws = Some b"
  by (cases ws) (simp_all add: waypoint_bounds_def route_def bounds_of_Cons)

lemma geocodeScenes_found:
  assumes "isMounted s" and "mapRef s = Some w" and "scene_names (sceneText s) = names"
    and "geocode_batch net names = b" and "newWaypoints b = ws" and "ws \<noteq> []"
    and "waypoint_bounds ws = Some bx"
  shows "geocodeScenes net s
    = render_markers ws (s\<lparr>alerts := alerts s @ notices b,
                            mapRef := Some (w\<lparr>camera := Fitted bx 50\<rparr>), waypoints := ws\<rparr>)"
proof -
  from assms(4,5,6) have "names \<noteq> []"
    by (auto simp: geocode_batch_eq map_filter_simps)
  with assms show ?thesis
    by (simp add: geocodeScenes_def Let_def setWaypoints_def replaceAll_def fit_view_def fitBounds_def)
qed

section \<open>The transition system\<close>

inductive_cases page_stepE [elim!]: "page_step s e t"

lemma page_step_iff: "page_step s e t \<longleftrightarrow> enabled s e \<and> t = handle e s"
  by (auto intro: page_step.step)

lemma run_reachable: "reachable s \<Longrightarrow> run es s = Some t \<Longrightarrow> reachable t"
proof (induction es arbitrary: s)
  case Nil
  then show ?case by simp
next
  case (Cons e es)
  from Cons.prems(2) have en: "enabled s e" and r: "run es (handle e s) = Some t"
    by (auto split: if_splits)
  from Cons.prems(1) en have "reachable (handle e s)"
    by (blast intro: reachable.reach_step page_step.step)
  then show ?case using r by (rule Cons.IH)
qed

lemma run_append: "run (es @ fs) s = (case run es s of None \<Rightarrow> None | Some t \<Rightarrow> run fs t)"
  by (induction es arbitrary: s) simp_all

section \<open>Geocoding a list of scenes\<close>

text \<open>C30: With a scene text of nothing but white space and line breaks the handler shows
  the dialog that asks for scene names and changes nothing else: no request is sent, the
  waypoints, the map and the markers stay as they are.\<close>

theorem geocode_blank_input:
  assumes "\<forall>c \<in> set (sceneText s). is_js_space c"
  shows "geocodeScenes net s = s\<lparr>alerts := alerts s @ [empty_notice]\<rparr>
    \<and> requests (geocode_batch net (scene_names (sceneText s))) = []"
  using assms by (simp add: geocodeScenes_def scene_names_Nil_iff geocode_batch_eq)

theorem geocode_blank_input_witness:
  "geocodeScenes paris_net (page_init\<lparr>sceneText := [CHR '' '', newline, CHR '' '']\<rparr>)
     = page_init\<lparr>sceneText := [CHR '' '', newline, CHR '' ''], alerts := [empty_notice]\<rparr>"
  using geocode_blank_input [of "page_init\<lparr>sceneText := [CHR '' '', newline, CHR '' '']\<rparr>" paris_net]
  by (simp add: page_init_def is_js_space_def js_spaces_def newline_def)

text \<open>When every name of a non-empty batch fails, the handler shows one dialog per
  name, in order, and leaves the waypoints, the markers and the camera untouched: a
  batch with no result never clears an existing route.\<close>

theorem geocode_all_failed:
  assumes "scene_names (sceneText s) \<noteq> []"
    and "newWaypoints (geocode_batch net (scene_names (sceneText s))) = []"
  shows "geocodeScenes net s
      = s\<lparr>alerts := alerts s @ notices (geocode_batch net (scene_names (sceneText s)))\<rparr>
    \<and> length (notices (geocode_batch net (scene_names (sceneText s))))
      = length (scene_names (sceneText s))"
  using assms geocode_batch_count [of net "scene_names (sceneText s)"]
  by (simp add: geocodeScenes_def Let_def)

theorem geocode_all_failed_witness:
  "geocodeScenes atlantis_net (page_init\<lparr>sceneText := ''Atlantis''\<rparr>)
     = page_init\<lparr>sceneText := ''Atlantis'', alerts := [''Could not find location: Atlantis'']\<rparr>"
  using geocode_all_failed [of "page_init\<lparr>sceneText := ''Atlantis''\<rparr>" atlantis_net]
  by (simp add: page_init_def geocode_eval missing_notice_def)

text \<open>C12: When at least one name of the batch is found, the store afterwards holds
  exactly the waypoints of this batch, in the order of the input lines: whatever was in
  the store before (earlier batches, clicked waypoints) is gone. The dialogs of the
  failed names are appended to those shown before.\<close>

theorem geocode_replaces:
  assumes "isMounted s" and "newWaypoints (geocode_batch net (scene_names (sceneText s))) = ws"
    and "ws \<noteq> []"
  shows "waypoints (geocodeScenes net s) = ws
    \<and> alerts (geocodeScenes net s) = alerts s @ notices (geocode_batch net (scene_names (sceneText s)))"
proof -
  from assms(2,3) have "scene_names (sceneText s) \<noteq> []"
    by (auto simp: geocode_batch_eq map_filter_simps)
  with assms show ?thesis
    by (simp add: geocodeScenes_def Let_def setWaypoints_def replaceAll_def)
qed

theorem geocode_replaces_witness:
  "waypoints (geocodeScenes paris_net
      (page_init\<lparr>sceneText := ''Paris'', waypoints := sample\<rparr>))
     = [\<lparr>name = ''Paris'', coord = (Fin 2.35, Fin 48.85)\<rparr>]"
  using geocode_replaces [of "page_init\<lparr>sceneText := ''Paris'', waypoints := sample\<rparr>" paris_net
      "[\<lparr>name = ''Paris'', coord = (Fin 2.35, Fin 48.85)\<rparr>]"]
  by (simp add: page_init_def geocode_eval parseFloat_eval)

text \<open>C31: Of two names of which the service finds one, in either order: the store
  ends with exactly the one waypoint that was found, which carries the name that was
  looked up, and exactly one dialog is added, which names the place that failed. This
  holds for every mounted page, whatever its list was, and for every service.\<close>

theorem geocode_one_of_two:
  assumes "isMounted s" and "scene_names (sceneText s) = [a, b]"
    and "geocode_one a (net 0 a) = Found wp \<and> geocode_one b (net 1 b) = Notice n \<and> (hit, miss) = (a, b)
       \<or> geocode_one a (net 0 a) = Notice n \<and> geocode_one b (net 1 b) = Found wp \<and> (hit, miss) = (b, a)"
  shows "waypoints (geocodeScenes net s) = [wp] \<and> name wp = hit
    \<and> alerts (geocodeScenes net s) = alerts s @ [n] \<and> (\<exists>pre post. n = pre @ miss @ post)"
proof -
  from assms(2,3) have "geocode_batch net (scene_names (sceneText s))
      = \<lparr>requests = [a, b], notices = [n], newWaypoints = [wp]\<rparr>"
    by (auto simp: geocode_batch_def batch_step_def batch_start_def)
  with assms(1,2) have "waypoints (geocodeScenes net s) = [wp]"
    and "alerts (geocodeScenes net s) = alerts s @ [n]"
    by (simp_all add: geocodeScenes_def Let_def setWaypoints_def replaceAll_def)
  moreover from assms(3) have "name wp = hit" and "\<exists>pre post. n = pre @ miss @ post"
    by (auto dest: geocode_one_name geocode_one_notice_names)
  ultimately show ?thesis by simp
qed

theorem geocode_one_of_two_witness:
  "map_option (\<lambda>s. (waypoints s, alerts s))
     (run [SetSceneText (''Atlantis'' @ [newline] @ ''Paris''), Geocode atlantis_net] page_init)
   = Some ([\<lparr>name = ''Paris'', coord = (Fin 2.35, Fin 48.85)\<rparr>],
           [''Could not find location: Atlantis''])"
proof -
  let ?s = "page_init\<lparr>sceneText := ''Atlantis'' @ [newline] @ ''Paris''\<rparr>"
  have "isMounted ?s" and "scene_names (sceneText ?s) = [''Atlantis'', ''Paris'']"
    and "geocode_one ''Atlantis'' (atlantis_net 0 ''Atlantis'') = Notice ''Could not find location: Atlantis''"
    and "geocode_one ''Paris'' (atlantis_net 1 ''Paris'')
      = Found \<lparr>name = ''Paris'', coord = (Fin 2.35, Fin 48.85)\<rparr>"
    and "alerts ?s = []"
    by (simp_all add: page_init_def geocode_eval parseFloat_eval missing_notice_def)
  with geocode_one_of_two [of ?s "''Atlantis''" "''Paris''" atlantis_net
      "\<lparr>name = ''Paris'', coord = (Fin 2.35, Fin 48.85)\<rparr>"
      "''Could not find location: Atlantis''" "''Paris''" "''Atlantis''"]
  show ?thesis by (simp add: page_init_def)
qed

section \<open>Terrain\<close>

text \<open>C35: Once the button's state and the map's terrain agree (terrain set exactly when
  the button says it is enabled), pressing the terrain button twice brings the page and
  the map back to where they were.\<close>

theorem toggleTerrain_twice:
  assumes "mapRef s = Some w" and "terrain w = (if terrainEnabled s then Some terrain_on else None)"
  shows "toggleTerrain (toggleTerrain s) = s"
  using assms by (simp add: toggleTerrain_def set_terrain_def setTerrain_def)

theorem toggleTerrain_twice_witness:
  "toggleTerrain (toggleTerrain (toggleTerrain (import_resolved page_init)))
     = toggleTerrain (import_resolved page_init)"
  using toggleTerrain_twice [of "toggleTerrain (import_resolved page_init)"
      "setTerrain (Some terrain_on) (addControl ''NavigationControl'' new_map)"]
  by (simp add: page_eval)

text \<open>The map is created with the terrain of its style, whatever the button says.\<close>

lemma fresh_map_has_terrain:
  assumes "isMounted s"
  shows "\<exists>w. mapRef (import_resolved s) = Some w \<and> terrain w = Some terrain_on
    \<and> terrainEnabled (import_resolved s) = terrainEnabled s"
  using assms by (simp add: import_resolved_def addControl_def new_map_def terrain_on_def)

text \<open>C36: Whenever the map has terrain while the button's state says terrain is off,
  two presses of the button do not bring the map back: the first press sets the terrain
  of the style again, the second removes it, and the button's state is off as before. A
  freshly created map is in that situation, because the style passed to it already has
  terrain with exaggeration 1.5 while the state starts as off.\<close>

theorem toggleTerrain_twice_not_initial:
  assumes "mapRef s = Some w" and "terrain w \<noteq> None" and "\<not> terrainEnabled s"
  shows "toggleTerrain (toggleTerrain s) = s\<lparr>mapRef := Some (w\<lparr>terrain := None\<rparr>)\<rparr>
    \<and> toggleTerrain (toggleTerrain s) \<noteq> s
    \<and> mapRef (toggleTerrain s) = Some (w\<lparr>terrain := Some terrain_on\<rparr>)
    \<and> terrainEnabled (toggleTerrain s)"
proof -
  from assms have "toggleTerrain (toggleTerrain s) = s\<lparr>mapRef := Some (w\<lparr>terrain := None\<rparr>)\<rparr>"
    and "mapRef (toggleTerrain s) = Some (w\<lparr>terrain := Some terrain_on\<rparr>)"
    and "terrainEnabled (toggleTerrain s)"
    by (simp_all add: toggleTerrain_def set_terrain_def setTerrain_def)
  moreover from assms(2) have "terrain (w\<lparr>terrain := None\<rparr>) \<noteq> terrain w"
    by auto
  then have "w\<lparr>terrain := None\<rparr> \<noteq> w" by metis
  with assms(1) have "mapRef (s\<lparr>mapRef := Some (w\<lparr>terrain := None\<rparr>)\<rparr>) \<noteq> mapRef s"
    by simp
  ultimately show ?thesis by metis
qed

theorem toggleTerrain_twice_not_initial_witness:
  "run [ImportResolved, ToggleTerrain, ToggleTerrain] page_init
     \<noteq> run [ImportResolved] page_init
   \<and> map_option (\<lambda>s. (terrainEnabled s, map_option terrain (mapRef s)))
        (run [ImportResolved] page_init) = Some (False, Some (Some terrain_on))
   \<and> map_option (\<lambda>s. (terrainEnabled s, map_option terrain (mapRef s)))
        (run [ImportResolved, ToggleTerrain, ToggleTerrain] page_init) = Some (False, Some None)"
  using toggleTerrain_twice_not_initial [of "import_resolved page_init"
      "addControl ''NavigationControl'' new_map"]
  by (simp add: page_eval)

section \<open>The arrow buttons and the self test\<close>

text \<open>The arrow buttons are disabled exactly where the handler would do nothing:
  for a row of the list, \<^verbatim>\<open>Move up\<close> is disabled if and only if moving that row up returns
  the array unchanged, and likewise for \<^verbatim>\<open>Move down\<close>.\<close>

theorem buttons_disabled_iff_noop:
  assumes "i < length ws"
  shows "(up_disabled i \<longleftrightarrow> moveWaypoint (int i) (- 1) ws = Same)
    \<and> (down_disabled ws i \<longleftrightarrow> moveWaypoint (int i) 1 ws = Same)"
  using assms by (auto simp: up_disabled_def down_disabled_def moveWaypoint_Same_iff)

theorem buttons_disabled_iff_noop_witness:
  "up_disabled 0 \<and> moveWaypoint 0 (- 1) sample = Same
   \<and> down_disabled sample 2 \<and> moveWaypoint 2 1 sample = Same
   \<and> \<not> up_disabled 1 \<and> moveWaypoint 1 (- 1) sample \<noteq> Same"
  using buttons_disabled_iff_noop [of 0 sample] buttons_disabled_iff_noop [of 2 sample]
    buttons_disabled_iff_noop [of 1 sample]
  by (simp add: sample_def up_disabled_def down_disabled_def)

text \<open>Both assertions of the self test that runs when the page mounts hold: swapping
  the first two entries of the sample puts B before A, and the bounding box of the three
  sample coordinates is longitude -2 to 5, latitude 0 to 10.\<close>

theorem self_test_passes: "self_test"
  by (simp add: self_test_def sample_def swap_at_def coords_def bounds_of_def bounds_init_def
      bounds_step_def lower_def upper_def)

end
