(* ===== verification/Page_Lifecycle.thy ===== *)
theory Page_Lifecycle
  imports Page_Controller
begin

text \<open>
  What holds in every state the page of \<^verbatim>\<open>src/unnamed/part_000\<close> can reach.

  \<^item> \<open>phase\<close> is the lifecycle of the map widget: the import of the library is in
    flight and there is no widget (\<open>Loading\<close>), the widget exists but its \<^verbatim>\<open>load\<close> event
    has not fired (\<open>Created\<close>), the widget has loaded (\<open>Ready\<close>), the page is unmounted
    (\<open>Disposed\<close>). The specification's state machine has \<open>Loading\<close> and \<open>Ready\<close>; the
    code has the state between them, in which the click handler is bound and markers are
    drawn but the route source does not exist. \<open>phase\<close> is a linear order, and
    \<open>phase_of\<close> reads the phase off a page state.
  \<^item> \<open>page_inv\<close> is the invariant of the transition system of \<^verbatim>\<open>Page_Controller\<close>; its
    part about an existing widget is \<open>widget_ok\<close>. One lemma per handler shows that the
    handler preserves it, \<open>page_inv_handle\<close> collects them, and \<open>reachable_page_inv\<close>
    is the rule induction over \<open>reachable\<close>.
  \<^item> \<open>phase_handle\<close> and \<open>unmounted_handle\<close> show that a step of the page never goes
    back in the lifecycle and that an unmounted page only waits for its import. The
    theorems exhibit the reachable states in which a ready map shows none, or not all,
    of the stored waypoints, and give the camera after a batch. What the invariant
    promises in every reachable state is stated in \<^verbatim>\<open>Page_Async\<close>, for the page with
    its batches in flight.
  \<^item> \<open>early_geocode\<close>, \<open>click_trace\<close> and \<open>ready_paris\<close> are event sequences used as examples;
    \<open>early_geocode_run\<close> and \<open>click_trace_run\<close> give the states they end in.
\<close>

section \<open>Lifecycle phases\<close>

datatype phase = Loading | Created | Ready | Disposed

fun phase_rank :: "phase \<Rightarrow> nat" where
  "phase_rank Loading = 0"
| "phase_rank Created = 1"
| "phase_rank Ready = 2"
| "phase_rank Disposed = 3"

instantiation phase :: linorder
begin

definition less_eq_phase :: "phase \<Rightarrow> phase \<Rightarrow> bool" where
  "less_eq_phase a b \<longleftrightarrow> phase_rank a \<le> phase_rank b"

definition less_phase :: "phase \<Rightarrow> phase \<Rightarrow> bool" where
  "less_phase a b \<longleftrightarrow> phase_rank a < phase_rank b"

instance
proof
  fix a b c :: phase
  show "a < b \<longleftrightarrow> a \<le> b \<and> \<not> b \<le> a" by (auto simp: less_eq_phase_def less_phase_def)
  show "a \<le> a" by (simp add: less_eq_phase_def)
  show "a \<le> b \<Longrightarrow> b \<le> c \<Longrightarrow> a \<le> c" by (simp add: less_eq_phase_def)
  show "a \<le> b \<Longrightarrow> b \<le> a \<Longrightarrow> a = b"
    by (cases a; cases b; simp add: less_eq_phase_def)
  show "a \<le> b \<or> b \<le> a" by (auto simp: less_eq_phase_def)
qed

end

definition phase_of :: "page \<Rightarrow> phase" where
  "phase_of s =
     (if \<not> isMounted s then Disposed
      else (case mapRef s of
              None \<Rightarrow> Loading
            | Some w \<Rightarrow> if loaded w then Ready else Created))"

section \<open>The invariant\<close>

text \<open>While a widget exists, the markers attached to it are the ones the adapter
  remembers, the library has been imported, the page is mounted, the route source exists
  exactly when the map has loaded and holds either nothing or the coordinates of the
  store, and a button that says terrain is enabled means the map has terrain.\<close>

definition widget_ok :: "page \<Rightarrow> widget \<Rightarrow> bool" where
  "widget_ok s w \<longleftrightarrow>
     attached w = markersRef s \<and> maplibreRef s \<and> isMounted s \<and> \<not> importPending s
     \<and> (route_data w = None \<or> route_data w = Some [] \<or> route_data w = Some (route (waypoints s)))
     \<and> (loaded w \<longleftrightarrow> route_data w \<noteq> None)
     \<and> (terrainEnabled s \<longrightarrow> terrain w = Some terrain_on)"

definition page_inv :: "page \<Rightarrow> bool" where
  "page_inv s \<longleftrightarrow>
     (case mapRef s of
        None \<Rightarrow> isMounted s \<longrightarrow> markersRef s = []
      | Some w \<Rightarrow> widget_ok s w)
     \<and> (markersRef s = [] \<or> markersRef s = markers_of (waypoints s))
     \<and> \<not> crashed s"

declare page_inv_def [inv_defs] widget_ok_def [inv_defs]

section \<open>Example traces\<close>

definition early_geocode :: "event list" where
  "early_geocode = [SetSceneText ''Paris'', Geocode paris_net, ImportResolved, MapLoad]"

definition click_trace :: "event list" where
  "click_trace = [ImportResolved, MapLoad, MapClick (Fin 1) (Fin 2), MapClick (Fin 3) (Fin 4), MoveUp 1]"

definition ready_paris :: "event list" where
  "ready_paris = [ImportResolved, MapLoad, SetSceneText ''Paris'']"

section \<open>Every handler preserves the invariant\<close>

lemma page_inv_init: "page_inv page_init"
  by (simp add: inv_defs page_init_def)

lemma page_inv_import: "page_inv s \<Longrightarrow> importPending s \<Longrightarrow> page_inv (import_resolved s)"
  by (cases "mapRef s") (auto simp: inv_defs import_resolved_def new_map_def addControl_def)

lemma page_inv_loaded: "page_inv s \<Longrightarrow> page_inv (map_loaded s)"
  by (cases "mapRef s") (auto simp: inv_defs map_loaded_def on_load_def)

lemma page_inv_unmount: "page_inv s \<Longrightarrow> page_inv (unmount s)"
  by (simp add: inv_defs unmount_def)

lemma page_inv_render:
  assumes "page_inv s" and "isMounted s"
  shows "page_inv (render_markers ws (s\<lparr>waypoints := ws\<rparr>))"
proof (cases "mapRef s")
  case None
  with assms show ?thesis
    by (simp add: inv_defs render_markers_None)
next
  case (Some w)
  with assms show ?thesis
    by (auto simp: inv_defs render_markers_Some)
qed

lemma page_inv_setWaypoints:
  assumes "page_inv s" and "\<forall>k. upd (waypoints s) \<noteq> Holed k"
  shows "page_inv (setWaypoints upd s)"
proof (cases "isMounted s")
  case False
  with assms show ?thesis by (simp add: setWaypoints_unmounted)
next
  case True
  show ?thesis
  proof (cases "upd (waypoints s)")
    case Same
    with assms show ?thesis by (simp add: setWaypoints_Same)
  next
    case (Fresh ws)
    with assms True show ?thesis by (simp add: setWaypoints_Fresh page_inv_render)
  next
    case (Holed k)
    with assms show ?thesis by simp
  qed
qed

lemma page_inv_fit_view: "page_inv s \<Longrightarrow> page_inv (fit_view ws s)"
  by (cases "mapRef s"; cases "waypoint_bounds ws") (simp_all add: inv_defs fit_view_def fitBounds_def)

lemma page_inv_alerts: "page_inv s \<Longrightarrow> page_inv (s\<lparr>alerts := a\<rparr>)"
  by (simp add: inv_defs split: option.splits)

lemma page_inv_geocode: "page_inv s \<Longrightarrow> page_inv (geocodeScenes net s)"
  by (simp add: geocodeScenes_def Let_def page_inv_alerts page_inv_fit_view
      page_inv_setWaypoints replaceAll_def)

lemma page_inv_toggle: "page_inv s \<Longrightarrow> page_inv (toggleTerrain s)"
  by (cases "mapRef s") (auto simp: inv_defs toggleTerrain_def set_terrain_def setTerrain_def)

lemma page_inv_handle:
  assumes "page_inv s" and "enabled s e"
  shows "page_inv (handle e s)"
proof (cases e)
  case ImportResolved
  with assms show ?thesis by (simp add: page_inv_import)
next
  case MapLoad
  with assms show ?thesis by (simp add: page_inv_loaded)
next
  case (MapClick lng lt)
  with assms show ?thesis by (simp add: page_inv_setWaypoints clickWaypoint_def)
next
  case (Geocode net)
  with assms show ?thesis by (simp add: page_inv_geocode)
next
  case (MoveUp i)
  with assms show ?thesis by (simp add: page_inv_setWaypoints button_move_never_holes)
next
  case (MoveDown i)
  with assms show ?thesis by (simp add: page_inv_setWaypoints button_move_never_holes)
next
  case ClearRoute
  with assms show ?thesis by (simp add: page_inv_setWaypoints clearRoute_def)
next
  case ToggleTerrain
  with assms show ?thesis by (simp add: page_inv_toggle)
next
  case (SetSceneText t)
  with assms show ?thesis by (simp add: inv_defs split: option.splits)
next
  case (SetPrompt t)
  with assms show ?thesis by (simp add: inv_defs split: option.splits)
next
  case Unmount
  with assms show ?thesis by (simp add: page_inv_unmount)
qed

lemma reachable_page_inv: "reachable s \<Longrightarrow> page_inv s"
proof (induction rule: reachable.induct)
  case reach_init
  show ?case by (rule page_inv_init)
next
  case (reach_step s e t)
  then show ?case by (auto intro: page_inv_handle)
qed

lemma reachable_widget:
  assumes "reachable s" and "mapRef s = Some w"
  shows "attached w = markersRef s" and "maplibreRef s" and "isMounted s"
    and "loaded w \<longleftrightarrow> route_data w \<noteq> None"
  using reachable_page_inv [OF assms(1)] assms(2) by (simp_all add: inv_defs)

section \<open>The example traces\<close>

lemma early_geocode_run:
  "run early_geocode page_init = Some
     \<lparr>mapRef = Some (on_load (addControl ''NavigationControl'' new_map)),
      markersRef = [], maplibreRef = True, isMounted = True, importPending = False,
      prompt = [], sceneText = ''Paris'',
      waypoints = [\<lparr>name = ''Paris'', coord = (Fin 2.35, Fin 48.85)\<rparr>],
      terrainEnabled = False, alerts = [], crashed = False\<rparr>"
  by (simp add: early_geocode_def page_eval geocode_eval parseFloat_eval)

lemma early_geocode_reachable: "reachable (the (run early_geocode page_init))"
  using run_reachable [OF reachable.reach_init, of early_geocode "the (run early_geocode page_init)"]
  by (simp add: early_geocode_run)

lemma click_trace_run:
  "run click_trace page_init = Some
     \<lparr>mapRef = Some ((on_load (addControl ''NavigationControl'' new_map))
        \<lparr>attached := markers_of [\<lparr>name = ''Waypoint 2'', coord = (Fin 3, Fin 4)\<rparr>,
                                 \<lparr>name = ''Waypoint 1'', coord = (Fin 1, Fin 2)\<rparr>],
         route_data := Some [(Fin 3, Fin 4), (Fin 1, Fin 2)]\<rparr>),
      markersRef = markers_of [\<lparr>name = ''Waypoint 2'', coord = (Fin 3, Fin 4)\<rparr>,
                               \<lparr>name = ''Waypoint 1'', coord = (Fin 1, Fin 2)\<rparr>],
      maplibreRef = True, isMounted = True, importPending = False,
      prompt = [], sceneText = [],
      waypoints = [\<lparr>name = ''Waypoint 2'', coord = (Fin 3, Fin 4)\<rparr>,
                   \<lparr>name = ''Waypoint 1'', coord = (Fin 1, Fin 2)\<rparr>],
      terrainEnabled = False, alerts = [], crashed = False\<rparr>"
  by (simp add: click_trace_def page_eval markers_of_def route_def moveWaypoint_def swap_at_def
      waypoint_name_def string_of_nat_digit digit_char_def)

lemma click_trace_reachable: "reachable (the (run click_trace page_init))"
  using run_reachable [OF reachable.reach_init, of click_trace "the (run click_trace page_init)"]
  by (simp add: click_trace_run)

lemma ready_paris_run:
  "run ready_paris page_init = Some
     \<lparr>mapRef = Some (on_load (addControl ''NavigationControl'' new_map)),
      markersRef = [], maplibreRef = True, isMounted = True, importPending = False,
      prompt = [], sceneText = ''Paris'', waypoints = [],
      terrainEnabled = False, alerts = [], crashed = False\<rparr>"
  by (simp add: ready_paris_def page_eval)

lemma ready_paris_reachable: "reachable (the (run ready_paris page_init))"
  using run_reachable [OF reachable.reach_init, of ready_paris "the (run ready_paris page_init)"]
  by (simp add: ready_paris_run)

section \<open>What the map shows\<close>

text \<open>C22: The markers and the route line are only redrawn when the store changes. A
  batch that is geocoded before the map library has arrived fills the store while there
  is no map; when the map is then created and loads, nothing redraws, and the page sits
  in the ready phase with a waypoint in the store, no marker on the map and an empty
  route line.\<close>

theorem stale_view_reachable:
  "\<exists>s w. reachable s \<and> mapRef s = Some w \<and> loaded w \<and> phase_of s = Ready
     \<and> waypoints s \<noteq> [] \<and> attached w = [] \<and> route_data w = Some []"
proof -
  let ?s = "the (run early_geocode page_init)"
  let ?w = "on_load (addControl ''NavigationControl'' new_map)"
  have "mapRef ?s = Some ?w" and "waypoints ?s \<noteq> []" and "phase_of ?s = Ready"
    by (simp_all add: early_geocode_run phase_of_def on_load_def)
  with early_geocode_reachable show ?thesis
    by (intro exI [of _ ?s] exI [of _ ?w]) (simp add: on_load_def addControl_def new_map_def)
qed

text \<open>C21: A successful batch in a reachable state with a map leaves the camera fitted,
  with padding 50, to the bounding box of the waypoints of the batch, and the map showing
  one numbered marker for each of them.\<close>

theorem geocode_fits_view:
  assumes "reachable s" and "mapRef s = Some w"
    and "newWaypoints (geocode_batch net (scene_names (sceneText s))) = ws" and "ws \<noteq> []"
  shows "\<exists>w' b. mapRef (geocodeScenes net s) = Some w' \<and> waypoint_bounds ws = Some b
    \<and> camera w' = Fitted b 50 \<and> attached w' = markers_of ws"
proof -
  note inv = reachable_widget [OF assms(1,2)]
  from assms(4) obtain b where b: "waypoint_bounds ws = Some b"
    using waypoint_bounds_Some by blast
  from geocodeScenes_found [OF inv(3) assms(2) refl refl assms(3,4) b] inv(1,2) show ?thesis
    by (simp add: render_markers_Some b)
qed

theorem geocode_fits_view_witness:
  "\<exists>w'. mapRef (geocodeScenes paris_net (the (run ready_paris page_init))) = Some w'
     \<and> camera w' = Fitted \<lparr>minLon = Fin 2.35, maxLon = Fin 2.35,
                            minLat = Fin 48.85, maxLat = Fin 48.85\<rparr> 50
     \<and> attached w' = markers_of [\<lparr>name = ''Paris'', coord = (Fin 2.35, Fin 48.85)\<rparr>]"
proof -
  let ?s = "the (run ready_paris page_init)"
  let ?ws = "[\<lparr>name = ''Paris'', coord = (Fin 2.35, Fin 48.85)\<rparr>]"
  have m: "mapRef ?s = Some (on_load (addControl ''NavigationControl'' new_map))"
    by (simp add: ready_paris_run)
  have n: "newWaypoints (geocode_batch paris_net (scene_names (sceneText ?s))) = ?ws"
    by (simp add: ready_paris_run geocode_eval parseFloat_eval)
  have b: "waypoint_bounds ?ws = Some \<lparr>minLon = Fin 2.35, maxLon = Fin 2.35,
      minLat = Fin 48.85, maxLat = Fin 48.85\<rparr>"
    by (simp add: waypoint_bounds_def route_def bounds_of_def bounds_init_def bounds_step_def
        lower_def upper_def)
  from geocode_fits_view [OF ready_paris_reachable m n] b show ?thesis
    by auto
qed

text \<open>C23: The page accepts clicks and draws markers before the map has loaded. In
  every reachable state in which the map exists but has not loaded, every click is
  accepted, stores its waypoint and draws the markers of the whole list, while the route
  source does not exist yet; when the map then loads, the source is created empty and
  nothing redraws: the map is ready, shows one marker per waypoint, and its route line is
  empty although the list is not.\<close>

theorem click_before_load:
  assumes "reachable s" and "phase_of s = Created"
  shows "enabled s (MapClick lng lt) \<and> enabled (handle (MapClick lng lt) s) MapLoad
    \<and> (let s2 = handle MapLoad (handle (MapClick lng lt) s);
            ws = waypoints s @ [\<lparr>name = waypoint_name (length (waypoints s) + 1), coord = (lng, lt)\<rparr>]
        in phase_of s2 = Ready \<and> waypoints s2 = ws
           \<and> map_option attached (mapRef s2) = Some (markers_of ws)
           \<and> map_option route_data (mapRef s2) = Some (Some []))"
proof -
  from assms(2) obtain w where w: "mapRef s = Some w" "\<not> loaded w" "isMounted s"
    by (cases "mapRef s") (auto simp: phase_of_def split: if_splits)
  note inv = reachable_widget [OF assms(1) w(1)]
  from w(2) inv(4) have "route_data w = None" by simp
  with w inv(1,2) show ?thesis
    by (simp add: setWaypoints_def clickWaypoint_def render_markers_Some map_loaded_def
        on_load_def setData_eq phase_of_def Let_def)
qed

theorem click_before_load_witness:
  "map_option (\<lambda>s. (phase_of s, length (waypoints s),
        map_option (\<lambda>w. (length (attached w), route_data w)) (mapRef s)))
     (run [ImportResolved, MapClick (Fin 1) (Fin 2)] page_init)
     = Some (Created, 1, Some (1, None))
   \<and> map_option (\<lambda>s. (phase_of s, length (waypoints s),
        map_option (\<lambda>w. (length (attached w), route_data w)) (mapRef s)))
     (run [ImportResolved, MapClick (Fin 1) (Fin 2), MapLoad] page_init)
     = Some (Ready, 1, Some (1, Some []))"
proof -
  have "reachable (handle ImportResolved page_init)"
    using run_reachable [OF reachable.reach_init, of "[ImportResolved]"
        "handle ImportResolved page_init"]
    by (simp add: page_init_def)
  moreover have "phase_of (handle ImportResolved page_init) = Created"
    by (simp add: page_eval phase_of_def)
  ultimately show ?thesis
    using click_before_load [of "handle ImportResolved page_init" "Fin 1" "Fin 2"]
    by (simp add: page_eval phase_of_def markers_of_def)
qed

section \<open>The lifecycle\<close>

lemma phase_of_render [simp]:
  "phase_of (render_markers ws (s\<lparr>waypoints := ws\<rparr>)) = phase_of s"
  by (cases "mapRef s") (simp_all add: phase_of_def render_markers_None render_markers_Some)

lemma phase_le_Disposed [simp]: "p \<le> Disposed"
  by (cases p) (simp_all add: less_eq_phase_def)

lemma phase_of_unmount [simp]: "phase_of (unmount s) = Disposed"
  by (simp add: phase_of_def unmount_def)

lemma phase_of_setWaypoints: "phase_of s \<le> phase_of (setWaypoints upd s)"
proof (cases "isMounted s")
  case False
  then show ?thesis by (simp add: setWaypoints_unmounted)
next
  case True
  then show ?thesis
    by (cases "upd (waypoints s)") (simp_all add: setWaypoints_Same setWaypoints_Fresh setWaypoints_def)
qed

lemma phase_of_fit_view [simp]: "phase_of (fit_view ws s) = phase_of s"
  by (cases "mapRef s"; cases "waypoint_bounds ws")
    (simp_all add: phase_of_def fit_view_def fitBounds_def)

lemma phase_of_alerts [simp]: "phase_of (s\<lparr>alerts := a\<rparr>) = phase_of s"
  by (simp add: phase_of_def)

lemma phase_of_geocode: "phase_of s \<le> phase_of (geocodeScenes net s)"
proof -
  have "phase_of (fit_view ws (s\<lparr>alerts := a\<rparr>))
      \<le> phase_of (setWaypoints upd (fit_view ws (s\<lparr>alerts := a\<rparr>)))" for ws a upd
    by (rule phase_of_setWaypoints)
  then show ?thesis by (auto simp: geocodeScenes_def Let_def)
qed

text \<open>No handler takes the map back to an earlier phase.\<close>

lemma phase_handle:
  assumes "page_inv s" and "enabled s e"
  shows "phase_of s \<le> phase_of (handle e s)"
proof (cases e)
  case ImportResolved
  with assms show ?thesis
    by (cases "mapRef s") (auto simp: import_resolved_def phase_of_def less_eq_phase_def
        inv_defs new_map_def addControl_def)
next
  case MapLoad
  with assms(2) show ?thesis
    by (cases "mapRef s") (auto simp: map_loaded_def phase_of_def less_eq_phase_def on_load_def)
next
  case (Geocode net)
  then show ?thesis by (simp add: phase_of_geocode)
next
  case ToggleTerrain
  then show ?thesis
    by (cases "mapRef s")
      (auto simp: toggleTerrain_def set_terrain_def setTerrain_def phase_of_def less_eq_phase_def)
next
  case Unmount
  then show ?thesis by simp
qed (simp_all add: phase_of_setWaypoints, simp_all add: phase_of_def)

text \<open>On an unmounted page no handler of the page can run but the late resolution of
  the import, which creates no map.\<close>

lemma unmounted_handle:
  assumes "page_inv s" and "\<not> isMounted s" and "enabled s e"
  shows "e = ImportResolved \<and> handle e s = s\<lparr>importPending := False\<rparr> \<and> mapRef s = None"
proof -
  from assms(1,2) have "mapRef s = None"
    by (cases "mapRef s") (simp_all add: inv_defs)
  with assms(2,3) show ?thesis
    by (cases e) (auto simp: import_resolved_def)
qed

end
