(* ===== verification/Page_Async.thy ===== *)
theory Page_Async
  imports Page_Lifecycle
begin

text \<open>
  The page with its geocoding batches in flight.

  \<^verbatim>\<open>geocodeScenes\<close> in \<^verbatim>\<open>src/unnamed/part_000\<close> is an \<^verbatim>\<open>async\<close> function: its loop
  (lines 211-232) waits for the reply to each request, and while it waits the browser
  delivers other events to the page. \<^verbatim>\<open>Page_Controller\<close> runs the whole loop as one
  event; this theory runs it one reply at a time.

  \<^item> A \<open>job\<close> is one call of \<^verbatim>\<open>geocodeScenes\<close> that is waiting for a reply: the names
    it still has to look up, the first of which has been requested, and the local array
    \<^verbatim>\<open>newWaypoints\<close>. A \<open>tab\<close> is the page, the jobs in flight and the names requested so
    far (\<open>sent\<close>, kept for the statements only).
  \<^item> \<open>start_geocode\<close> is the part of the function before the first \<^verbatim>\<open>await\<close>: lines
    202-219, the names, the dialog for an empty list, and the first request. \<open>job_step\<close> is one turn of the loop body from the
    reply on (lines 220-231); \<open>finish_job\<close> is lines 233-259; \<open>deliver\<close> resumes a job
    with a reply: it shows the dialog of a failure, and then either sends the next
    request or finishes the job. The two \<^verbatim>\<open>await\<close>s of one turn (the response, then
    its body) are one reply here: the loop reads nothing of the page between them.
  \<^item> \<open>async_event\<close>, \<open>async_enabled\<close>, \<open>async_handle\<close>, \<open>async_step\<close>,
    \<open>async_reachable\<close> and \<open>async_run\<close> are the transition system of the tab: the events
    of the page except the one-step geocoding, the click on the geocode button, and a
    reply to any job in flight.
  \<^item> \<open>expand\<close> turns a run of the page of \<^verbatim>\<open>Page_Controller\<close> into the run of the tab in
    which every batch gets all its replies before anything else happens;
    \<open>atomic_run_refined\<close> shows that the two runs end in the same page, so every
    statement about reachable states of the tab covers the page of \<^verbatim>\<open>Page_Controller\<close>.
  \<^item> \<open>tab_inv\<close> extends the invariant of the page by \<open>jobs_ok\<close> (a job in flight has a
    name left); \<open>pending\<close> counts the replies the tab still waits for and is the measure
    by which every batch ends. \<open>names_ok\<close> is the invariant of the requests: every name
    requested or still to be requested is a name of a scene text, and the first name of
    a job in flight has been requested.
\<close>

section \<open>Batches in flight\<close>

record job =
  todo :: "string list"
  found :: "waypoint list"

record tab =
  shown :: page
  inflight :: "job list"
  sent :: "string list"

definition tab_init :: tab where
  "tab_init = \<lparr>shown = page_init, inflight = [], sent = []\<rparr>"

definition idle :: "page \<Rightarrow> string list \<Rightarrow> tab" where
  "idle s rq = \<lparr>shown = s, inflight = [], sent = rq\<rparr>"

definition alert :: "string list \<Rightarrow> page \<Rightarrow> page" where
  "alert ns s = s\<lparr>alerts := alerts s @ ns\<rparr>"

definition start_geocode :: "tab \<Rightarrow> tab" where
  "start_geocode t =
     (case scene_names (sceneText (shown t)) of
        [] \<Rightarrow> t\<lparr>shown := alert [empty_notice] (shown t)\<rparr>
      | nm # rest \<Rightarrow> t\<lparr>inflight := inflight t @ [\<lparr>todo = nm # rest, found = []\<rparr>],
                        sent := sent t @ [nm]\<rparr>)"

definition job_step :: "response \<Rightarrow> job \<Rightarrow> job \<times> string list" where
  "job_step r j =
     (case todo j of
        [] \<Rightarrow> (j, [])
      | nm # rest \<Rightarrow>
          (case geocode_one nm r of
             Found wp \<Rightarrow> (\<lparr>todo = rest, found = found j @ [wp]\<rparr>, [])
           | Notice n \<Rightarrow> (\<lparr>todo = rest, found = found j\<rparr>, [n])))"

definition finish_job :: "waypoint list \<Rightarrow> page \<Rightarrow> page" where
  "finish_job ws s = (if ws = [] then s else setWaypoints (replaceAll ws) (fit_view ws s))"

definition drop_job :: "nat \<Rightarrow> job list \<Rightarrow> job list" where
  "drop_job k js = take k js @ drop (Suc k) js"

definition deliver :: "nat \<Rightarrow> response \<Rightarrow> tab \<Rightarrow> tab" where
  "deliver k r t =
     (let (j, ns) = job_step r (inflight t ! k);
          s1 = alert ns (shown t)
      in case todo j of
           [] \<Rightarrow> \<lparr>shown = finish_job (found j) s1, inflight = drop_job k (inflight t), sent = sent t\<rparr>
         | nm # rest \<Rightarrow> \<lparr>shown = s1, inflight = (inflight t)[k := j], sent = sent t @ [nm]\<rparr>)"

section \<open>Events of the tab\<close>

datatype async_event = Page event | GeocodeClick | Response nat response

fun is_geocode :: "event \<Rightarrow> bool" where
  "is_geocode (Geocode net) = True"
| "is_geocode e = False"

fun async_enabled :: "tab \<Rightarrow> async_event \<Rightarrow> bool" where
  "async_enabled t (Page e) = (enabled (shown t) e \<and> \<not> is_geocode e)"
| "async_enabled t GeocodeClick = isMounted (shown t)"
| "async_enabled t (Response k r) = (k < length (inflight t))"

fun async_handle :: "async_event \<Rightarrow> tab \<Rightarrow> tab" where
  "async_handle (Page e) t = t\<lparr>shown := handle e (shown t)\<rparr>"
| "async_handle GeocodeClick t = start_geocode t"
| "async_handle (Response k r) t = deliver k r t"

inductive async_step :: "tab \<Rightarrow> async_event \<Rightarrow> tab \<Rightarrow> bool" where
  async_step: "async_enabled t e \<Longrightarrow> async_step t e (async_handle e t)"

inductive async_reachable :: "tab \<Rightarrow> bool" where
  async_init: "async_reachable tab_init"
| async_next: "async_reachable t \<Longrightarrow> async_step t e u \<Longrightarrow> async_reachable u"

fun async_run :: "async_event list \<Rightarrow> tab \<Rightarrow> tab option" where
  "async_run [] t = Some t"
| "async_run (e # es) t = (if async_enabled t e then async_run es (async_handle e t) else None)"

definition replies :: "network \<Rightarrow> nat \<Rightarrow> string list \<Rightarrow> response list" where
  "replies net i names = map (\<lambda>(k, nm). net k nm) (enumerate i names)"

definition pending :: "tab \<Rightarrow> nat" where
  "pending t = sum_list (map (\<lambda>j. length (todo j)) (inflight t))"

definition jobs_ok :: "tab \<Rightarrow> bool" where
  "jobs_ok t \<longleftrightarrow> list_all (\<lambda>j. todo j \<noteq> []) (inflight t)"

definition tab_inv :: "tab \<Rightarrow> bool" where
  "tab_inv t \<longleftrightarrow> page_inv (shown t) \<and> jobs_ok t"

declare tab_inv_def [inv_defs] jobs_ok_def [inv_defs]

definition names_ok :: "tab \<Rightarrow> bool" where
  "names_ok t \<longleftrightarrow>
     list_all request_name (sent t)
     \<and> list_all (\<lambda>j. list_all request_name (todo j) \<and> hd (todo j) \<in> set (sent t)) (inflight t)"

fun expand :: "page \<Rightarrow> event list \<Rightarrow> async_event list" where
  "expand s [] = []"
| "expand s (Geocode net # es) =
     GeocodeClick # map (Response 0) (replies net 0 (scene_names (sceneText s)))
       @ expand (geocodeScenes net s) es"
| "expand s (e # es) = Page e # expand (handle e s) es"

fun asked :: "page \<Rightarrow> event list \<Rightarrow> string list" where
  "asked s [] = []"
| "asked s (Geocode net # es) = scene_names (sceneText s) @ asked (geocodeScenes net s) es"
| "asked s (e # es) = asked (handle e s) es"

definition busy_trace :: "async_event list" where
  "busy_trace = [Page ImportResolved, Page MapLoad, Page (SetSceneText ''Paris''), GeocodeClick,
                 Page (MapClick (Fin 1) (Fin 2))]"

definition leaving_trace :: "async_event list" where
  "leaving_trace = [Page (SetSceneText (''Atlantis'' @ [newline] @ ''Paris'')), GeocodeClick,
                    Page Unmount]"

declare start_geocode_def [handler_defs] finish_job_def [handler_defs] alert_def [handler_defs]

definition found_of :: "outcome \<Rightarrow> waypoint list" where
  "found_of out = (case out of Found wp \<Rightarrow> [wp] | Notice n \<Rightarrow> [])"

definition notice_of :: "outcome \<Rightarrow> string list" where
  "notice_of out = (case out of Found wp \<Rightarrow> [] | Notice n \<Rightarrow> [n])"

section \<open>One reply\<close>

lemma alert_Nil [simp]: "alert [] s = s"
  by (simp add: alert_def)

lemma alert_alert [simp]: "alert ms (alert ns s) = alert (ns @ ms) s"
  by (simp add: alert_def)

lemma drop_job_update [simp]: "drop_job k (js[k := j]) = drop_job k js"
  by (simp add: drop_job_def)

lemma length_drop_job: "k < length js \<Longrightarrow> length (drop_job k js) = length js - 1"
  by (simp add: drop_job_def)

lemma job_step_Cons:
  "todo j = nm # rest \<Longrightarrow>
   job_step r j = (\<lparr>todo = rest, found = found j @ found_of (geocode_one nm r)\<rparr>,
                   notice_of (geocode_one nm r))"
  by (simp add: job_step_def found_of_def notice_of_def split: outcome.splits)

lemma outcome_lists:
  "(case found_at net (i, nm) of None \<Rightarrow> ws | Some wp \<Rightarrow> wp # ws)
     = found_of (geocode_one nm (net i nm)) @ ws"
  "(case notice_at net (i, nm) of None \<Rightarrow> ns | Some n \<Rightarrow> n # ns)
     = notice_of (geocode_one nm (net i nm)) @ ns"
  by (simp_all add: found_at_def notice_at_def found_of_def notice_of_def split: outcome.splits)

lemma deliver_last:
  assumes "todo (inflight t ! k) = [nm]"
  shows "deliver k r t =
     \<lparr>shown = finish_job (found (inflight t ! k) @ found_of (geocode_one nm r))
                (alert (notice_of (geocode_one nm r)) (shown t)),
      inflight = drop_job k (inflight t), sent = sent t\<rparr>"
  using assms by (simp add: deliver_def job_step_Cons)

lemma deliver_more:
  assumes "todo (inflight t ! k) = nm # nm' # rest"
  shows "deliver k r t =
     \<lparr>shown = alert (notice_of (geocode_one nm r)) (shown t),
      inflight = (inflight t)[k := \<lparr>todo = nm' # rest,
                     found = found (inflight t ! k) @ found_of (geocode_one nm r)\<rparr>],
      sent = sent t @ [nm']\<rparr>"
  using assms by (simp add: deliver_def job_step_Cons)

section \<open>A whole batch\<close>

lemma run_job:
  assumes "names \<noteq> []" and "k < length (inflight t)" and "todo (inflight t ! k) = names"
  shows "async_run (map (Response k) (replies net i names)) t = Some
     \<lparr>shown = finish_job (found (inflight t ! k) @ List.map_filter (found_at net) (enumerate i names))
                (alert (List.map_filter (notice_at net) (enumerate i names)) (shown t)),
      inflight = drop_job k (inflight t), sent = sent t @ tl names\<rparr>"
  using assms
proof (induction names arbitrary: t i rule: list_nonempty_induct)
  case (single nm)
  then show ?case
    by (simp add: replies_def deliver_last outcome_lists)
next
  case (cons nm names)
  from cons.hyps obtain nm' rest where names: "names = nm' # rest" by (cases names) auto
  let ?t = "deliver k (net i nm) t"
  have t': "?t = \<lparr>shown = alert (notice_of (geocode_one nm (net i nm))) (shown t),
      inflight = (inflight t)[k := \<lparr>todo = names,
                     found = found (inflight t ! k) @ found_of (geocode_one nm (net i nm))\<rparr>],
      sent = sent t @ [nm']\<rparr>"
    using cons.prems(2) by (simp add: deliver_more names)
  have "async_run (map (Response k) (replies net i (nm # names))) t
      = async_run (map (Response k) (replies net (Suc i) names)) ?t"
    using cons.prems(1) by (simp add: replies_def)
  also have "\<dots> = Some
     \<lparr>shown = finish_job (found (inflight ?t ! k) @ List.map_filter (found_at net) (enumerate (Suc i) names))
                (alert (List.map_filter (notice_at net) (enumerate (Suc i) names)) (shown ?t)),
      inflight = drop_job k (inflight ?t), sent = sent ?t @ tl names\<rparr>"
    using cons.prems(1) by (intro cons.IH) (simp_all add: t')
  finally show ?case
    using cons.prems(1)
    by (simp add: t' names outcome_lists)
qed

lemma async_run_append:
  "async_run (es @ fs) t = (case async_run es t of None \<Rightarrow> None | Some u \<Rightarrow> async_run fs u)"
  by (induction es arbitrary: t) simp_all

lemma async_run_reachable: "async_reachable t \<Longrightarrow> async_run es t = Some u \<Longrightarrow> async_reachable u"
proof (induction es arbitrary: t)
  case Nil
  then show ?case by simp
next
  case (Cons e es)
  from Cons.prems(2) have en: "async_enabled t e" and r: "async_run es (async_handle e t) = Some u"
    by (auto split: if_splits)
  from Cons.prems(1) en have "async_reachable (async_handle e t)"
    by (blast intro: async_reachable.async_next async_step.async_step)
  then show ?case using r by (rule Cons.IH)
qed

lemma finish_job_batch:
  "finish_job (newWaypoints (geocode_batch net names)) (alert (notices (geocode_batch net names)) s)
     = (let b = geocode_batch net names; s1 = s\<lparr>alerts := alerts s @ notices b\<rparr>
        in if newWaypoints b = [] then s1
           else setWaypoints (replaceAll (newWaypoints b)) (fit_view (newWaypoints b) s1))"
  by (simp add: finish_job_def alert_def Let_def)

lemma geocode_by_replies:
  assumes "isMounted s"
  shows "async_run (GeocodeClick # map (Response 0) (replies net 0 (scene_names (sceneText s))))
           (idle s rq)
     = Some (idle (geocodeScenes net s) (rq @ scene_names (sceneText s)))"
proof (cases "scene_names (sceneText s)")
  case Nil
  with assms show ?thesis
    by (simp add: idle_def start_geocode_def replies_def geocodeScenes_def alert_def)
next
  case (Cons nm rest)
  let ?t = "\<lparr>shown = s, inflight = [\<lparr>todo = nm # rest, found = []\<rparr>], sent = rq @ [nm]\<rparr>"
  have "async_run (map (Response 0) (replies net 0 (nm # rest))) ?t = Some
     \<lparr>shown = finish_job (found (inflight ?t ! 0) @ List.map_filter (found_at net) (enumerate 0 (nm # rest)))
                (alert (List.map_filter (notice_at net) (enumerate 0 (nm # rest))) (shown ?t)),
      inflight = drop_job 0 (inflight ?t), sent = sent ?t @ tl (nm # rest)\<rparr>"
    by (rule run_job) simp_all
  moreover have "geocodeScenes net s
      = finish_job (newWaypoints (geocode_batch net (nm # rest)))
          (alert (notices (geocode_batch net (nm # rest))) s)"
    unfolding finish_job_batch by (simp add: geocodeScenes_def Cons)
  ultimately show ?thesis
    using assms Cons
    by (simp add: idle_def start_geocode_def geocode_batch_eq drop_job_def del: enumerate_simps)
qed

lemma page_event_idle:
  "\<not> is_geocode e \<Longrightarrow>
   async_run (Page e # es) (idle s rq)
     = (if enabled s e then async_run es (idle (handle e s) rq) else None)"
  by (simp add: idle_def)

lemma page_run_idle:
  assumes "list_all (\<lambda>e. \<not> is_geocode e) es"
  shows "async_run (map Page es) (idle s rq) = map_option (\<lambda>s'. idle s' rq) (run es s)"
  using assms
proof (induction es arbitrary: s)
  case Nil
  show ?case by simp
next
  case (Cons e es)
  then show ?case by (simp add: page_event_idle del: async_run.simps)
qed

section \<open>The page in one step per batch is a run of the tab\<close>

text \<open>C5: Handling a geocoding batch in one step is one of the schedules of the tab:
  for every sequence of page events, the run of the tab in which each click on the
  geocode button is followed at once by the replies to all its requests ends in the
  page that the one-step run ends in, with no batch in flight and with one request sent
  per name of each batch; and it is refused exactly when the one-step run is.\<close>

theorem atomic_run_refined:
  "async_run (expand s es) (idle s rq) = map_option (\<lambda>s'. idle s' (rq @ asked s es)) (run es s)"
proof (induction s es arbitrary: rq rule: expand.induct)
  case (1 s)
  show ?case by simp
next
  case (2 s net es)
  show ?case
  proof (cases "isMounted s")
    case True
    have "async_run (expand s (Geocode net # es)) (idle s rq)
        = async_run (expand (geocodeScenes net s) es)
            (idle (geocodeScenes net s) (rq @ scene_names (sceneText s)))"
      using geocode_by_replies [OF True, of net rq]
      by (simp only: expand.simps append_Cons [symmetric] async_run_append) simp
    with True show ?thesis by (simp add: "2.IH")
  next
    case False
    then show ?thesis by (simp add: idle_def)
  qed
qed (simp_all add: page_event_idle del: async_run.simps handle.simps enabled.simps)

section \<open>The invariant of the tab\<close>

lemma shown_idle [simp]: "shown (idle s rq) = s"
  by (simp add: idle_def)

lemma tab_init_idle: "tab_init = idle page_init []"
  by (simp add: tab_init_def idle_def)

lemma page_inv_alert: "page_inv s \<Longrightarrow> page_inv (alert ns s)"
  by (simp add: alert_def page_inv_alerts)

lemma page_inv_finish: "page_inv s \<Longrightarrow> page_inv (finish_job ws s)"
  by (simp add: finish_job_def page_inv_setWaypoints page_inv_fit_view replaceAll_def)

lemma jobs_ok_drop: "list_all P js \<Longrightarrow> list_all P (drop_job k js)"
  by (auto simp: drop_job_def list_all_iff dest: in_set_takeD in_set_dropD)

lemma jobs_ok_update: "list_all P js \<Longrightarrow> P j \<Longrightarrow> list_all P (js[k := j])"
  by (auto simp: list_all_iff dest: set_update_subset_insert [THEN subsetD])

lemma todo_nth: "jobs_ok t \<Longrightarrow> k < length (inflight t) \<Longrightarrow> todo (inflight t ! k) \<noteq> []"
  by (simp add: jobs_ok_def list_all_length)

lemma deliver_cases:
  assumes "jobs_ok t" and "k < length (inflight t)"
  obtains (last) nm where "todo (inflight t ! k) = [nm]"
    | (more) nm nm' rest where "todo (inflight t ! k) = nm # nm' # rest"
  using todo_nth [OF assms] by (cases "todo (inflight t ! k)"; cases "tl (todo (inflight t ! k))") auto

lemma tab_inv_deliver:
  assumes "tab_inv t" and "k < length (inflight t)"
  shows "tab_inv (deliver k r t)"
proof -
  from assms(1) have ok: "jobs_ok t" and inv: "page_inv (shown t)" by (simp_all add: tab_inv_def)
  from ok assms(2) show ?thesis
  proof (cases rule: deliver_cases)
    case (last nm)
    with ok inv show ?thesis
      by (simp add: deliver_last tab_inv_def jobs_ok_def jobs_ok_drop page_inv_finish page_inv_alert)
  next
    case (more nm nm' rest)
    with ok inv show ?thesis
      by (simp add: deliver_more tab_inv_def jobs_ok_def jobs_ok_update page_inv_alert)
  qed
qed

lemma tab_inv_start: "tab_inv t \<Longrightarrow> tab_inv (start_geocode t)"
  by (cases "scene_names (sceneText (shown t))")
    (simp_all add: start_geocode_def tab_inv_def jobs_ok_def page_inv_alert)

lemma tab_inv_handle:
  assumes "tab_inv t" and "async_enabled t e"
  shows "tab_inv (async_handle e t)"
proof (cases e)
  case (Page ev)
  with assms show ?thesis by (simp add: tab_inv_def jobs_ok_def page_inv_handle)
next
  case GeocodeClick
  with assms show ?thesis by (simp add: tab_inv_start)
next
  case (Response k r)
  with assms show ?thesis by (simp add: tab_inv_deliver)
qed

inductive_cases async_stepE [elim!]: "async_step t e u"

lemma async_reachable_inv: "async_reachable t \<Longrightarrow> tab_inv t"
proof (induction rule: async_reachable.induct)
  case async_init
  show ?case by (simp add: tab_inv_def jobs_ok_def tab_init_def page_inv_init)
next
  case (async_next t e u)
  then show ?case by (auto intro: tab_inv_handle)
qed

text \<open>Every name the tab has requested, and every name a job in flight still has to
  request, is a name of a scene text: the only names a job ever has are those of
  \<open>scene_names\<close> at the click that started it.\<close>

lemma names_ok_start: "names_ok t \<Longrightarrow> names_ok (start_geocode t)"
  using scene_names_request [of "sceneText (shown t)"]
  by (cases "scene_names (sceneText (shown t))")
    (auto simp: start_geocode_def names_ok_def list_all_iff)

lemma names_ok_deliver:
  assumes "names_ok t" and "jobs_ok t" and "k < length (inflight t)"
  shows "names_ok (deliver k r t)"
proof -
  let ?P = "\<lambda>rq j. list_all request_name (todo j) \<and> hd (todo j) \<in> set rq"
  from assms(1) have jobs: "list_all (?P (sent t)) (inflight t)" and sent: "list_all request_name (sent t)"
    by (simp_all add: names_ok_def)
  from jobs assms(3) have job: "list_all request_name (todo (inflight t ! k))"
    by (simp add: list_all_length)
  from assms(2,3) show ?thesis
  proof (cases rule: deliver_cases)
    case (last nm)
    with jobs sent show ?thesis by (simp add: deliver_last names_ok_def jobs_ok_drop)
  next
    case (more nm nm' rest)
    from jobs have "list_all (?P (sent t @ [nm'])) (inflight t)"
      by (simp add: list_all_iff)
    moreover from job more have "?P (sent t @ [nm']) \<lparr>todo = nm' # rest, found = f\<rparr>" for f
      by simp
    ultimately show ?thesis
      using sent job more by (simp add: deliver_more names_ok_def jobs_ok_update)
  qed
qed

lemma async_reachable_names: "async_reachable t \<Longrightarrow> names_ok t"
proof (induction rule: async_reachable.induct)
  case async_init
  show ?case by (simp add: names_ok_def tab_init_def)
next
  case (async_next t e u)
  from async_next(1) have "jobs_ok t" using async_reachable_inv by (simp add: tab_inv_def)
  with async_next(2,3) show ?case
    by (cases e) (auto simp: names_ok_start names_ok_deliver, simp add: names_ok_def)
qed

lemma handle_idle: "async_handle (Page e) (idle s rq) = idle (handle e s) rq"
  by (simp add: idle_def)

lemma reachable_idle: "reachable s \<Longrightarrow> \<exists>rq. async_reachable (idle s rq)"
proof (induction rule: reachable.induct)
  case reach_init
  show ?case using async_reachable.async_init by (auto simp: tab_init_idle)
next
  case (reach_step s e t)
  then obtain rq where r: "async_reachable (idle s rq)" and en: "enabled s e"
    and t: "t = handle e s"
    by (auto simp: page_step_iff)
  show ?case
  proof (cases "is_geocode e")
    case True
    then obtain net where e: "e = Geocode net" by (cases e) auto
    with en have "isMounted s" by simp
    from async_run_reachable [OF r geocode_by_replies [OF this]] show ?thesis
      unfolding t e by auto
  next
    case False
    with en have "async_step (idle s rq) (Page e) (async_handle (Page e) (idle s rq))"
      by (intro async_step.async_step) simp
    with r have "async_reachable (idle (handle e s) rq)"
      unfolding handle_idle by (rule async_reachable.async_next)
    then show ?thesis unfolding t by blast
  qed
qed

lemma click_trace_tab: "\<exists>rq. async_reachable (idle (the (run click_trace page_init)) rq)"
  using click_trace_reachable by (rule reachable_idle)

section \<open>What the map shows, with batches in flight\<close>

text \<open>C1: In every state the tab can reach, with any number of geocoding batches in
  flight and replies arriving in any order between the other events, the markers on the
  map are exactly the markers the adapter remembers, and they are either none or one
  numbered marker per stored waypoint in store order; the route line is absent, empty,
  or the stored coordinates in store order; and the route source exists exactly when the
  map has loaded. The map never shows a marker or a vertex that the store does not
  hold.\<close>

theorem markers_follow_store:
  assumes "async_reachable t" and "mapRef (shown t) = Some w"
  shows "attached w = markersRef (shown t)
    \<and> (attached w = [] \<or> attached w = markers_of (waypoints (shown t)))
    \<and> (route_data w = None \<or> route_data w = Some []
        \<or> route_data w = Some (route (waypoints (shown t))))
    \<and> (loaded w \<longleftrightarrow> route_data w \<noteq> None)"
  using async_reachable_inv [OF assms(1)] assms(2) by (auto simp: inv_defs)

theorem markers_follow_store_witness:
  "\<exists>w. mapRef (the (run click_trace page_init)) = Some w
     \<and> attached w = markersRef (the (run click_trace page_init))
     \<and> attached w = markers_of (waypoints (the (run click_trace page_init)))
     \<and> route_data w = Some (route (waypoints (the (run click_trace page_init))))
     \<and> loaded w"
proof -
  let ?s = "the (run click_trace page_init)"
  obtain rq where t: "async_reachable (idle ?s rq)" using click_trace_tab by blast
  obtain w where w: "mapRef ?s = Some w" and a: "attached w = markers_of (waypoints ?s)"
    and r: "route_data w = Some (route (waypoints ?s))"
    by (simp add: click_trace_run route_def)
  from markers_follow_store [OF t, of w] w a r show ?thesis
    by auto
qed

text \<open>C7: No state the tab can reach has rendered an array with an \<^verbatim>\<open>undefined\<close>
  slot: the arrow buttons only ever pass the position of an existing row, and a batch
  that completes replaces the whole list, so the missing test of that position in the
  move handler cannot be reached from the page.\<close>

theorem page_never_crashes:
  assumes "async_reachable t"
  shows "\<not> crashed (shown t)"
  using async_reachable_inv [OF assms] by (simp add: inv_defs)

theorem page_never_crashes_witness: "\<not> crashed (the (run click_trace page_init))"
proof -
  obtain rq where "async_reachable (idle (the (run click_trace page_init)) rq)"
    using click_trace_tab by blast
  from page_never_crashes [OF this] show ?thesis by simp
qed

section \<open>Example runs of the tab\<close>

lemma busy_trace_run:
  "async_run busy_trace tab_init = Some
     \<lparr>shown = \<lparr>mapRef = Some ((on_load (addControl ''NavigationControl'' new_map))
                   \<lparr>attached := markers_of [\<lparr>name = ''Waypoint 1'', coord = (Fin 1, Fin 2)\<rparr>],
                    route_data := Some [(Fin 1, Fin 2)]\<rparr>),
               markersRef = markers_of [\<lparr>name = ''Waypoint 1'', coord = (Fin 1, Fin 2)\<rparr>],
               maplibreRef = True, isMounted = True, importPending = False,
               prompt = [], sceneText = ''Paris'',
               waypoints = [\<lparr>name = ''Waypoint 1'', coord = (Fin 1, Fin 2)\<rparr>],
               terrainEnabled = False, alerts = [], crashed = False\<rparr>,
      inflight = [\<lparr>todo = [''Paris''], found = []\<rparr>], sent = [''Paris'']\<rparr>"
  by (simp add: busy_trace_def tab_init_def start_geocode_def page_eval geocode_eval
      waypoint_name_def string_of_nat_digit digit_char_def)

lemma busy_trace_reachable: "async_reachable (the (async_run busy_trace tab_init))"
  using async_run_reachable [OF async_reachable.async_init, of busy_trace
      "the (async_run busy_trace tab_init)"]
  by (simp add: busy_trace_run)

lemma leaving_trace_run:
  "async_run leaving_trace tab_init = Some
     \<lparr>shown = page_init\<lparr>sceneText := ''Atlantis'' @ [newline] @ ''Paris'', isMounted := False\<rparr>,
      inflight = [\<lparr>todo = [''Atlantis'', ''Paris''], found = []\<rparr>], sent = [''Atlantis'']\<rparr>"
  by (simp add: leaving_trace_def tab_init_def start_geocode_def page_eval geocode_eval)

lemma leaving_trace_reachable: "async_reachable (the (async_run leaving_trace tab_init))"
  using async_run_reachable [OF async_reachable.async_init, of leaving_trace
      "the (async_run leaving_trace tab_init)"]
  by (simp add: leaving_trace_run)

section \<open>A batch ends\<close>

lemma replies_of_list:
  "length rs = length names \<Longrightarrow> replies (\<lambda>i nm. rs ! i) 0 names = rs"
  by (rule nth_equalityI) (simp_all add: replies_def nth_enumerate_eq)

lemma pending_drop_job:
  "k < length js \<Longrightarrow>
   sum_list (map (\<lambda>j. length (todo j)) (drop_job k js)) + length (todo (js ! k))
     = sum_list (map (\<lambda>j. length (todo j)) js)"
  using id_take_nth_drop [of k js]
  by (simp add: drop_job_def) (metis (no_types, lifting) add.commute add.left_commute
      list.simps(9) map_append sum_list.Cons sum_list.append)

text \<open>C8: Every batch ends. A batch in flight with \<open>n\<close> names left needs exactly \<open>n\<close>
  replies, whatever they are: after them the batch is gone from the tab, the work still
  pending in the tab has gone down by \<open>n\<close>, and one request has been sent for each of its
  remaining names, in order. The loop never asks twice for a name and never waits for a
  reply it did not ask for.\<close>

theorem batch_terminates:
  assumes "jobs_ok t" and "k < length (inflight t)"
    and "length rs = length (todo (inflight t ! k))"
  shows "\<exists>u. async_run (map (Response k) rs) t = Some u
    \<and> inflight u = drop_job k (inflight t)
    \<and> pending u + length rs = pending t
    \<and> sent u = sent t @ tl (todo (inflight t ! k))"
proof -
  let ?names = "todo (inflight t ! k)"
  from assms(1,2) have ne: "?names \<noteq> []" by (rule todo_nth)
  from run_job [OF ne assms(2) refl, of "\<lambda>i nm. rs ! i" 0]
  show ?thesis
    using assms(2,3) pending_drop_job [of k "inflight t"]
    by (simp add: replies_of_list pending_def)
qed

theorem batch_terminates_witness:
  "\<exists>u. async_run [Response 0 (Rejected ''offline''), Response 0 (Rejected ''offline'')]
          \<lparr>shown = page_init, inflight = [\<lparr>todo = [''Atlantis'', ''Paris''], found = []\<rparr>],
           sent = [''Atlantis'']\<rparr> = Some u
     \<and> inflight u = [] \<and> pending u = 0 \<and> sent u = [''Atlantis'', ''Paris'']"
  using batch_terminates [of "\<lparr>shown = page_init,
      inflight = [\<lparr>todo = [''Atlantis'', ''Paris''], found = []\<rparr>], sent = [''Atlantis'']\<rparr>" 0
      "[Rejected ''offline'', Rejected ''offline'']"]
  by (auto simp: jobs_ok_def drop_job_def pending_def)

section \<open>A batch that completes overwrites the list\<close>

lemma finish_job_mounted:
  "isMounted s \<Longrightarrow> ws \<noteq> [] \<Longrightarrow> waypoints (finish_job ws s) = ws \<and> alerts (finish_job ws s) = alerts s"
  by (simp add: finish_job_def setWaypoints_def replaceAll_def)

text \<open>C17: When the last reply of a batch finds its place, the list becomes the
  waypoints of that batch and nothing else: every waypoint that was clicked, moved or
  geocoded by another batch while this one was waiting for its replies is gone.\<close>

theorem final_reply_overwrites:
  assumes "todo (inflight t ! k) = [nm]" and "isMounted (shown t)"
    and "geocode_one nm r = Found wp"
  shows "waypoints (shown (deliver k r t)) = found (inflight t ! k) @ [wp]"
  using assms
  by (simp add: deliver_last found_of_def notice_of_def finish_job_mounted alert_def)

theorem final_reply_overwrites_witness:
  "map name (waypoints (shown (the (async_run busy_trace tab_init)))) = [''Waypoint 1'']
   \<and> map name (waypoints (shown
        (deliver 0 paris_reply (the (async_run busy_trace tab_init))))) = [''Paris'']"
  using final_reply_overwrites [of "the (async_run busy_trace tab_init)" 0 "''Paris''"
      paris_reply "\<lparr>name = ''Paris'', coord = (Fin 2.35, Fin 48.85)\<rparr>"]
  by (simp add: busy_trace_run geocode_one_def paris_reply_def lookup_prop_def parseFloat_eval)

section \<open>The lifecycle of the tab\<close>

lemma phase_of_alert [simp]: "phase_of (alert ns s) = phase_of s"
  by (simp add: alert_def)

lemma phase_of_finish: "phase_of s \<le> phase_of (finish_job ws s)"
  using phase_of_setWaypoints [of "fit_view ws s" "replaceAll ws"]
  by (simp add: finish_job_def)

lemma phase_of_deliver:
  assumes "jobs_ok t" and "k < length (inflight t)"
  shows "phase_of (shown t) \<le> phase_of (shown (deliver k r t))"
  using assms
proof (cases rule: deliver_cases)
  case (last nm)
  then show ?thesis
    using phase_of_finish [of "alert (notice_of (geocode_one nm r)) (shown t)"]
    by (simp add: deliver_last)
next
  case (more nm nm' rest)
  then show ?thesis by (simp add: deliver_more)
qed

text \<open>C13: The lifecycle only moves forward: no event of the tab, neither an event of
  the page nor a reply to a batch, takes the map from a later phase back to an earlier
  one. In particular a disposed page stays disposed and a ready map never becomes
  unloaded.\<close>

theorem phase_monotone:
  assumes "async_reachable t" and "async_step t e u"
  shows "phase_of (shown t) \<le> phase_of (shown u)"
proof -
  from assms(1) have inv: "page_inv (shown t)" and ok: "jobs_ok t"
    using async_reachable_inv by (simp_all add: tab_inv_def)
  from assms(2) have en: "async_enabled t e" and u: "u = async_handle e t" by auto
  show ?thesis
  proof (cases e)
    case (Page ev)
    with en inv show ?thesis unfolding u by (simp add: phase_handle)
  next
    case GeocodeClick
    then show ?thesis unfolding u
      by (cases "scene_names (sceneText (shown t))") (simp_all add: start_geocode_def)
  next
    case (Response k r)
    with en ok show ?thesis unfolding u by (simp add: phase_of_deliver)
  qed
qed

theorem phase_monotone_witness:
  "phase_of (shown tab_init) = Loading
   \<and> phase_of (shown (async_handle (Page ImportResolved) tab_init)) = Created
   \<and> phase_of (shown tab_init) \<le> phase_of (shown (async_handle (Page ImportResolved) tab_init))"
  using phase_monotone [OF async_reachable.async_init, of "Page ImportResolved"
      "async_handle (Page ImportResolved) tab_init"]
    async_step.async_step [of tab_init "Page ImportResolved"]
  by (simp add: tab_init_def page_init_def phase_of_def import_resolved_def addControl_def
      new_map_def)

section \<open>After unmount\<close>

lemma finish_job_unmounted: "\<not> isMounted s \<Longrightarrow> mapRef s = None \<Longrightarrow> finish_job ws s = s"
  by (simp add: finish_job_def setWaypoints_unmounted fit_view_def)

lemma unmounted_deliver:
  assumes "jobs_ok t" and "k < length (inflight t)" and "\<not> isMounted (shown t)"
    and "mapRef (shown t) = None"
  shows "\<exists>ns. shown (deliver k r t) = alert ns (shown t)"
  using assms(1,2)
proof (cases rule: deliver_cases)
  case (last nm)
  with assms(3,4) show ?thesis
    by (simp add: deliver_last finish_job_unmounted alert_def) (auto simp: alert_def)
next
  case (more nm nm' rest)
  then show ?thesis by (auto simp: deliver_more)
qed

text \<open>C24: After unmount the page itself is inert, but its batches are not. The only
  events that can still arrive are the late resolution of the library import and the
  replies to batches in flight; none of them creates a map or touches the list, the
  only things that still change are the import flag and the dialogs shown.\<close>

theorem unmounted_is_final:
  assumes "async_reachable t" and "\<not> isMounted (shown t)" and "async_step t e u"
  shows "(e = Page ImportResolved \<or> (\<exists>k r. e = Response k r))
    \<and> (\<exists>p ns. shown u = alert ns ((shown t)\<lparr>importPending := p\<rparr>))
    \<and> mapRef (shown u) = None"
proof -
  from async_reachable_inv [OF assms(1)] have inv: "page_inv (shown t)" and ok: "jobs_ok t"
    by (simp_all add: tab_inv_def)
  from inv assms(2) have m: "mapRef (shown t) = None"
    by (cases "mapRef (shown t)") (simp_all add: inv_defs)
  from assms(3) have en: "async_enabled t e" and u: "u = async_handle e t" by auto
  show ?thesis
  proof (cases e)
    case (Page ev)
    with en have "enabled (shown t) ev" by simp
    from unmounted_handle [OF inv assms(2) this] Page m show ?thesis
      unfolding u by (auto intro!: exI [of _ False] exI [of _ "[]"])
  next
    case GeocodeClick
    with en assms(2) show ?thesis by simp
  next
    case (Response k r)
    with en have "k < length (inflight t)" by simp
    from unmounted_deliver [OF ok this assms(2) m, of r] obtain ns
      where "shown (deliver k r t) = alert ns (shown t)" by blast
    with Response m show ?thesis
      unfolding u by (auto simp: alert_def intro!: exI [of _ "importPending (shown t)"])
  qed
qed

theorem unmounted_is_final_witness:
  "shown (deliver 0 (Replied True (Parsed (JArr []))) (the (async_run leaving_trace tab_init)))
     = alert [''Could not find location: Atlantis''] (shown (the (async_run leaving_trace tab_init)))
   \<and> mapRef (shown (deliver 0 (Replied True (Parsed (JArr [])))
        (the (async_run leaving_trace tab_init)))) = None"
  using unmounted_is_final [OF leaving_trace_reachable, of "Response 0 (Replied True (Parsed (JArr [])))"
      "deliver 0 (Replied True (Parsed (JArr []))) (the (async_run leaving_trace tab_init))"]
    async_step.async_step [of "the (async_run leaving_trace tab_init)"
      "Response 0 (Replied True (Parsed (JArr [])))"]
  by (simp add: leaving_trace_run deliver_more geocode_one_def notice_of_def missing_notice_def)

text \<open>C25: A reply is handled the same way whether or not the page is still mounted:
  while the batch has names left, the dialog of a failed name is shown and the request
  for the next name is sent. Unmounting the page therefore cancels nothing: the batch
  goes on to ask for every remaining name and to report every failure.\<close>

theorem reply_ignores_unmount:
  assumes "todo (inflight t ! k) = nm # nm' # rest"
  shows "sent (deliver k r t) = sent t @ [nm']
    \<and> alerts (shown (deliver k r t)) = alerts (shown t) @ notice_of (geocode_one nm r)
    \<and> isMounted (shown (deliver k r t)) = isMounted (shown t)"
  using assms by (simp add: deliver_more alert_def)

theorem reply_ignores_unmount_witness:
  "\<not> isMounted (shown (the (async_run leaving_trace tab_init)))
   \<and> sent (deliver 0 (Replied True (Parsed (JArr []))) (the (async_run leaving_trace tab_init)))
       = [''Atlantis'', ''Paris'']
   \<and> alerts (shown (deliver 0 (Replied True (Parsed (JArr [])))
        (the (async_run leaving_trace tab_init)))) = [''Could not find location: Atlantis'']"
  using reply_ignores_unmount [of "the (async_run leaving_trace tab_init)" 0 "''Atlantis''"
      "''Paris''" "[]" "Replied True (Parsed (JArr []))"]
  by (simp add: leaving_trace_run page_init_def geocode_one_def notice_of_def missing_notice_def)

end
