(* ===== verification/Store_Contract.thy ===== *)
theory Store_Contract
  imports Page_Async
begin

text \<open>
  The contract of the waypoint store and the proof that the page keeps to it.

  The store of the design is a sequence of waypoints with four operations: append at the
  end, replace the whole sequence, swap a position with a neighbour (or do nothing at an
  end), and clear. \<open>store_op\<close> names them and \<open>store_apply\<close> is their meaning on plain
  lists; \<open>moveAt\<close> is the swap of \<^verbatim>\<open>Waypoint_Store\<close>.

  The page has no store object: its list is the React state cell \<^verbatim>\<open>waypoints\<close> of
  \<^verbatim>\<open>src/unnamed/part_000\<close>, written by the click handler, the arrow buttons, the clear
  button and the end of a geocoding batch. \<open>op_of\<close> reads off an event of the tab, in
  the state in which it arrives, the store operation it performs, if any, and
  \<open>trace_ops\<close> collects the operations of a run.

  \<open>step_refines_store\<close> is the simulation: with \<open>waypoints\<close> of the page shown as the
  abstraction, every step of a reachable tab is the store operation \<open>op_of\<close> names or
  leaves the list alone. \<open>store_refinement\<close> lifts it to runs: the list at the end of a
  run is the list at its start with the operations of the run applied in order. So no
  event writes the list in another way than the contract allows, and each write is one
  operation on the whole list, also when batches are in flight.
\<close>

section \<open>The contract\<close>

datatype store_op =
    Append string lnglat
  | ReplaceAll "waypoint list"
  | MoveAt nat int
  | Clear

fun store_apply :: "store_op \<Rightarrow> waypoint list \<Rightarrow> waypoint list" where
  "store_apply (Append nm c) ws = ws @ [\<lparr>name = nm, coord = c\<rparr>]"
| "store_apply (ReplaceAll vs) ws = vs"
| "store_apply (MoveAt i d) ws = moveAt i d ws"
| "store_apply Clear ws = []"

section \<open>The operation an event performs\<close>

fun page_op :: "page \<Rightarrow> event \<Rightarrow> store_op option" where
  "page_op s (MapClick lng lt) = Some (Append (waypoint_name (length (waypoints s) + 1)) (lng, lt))"
| "page_op s (MoveUp i) = Some (MoveAt i (- 1))"
| "page_op s (MoveDown i) = Some (MoveAt i 1)"
| "page_op s ClearRoute = Some Clear"
| "page_op s (Geocode net) =
     (let ws = newWaypoints (geocode_batch net (scene_names (sceneText s)))
      in if ws = [] then None else Some (ReplaceAll ws))"
| "page_op s e = None"

fun op_of :: "tab \<Rightarrow> async_event \<Rightarrow> store_op option" where
  "op_of t (Page e) = page_op (shown t) e"
| "op_of t GeocodeClick = None"
| "op_of t (Response k r) =
     (let j = fst (job_step r (inflight t ! k))
      in if todo j = [] \<and> found j \<noteq> [] \<and> isMounted (shown t) then Some (ReplaceAll (found j))
         else None)"

fun trace_ops :: "tab \<Rightarrow> async_event list \<Rightarrow> store_op list" where
  "trace_ops t [] = []"
| "trace_ops t (e # es) =
     (case op_of t e of None \<Rightarrow> [] | Some x \<Rightarrow> [x]) @ trace_ops (async_handle e t) es"

definition perform :: "store_op option \<Rightarrow> waypoint list \<Rightarrow> waypoint list" where
  "perform x ws = (case x of None \<Rightarrow> ws | Some y \<Rightarrow> store_apply y ws)"

section \<open>One step\<close>

lemma perform_simps [simp]:
  "perform None ws = ws" "perform (Some y) ws = store_apply y ws"
  by (simp_all add: perform_def)

lemma setWaypoints_commit:
  assumes "isMounted s" and "commit (waypoints s) (upd (waypoints s)) = Some ws"
  shows "waypoints (setWaypoints upd s) = ws"
  using assms by (cases "upd (waypoints s)") (simp_all add: setWaypoints_def)

lemma page_refines_store:
  assumes "page_inv s" and "enabled s e"
  shows "waypoints (handle e s) = perform (page_op s e) (waypoints s)"
proof (cases e)
  case (MapClick lng lt)
  with assms have "isMounted s"
    by (cases "mapRef s") (simp_all add: inv_defs)
  with MapClick show ?thesis
    by (simp add: setWaypoints_commit clickWaypoint_def)
next
  case (MoveUp i)
  with assms(2) show ?thesis
    by (simp add: setWaypoints_commit moveWaypoint_refines_moveAt)
next
  case (MoveDown i)
  with assms(2) show ?thesis
    by (simp add: setWaypoints_commit moveWaypoint_refines_moveAt)
next
  case ClearRoute
  with assms(2) show ?thesis
    by (simp add: setWaypoints_commit clearRoute_def)
next
  case (Geocode net)
  with assms(2) show ?thesis
    by (simp add: geocodeScenes_def Let_def setWaypoints_commit replaceAll_def geocode_batch_def
        batch_start_def)
qed (simp_all add: handler_defs split: option.splits)

lemma step_refines_store:
  assumes "tab_inv t" and "async_enabled t e"
  shows "waypoints (shown (async_handle e t)) = perform (op_of t e) (waypoints (shown t))"
proof (cases e)
  case (Page ev)
  with assms show ?thesis by (simp add: tab_inv_def page_refines_store)
next
  case GeocodeClick
  then show ?thesis
    by (cases "scene_names (sceneText (shown t))") (simp_all add: start_geocode_def alert_def)
next
  case (Response k r)
  with assms have "jobs_ok t" and "k < length (inflight t)" by (simp_all add: tab_inv_def)
  then show ?thesis
  proof (cases rule: deliver_cases)
    case (last nm)
    then show ?thesis
      unfolding Response
      by (simp add: deliver_last job_step_Cons finish_job_def alert_def setWaypoints_commit
          setWaypoints_unmounted replaceAll_def)
  next
    case (more nm nm' rest)
    then show ?thesis
      unfolding Response by (simp add: deliver_more job_step_Cons alert_def)
  qed
qed

section \<open>Runs\<close>

text \<open>C6: The page keeps to the contract of the store. Along every run of a reachable
  tab, whatever the interleaving of clicks, button presses and replies, the list at the
  end is the list at the start with the store operations of the run applied in order:
  an append for each click on the map, a swap with a neighbour for each arrow button, a
  clear for the clear button, and one wholesale replacement for each batch that ends
  with a result on a mounted page. Nothing else writes the list.\<close>

theorem store_refinement:
  assumes "async_reachable t" and "async_run es t = Some u"
  shows "waypoints (shown u) = fold store_apply (trace_ops t es) (waypoints (shown t))"
  using assms
proof (induction es arbitrary: t)
  case Nil
  then show ?case by simp
next
  case (Cons e es)
  from Cons.prems(2) have en: "async_enabled t e" and r: "async_run es (async_handle e t) = Some u"
    by (auto split: if_splits)
  from Cons.prems(1) en have "async_reachable (async_handle e t)"
    by (auto intro: async_reachable.async_next async_step.async_step)
  from Cons.IH [OF this r] step_refines_store [OF async_reachable_inv [OF Cons.prems(1)] en]
  show ?case by (cases "op_of t e") (simp_all del: op_of.simps)
qed

theorem store_refinement_witness:
  "trace_ops tab_init busy_trace = [Append ''Waypoint 1'' (Fin 1, Fin 2)]
   \<and> waypoints (shown (the (async_run busy_trace tab_init)))
       = fold store_apply [Append ''Waypoint 1'' (Fin 1, Fin 2)] []"
proof -
  have "trace_ops tab_init busy_trace = [Append ''Waypoint 1'' (Fin 1, Fin 2)]"
    by (simp add: busy_trace_def tab_init_def start_geocode_def page_eval geocode_eval
        waypoint_name_def string_of_nat_digit digit_char_def)
  moreover have "waypoints (shown tab_init) = []"
    by (simp add: tab_init_def page_init_def)
  moreover from busy_trace_run
  have "async_run busy_trace tab_init = Some (the (async_run busy_trace tab_init))" by simp
  ultimately show ?thesis
    using store_refinement [OF async_reachable.async_init, of busy_trace
        "the (async_run busy_trace tab_init)"]
    by simp
qed

end
