(* ===== verification/Row_Text.thy ===== *)
theory Row_Text
  imports Page_Controller
begin

text \<open>
  What the page draws: the JSX that \<^verbatim>\<open>Home\<close> of \<^verbatim>\<open>src/unnamed/part_000\<close> returns, as a
  function of the page state.

  \<^item> \<open>toFixed\<close> is \<^verbatim>\<open>Number.prototype.toFixed\<close>, which the list applies with four
    decimals to both coordinates of a waypoint. A finite number \<open>x\<close> is shown as the
    integer \<open>n\<close> nearest to \<open>\<bar>x\<bar> \<sqdot> 10\<^sup>f\<close> (the larger one of two, \<open>round_half_up\<close>),
    written in decimal with at least \<open>f + 1\<close> digits (\<open>pad_zeros\<close>) and a point before the
    last \<open>f\<close> of them (\<open>fixed_digits\<close>), after a minus sign when \<open>x\<close> is negative.
    \<^verbatim>\<open>NaN\<close> and the infinities are shown by name. From \<open>10\<^sup>2\<^sup>1\<close> on \<^verbatim>\<open>toFixed\<close> switches
    to the exponent notation of \<^verbatim>\<open>String\<close>, which is not modelled: there the result is
    \<open>None\<close>. \<open>round_to\<close> is the number the text denotes.
  \<^item> \<open>row\<close> is one \<^verbatim>\<open>waypoint-item\<close>: its text and the \<^verbatim>\<open>disabled\<close> attributes of its two
    arrow buttons; \<open>rows\<close> is \<^verbatim>\<open>waypoints.map\<close> over the list. \<open>screen\<close> and \<open>render_page\<close>
    are the whole return value: the two text areas, the label of the terrain button and
    the rows.

  The lemmas show that the text of a coordinate reads back, by \<open>parseFloat_str\<close>, as the
  coordinate rounded to the decimals shown, within half a unit of the last decimal; that
  a row shows the latitude before the longitude; and that an arrow button is disabled
  exactly where \<open>moveWaypoint\<close> would change nothing.
\<close>

section \<open>Fixed-point notation\<close>

definition round_half_up :: "real \<Rightarrow> nat" where
  "round_half_up y = nat \<lfloor>y + 1 / 2\<rfloor>"

definition pad_zeros :: "nat \<Rightarrow> string \<Rightarrow> string" where
  "pad_zeros k s = replicate (k - length s) CHR ''0'' @ s"

definition fixed_digits :: "nat \<Rightarrow> nat \<Rightarrow> string" where
  "fixed_digits f n =
     (let m = pad_zeros (f + 1) (string_of_nat n);
          k = length m
      in if f = 0 then m else take (k - f) m @ ''.'' @ drop (k - f) m)"

definition toFixed :: "nat \<Rightarrow> jsnum \<Rightarrow> string option" where
  "toFixed f v =
     (case v of
        NaN \<Rightarrow> Some ''NaN''
      | NegInf \<Rightarrow> Some ''-Infinity''
      | PosInf \<Rightarrow> Some ''Infinity''
      | Fin x \<Rightarrow>
          if 10 ^ 21 \<le> \<bar>x\<bar> then None
          else Some ((if x < 0 then ''-'' else []) @ fixed_digits f (round_half_up (\<bar>x\<bar> * 10 ^ f))))"

definition round_to :: "nat \<Rightarrow> real \<Rightarrow> real" where
  "round_to f x = (if x < 0 then - 1 else 1) * real (round_half_up (\<bar>x\<bar> * 10 ^ f)) / 10 ^ f"

section \<open>Rows of the list\<close>

record row =
  caption :: "string option"
  up_off :: bool
  down_off :: bool

definition row_text :: "nat \<Rightarrow> waypoint \<Rightarrow> string option" where
  "row_text index wp =
     (case (toFixed 4 (lat wp), toFixed 4 (lon wp)) of
        (Some la, Some lo) \<Rightarrow>
          Some (string_of_nat (index + 1) @ ''. '' @ name wp @ '' ('' @ la @ '', '' @ lo @ '')'')
      | _ \<Rightarrow> None)"

definition rows :: "waypoint list \<Rightarrow> row list" where
  "rows ws =
     map (\<lambda>(index, wp). \<lparr>caption = row_text index wp, up_off = up_disabled index,
                          down_off = down_disabled ws index\<rparr>) (enumerate 0 ws)"

record screen =
  prompt_box :: string
  scene_box :: string
  terrain_button :: string
  list_rows :: "row list"

definition render_page :: "page \<Rightarrow> screen" where
  "render_page s =
     \<lparr>prompt_box = prompt s, scene_box = sceneText s,
      terrain_button = (if terrainEnabled s then ''Disable Terrain'' else ''Enable Terrain''),
      list_rows = rows (waypoints s)\<rparr>"

section \<open>Decimal digits\<close>

lemma replicate_zeros:
  "replicate 2 c = [c, c]" "replicate 3 c = [c, c, c]" "replicate 4 c = [c, c, c, c]"
  by (simp_all add: eval_nat_numeral)

lemmas toFixed_eval = toFixed_def fixed_digits_def round_half_up_def pad_zeros_def Let_def
  string_of_nat.simps digit_char_def replicate_zeros

lemma is_digit_digit_char: "d < 10 \<Longrightarrow> is_digit (digit_char d)"
proof -
  assume "d < 10"
  then have "d \<in> set [0..<10]" by simp
  then show ?thesis
    unfolding is_digit_def digit_char_def by (simp add: upt_rec) (elim disjE; simp)
qed

lemma digits_string_of_nat: "list_all is_digit (string_of_nat n)"
proof (induction n rule: string_of_nat.induct)
  case (1 n)
  show ?case
  proof (cases "n < 10")
    case True
    then show ?thesis by (simp add: string_of_nat_digit is_digit_digit_char)
  next
    case False
    with "1.IH" show ?thesis
      by (simp add: string_of_nat.simps [of n] is_digit_digit_char)
  qed
qed

lemma nat_of_string_app:
  "nat_of_string (xs @ ys) = nat_of_string xs * 10 ^ length ys + nat_of_string ys"
proof (induction ys rule: rev_induct)
  case Nil
  show ?case by (simp add: nat_of_string_def)
next
  case (snoc c ys)
  have "nat_of_string (xs @ ys @ [c]) = 10 * nat_of_string (xs @ ys) + digit_val c"
    using nat_of_string_append [of "xs @ ys" c] by simp
  with snoc show ?case by (simp add: nat_of_string_append algebra_simps)
qed

lemma nat_of_string_zeros [simp]: "nat_of_string (replicate k CHR ''0'') = 0"
  by (induction k) (simp_all add: nat_of_string_def digit_val_def replicate_append_same [symmetric]
      del: replicate_Suc)

lemma nat_of_string_pad [simp]: "nat_of_string (pad_zeros k s) = nat_of_string s"
  by (simp add: pad_zeros_def nat_of_string_app)

lemma length_pad_zeros: "length (pad_zeros k s) = max k (length s)"
  by (simp add: pad_zeros_def)

lemma is_digit_zero [simp]: "is_digit CHR ''0''" and not_digit_dot [simp]: "\<not> is_digit CHR ''.''"
  by (simp_all add: is_digit_def)

lemma digits_pad_zeros: "list_all is_digit s \<Longrightarrow> list_all is_digit (pad_zeros k s)"
  by (auto simp: pad_zeros_def list_all_iff)

lemma fixed_digits_split:
  assumes "0 < f"
  obtains a b where "fixed_digits f n = a @ CHR ''.'' # b" and "a \<noteq> []" and "length b = f"
    and "list_all is_digit a" and "list_all is_digit b"
    and "nat_of_string a * 10 ^ f + nat_of_string b = n"
proof -
  let ?m = "pad_zeros (f + 1) (string_of_nat n)"
  let ?a = "take (length ?m - f) ?m" and ?b = "drop (length ?m - f) ?m"
  have len: "f < length ?m" by (simp add: length_pad_zeros)
  have dig: "list_all is_digit ?m" by (simp add: digits_pad_zeros digits_string_of_nat)
  have "nat_of_string (?a @ ?b) = n" by (simp add: nat_of_string_of_nat)
  then have val: "nat_of_string ?a * 10 ^ length ?b + nat_of_string ?b = n"
    by (simp only: nat_of_string_app)
  show ?thesis
  proof
    show "fixed_digits f n = ?a @ CHR ''.'' # ?b" using assms by (simp add: fixed_digits_def Let_def)
    show "?a \<noteq> []" using len by auto
    show "length ?b = f" using len by simp
    then show "nat_of_string ?a * 10 ^ f + nat_of_string ?b = n" using val by simp
    show "list_all is_digit ?a" using dig by (auto simp: list_all_iff dest: in_set_takeD)
    show "list_all is_digit ?b" using dig by (auto simp: list_all_iff dest: in_set_dropD)
  qed
qed

lemma unsigned_literal_fixed:
  assumes "a \<noteq> []" and "list_all is_digit a" and "list_all is_digit b"
  shows "unsigned_literal (a @ CHR ''.'' # b)
    = Fin (real (nat_of_string a) + real (nat_of_string b) / 10 ^ length b)"
proof -
  from assms(1,2) have inf: "take 8 (a @ CHR ''.'' # b) \<noteq> ''Infinity''"
    by (cases a) (auto simp: is_digit_def)
  from assms(2) have tw: "takeWhile is_digit (a @ CHR ''.'' # b) = a"
    and dw: "dropWhile is_digit (a @ CHR ''.'' # b) = CHR ''.'' # b"
    by (simp_all add: list_all_iff)
  from assms(3) have twb: "takeWhile is_digit b = b" and dwb: "dropWhile is_digit b = []"
    by (simp_all add: list_all_iff)
  show ?thesis
    unfolding unsigned_literal_def Let_def tw dw
    using inf assms(1) by (simp add: twb dwb digits_val_def)
qed

lemma parseFloat_fixed_digits:
  assumes "0 < f"
  shows "unsigned_literal (fixed_digits f n) = Fin (real n / 10 ^ f)"
proof -
  obtain a b where ab: "fixed_digits f n = a @ CHR ''.'' # b" "a \<noteq> []" "length b = f"
    "list_all is_digit a" "list_all is_digit b" "nat_of_string a * 10 ^ f + nat_of_string b = n"
    using assms by (rule fixed_digits_split)
  from ab(6) have "real n = real (nat_of_string a) * 10 ^ f + real (nat_of_string b)"
    by (metis of_nat_add of_nat_mult of_nat_numeral of_nat_power)
  then have "real (nat_of_string a) + real (nat_of_string b) / 10 ^ f = real n / 10 ^ f"
    by (simp add: field_simps)
  with ab show ?thesis by (simp add: unsigned_literal_fixed)
qed

lemma digit_not_special:
  assumes "is_digit c"
  shows "\<not> is_js_space c" and "c \<noteq> CHR ''-''" and "c \<noteq> CHR ''+''"
  using assms by (auto simp: is_digit_def is_js_space_def js_spaces_def)

lemma parseFloat_unsigned:
  assumes "s \<noteq> []" and "is_digit (hd s)"
  shows "parseFloat_str s = unsigned_literal s"
proof -
  from assms obtain c r where s: "s = c # r" and c: "is_digit c" by (cases s) auto
  with digit_not_special [OF c] show ?thesis
    by (simp add: parseFloat_str_def trimStart_def)
qed

lemma parseFloat_negative:
  assumes "s \<noteq> []" and "is_digit (hd s)"
  shows "parseFloat_str (CHR ''-'' # s) = js_neg (unsigned_literal s)"
  by (simp add: parseFloat_str_def trimStart_def is_js_space_def js_spaces_def)

lemma fixed_digits_hd:
  assumes "0 < f"
  shows "fixed_digits f n \<noteq> []" and "is_digit (hd (fixed_digits f n))"
proof -
  obtain a b where ab: "fixed_digits f n = a @ CHR ''.'' # b" "a \<noteq> []" "list_all is_digit a"
    using assms by (rule fixed_digits_split)
  then show "fixed_digits f n \<noteq> []" and "is_digit (hd (fixed_digits f n))"
    by (cases a; simp)+
qed

lemma round_half_up_near:
  assumes "0 \<le> y"
  shows "\<bar>real (round_half_up y) - y\<bar> \<le> 1 / 2"
proof -
  from assms have "real (round_half_up y) = of_int \<lfloor>y + 1 / 2\<rfloor>"
    by (simp add: round_half_up_def)
  then show ?thesis by linarith
qed

lemma round_to_near:
  "\<bar>round_to f x - x\<bar> \<le> 1 / (2 * 10 ^ f)"
proof -
  let ?n = "real (round_half_up (\<bar>x\<bar> * 10 ^ f))"
  have "\<bar>?n - \<bar>x\<bar> * 10 ^ f\<bar> \<le> 1 / 2" by (rule round_half_up_near) simp
  then have "\<bar>?n - \<bar>x\<bar> * 10 ^ f\<bar> / 10 ^ f \<le> (1 / 2) / 10 ^ f"
    by (rule divide_right_mono) simp
  moreover have "\<bar>?n / 10 ^ f - \<bar>x\<bar>\<bar> = \<bar>(?n - \<bar>x\<bar> * 10 ^ f) / 10 ^ f\<bar>"
    by (simp add: diff_divide_distrib)
  then have "\<bar>?n - \<bar>x\<bar> * 10 ^ f\<bar> / 10 ^ f = \<bar>?n / 10 ^ f - \<bar>x\<bar>\<bar>"
    by simp
  moreover have "\<bar>round_to f x - x\<bar> = \<bar>?n / 10 ^ f - \<bar>x\<bar>\<bar>"
  proof (cases "x < 0")
    case True
    then have "round_to f x - x = - (?n / 10 ^ f - \<bar>x\<bar>)" by (simp add: round_to_def)
    then show ?thesis by (simp only: abs_minus)
  next
    case False
    then show ?thesis by (simp add: round_to_def)
  qed
  ultimately show ?thesis by simp
qed

section \<open>What the list shows of a number\<close>

text \<open>C16: The text the list shows for a coordinate reads back as the coordinate
  rounded to four decimals (half away from zero), which is within 0.00005 of the
  coordinate: for every finite number below \<open>10\<^sup>2\<^sup>1\<close> in size, and every number of
  decimals from one on, \<^verbatim>\<open>parseFloat\<close> of the text of \<^verbatim>\<open>toFixed\<close> is the rounded
  number.\<close>

theorem toFixed_parse:
  assumes "\<bar>x\<bar> < 10 ^ 21" and "0 < f"
  shows "\<exists>d. toFixed f (Fin x) = Some d \<and> parseFloat_str d = Fin (round_to f x)
    \<and> \<bar>round_to f x - x\<bar> \<le> 1 / (2 * 10 ^ f)"
proof -
  let ?n = "round_half_up (\<bar>x\<bar> * 10 ^ f)"
  note hd = fixed_digits_hd [OF assms(2)]
  have "parseFloat_str ((if x < 0 then ''-'' else []) @ fixed_digits f ?n) = Fin (round_to f x)"
    using assms(2)
    by (simp add: hd parseFloat_negative parseFloat_unsigned parseFloat_fixed_digits round_to_def
        js_neg_def)
  with assms(1) show ?thesis
    by (simp add: toFixed_def round_to_near)
qed

theorem toFixed_parse_witness:
  "toFixed 4 (Fin 48.85837) = Some ''48.8584''
   \<and> toFixed 4 (Fin (- 0.00005)) = Some ''-0.0001''
   \<and> parseFloat_str ''48.8584'' = Fin (round_to 4 48.85837)"
proof -
  have paris: "toFixed 4 (Fin 48.85837) = Some ''48.8584''"
    and small: "toFixed 4 (Fin (- 0.00005)) = Some ''-0.0001''"
    by (simp_all add: toFixed_eval)
  with toFixed_parse [of "48.85837" 4] show ?thesis by simp
qed

section \<open>Rows\<close>

lemma length_rows [simp]: "length (rows ws) = length ws"
  by (simp add: rows_def)

lemma rows_nth:
  assumes "i < length ws"
  shows "rows ws ! i = \<lparr>caption = row_text i (ws ! i), up_off = up_disabled i,
    down_off = down_disabled ws i\<rparr>"
  using assms by (simp add: rows_def nth_enumerate_eq)

lemma toFixed_text:
  assumes "\<bar>x\<bar> < 10 ^ 21"
  obtains d where "toFixed 4 (Fin x) = Some d" and "parseFloat_str d = Fin (round_to 4 x)"
proof -
  from assms have "\<exists>d. toFixed 4 (Fin x) = Some d \<and> parseFloat_str d = Fin (round_to 4 x)"
    using fixed_digits_hd [of 4 "round_half_up (\<bar>x\<bar> * 10 ^ 4)"]
    by (cases "x < 0")
      (simp_all add: toFixed_def parseFloat_negative parseFloat_unsigned parseFloat_fixed_digits
        round_to_def js_neg_def)
  with that show thesis by blast
qed

text \<open>A row of the list shows the number of the waypoint counted from one, its
  name and, in brackets, its latitude and then its longitude, the other way round than
  the waypoint stores them; both texts read back as the coordinate rounded to four
  decimals.\<close>

lemma row_text_shape:
  assumes "coord wp = (Fin x, Fin y)" and "\<bar>x\<bar> < 10 ^ 21" and "\<bar>y\<bar> < 10 ^ 21"
  shows "row_text i wp
      = Some (string_of_nat (i + 1) @ ''. '' @ name wp @ '' ('' @ the (toFixed 4 (lat wp))
          @ '', '' @ the (toFixed 4 (lon wp)) @ '')'')
    \<and> parseFloat_str (the (toFixed 4 (lat wp))) = Fin (round_to 4 y)
    \<and> parseFloat_str (the (toFixed 4 (lon wp))) = Fin (round_to 4 x)"
proof -
  from assms(2) obtain lo where lo: "toFixed 4 (Fin x) = Some lo"
    "parseFloat_str lo = Fin (round_to 4 x)" by (rule toFixed_text)
  from assms(3) obtain la where la: "toFixed 4 (Fin y) = Some la"
    "parseFloat_str la = Fin (round_to 4 y)" by (rule toFixed_text)
  from assms(1) lo la show ?thesis
    by (simp add: row_text_def lon_def lat_def)
qed

lemma row_text_shape_example:
  "row_text 0 \<lparr>name = ''Paris'', coord = (Fin 2.35222, Fin 48.85837)\<rparr>
     = Some ''1. Paris (48.8584, 2.3522)''
   \<and> parseFloat_str ''48.8584'' = Fin (round_to 4 48.85837)"
proof -
  have "toFixed 4 (Fin 48.85837) = Some ''48.8584''" "toFixed 4 (Fin 2.35222) = Some ''2.3522''"
    by (simp_all add: toFixed_eval)
  with row_text_shape [of "\<lparr>name = ''Paris'', coord = (Fin 2.35222, Fin 48.85837)\<rparr>"
      "2.35222" "48.85837" 0]
  show ?thesis by (simp add: string_of_nat_digit digit_char_def lon_def lat_def)
qed

text \<open>C29: The list has one row for each waypoint, and an arrow button of a row is
  disabled exactly when \<^verbatim>\<open>moveWaypoint\<close> with that row and that direction would leave the
  list as it is: the up arrow on the first row and the down arrow on the last.\<close>

theorem rows_buttons:
  assumes "i < length ws"
  shows "length (rows ws) = length ws
    \<and> (up_off (rows ws ! i) \<longleftrightarrow> moveWaypoint (int i) (- 1) ws = Same)
    \<and> (down_off (rows ws ! i) \<longleftrightarrow> moveWaypoint (int i) 1 ws = Same)"
  using assms
  by (auto simp: rows_nth up_disabled_def down_disabled_def moveWaypoint_Same_iff)

theorem rows_buttons_witness:
  "map up_off (rows sample) = [True, False, False]
   \<and> map down_off (rows sample) = [False, False, True]
   \<and> moveWaypoint 0 (- 1) sample = Same \<and> moveWaypoint 2 1 sample = Same"
  using rows_buttons [of 0 sample] rows_buttons [of 2 sample]
  by (simp add: sample_def rows_def enumerate_eq_zip upt_rec up_disabled_def down_disabled_def)

end
