(* ===== verification/App_Config.thy ===== *)
theory App_Config
  imports Row_Text
begin

text \<open>
  The application wrapper (\<^verbatim>\<open>src/unnamed/part_001\<close>) and the framework configuration
  (\<^verbatim>\<open>src/next.config.js\<close>), and what they mean for the page.

  \<^item> \<open>App\<close> is the wrapper: it renders the component it is given with the properties it
    is given, and nothing around it.
  \<^item> \<open>nextConfig\<close> is the exported configuration object, with its two fields.
  \<^item> \<open>mount_effect\<close> is the synchronous part of the mount effect of the page (lines
    46-51 of \<^verbatim>\<open>src/unnamed/part_000\<close>: a new flag \<^verbatim>\<open>isMounted\<close> and a new import in
    flight).
  \<^item> \<open>strict_remount\<close> is no code of the repository. It is the schedule that React
    follows in a development build when \<^verbatim>\<open>reactStrictMode\<close> is set: the cleanup of every
    effect right after the first mount, and then the effects again. Here it is the
    cleanup of the page (\<open>unmount\<close>), its mount effect and its marker effect. The import
    started by the first run of the effect resolves with the flag of that run, which
    the cleanup has cleared, so its callback returns at line 52 and is left out.

  The lemmas show that the page behind the wrapper is the page, and that the schedule of
  strict mode leaves the page in the state \<open>page_init\<close>, from which \<^verbatim>\<open>Page_Controller\<close>
  starts, so what is proved of the states reachable from \<open>page_init\<close> holds under the
  configuration of the repository as well.
\<close>

section \<open>The wrapper\<close>

definition App :: "('p \<Rightarrow> 'v) \<Rightarrow> 'p \<Rightarrow> 'v" where
  "App component pageProps = component pageProps"

section \<open>The configuration\<close>

record next_config =
  reactStrictMode :: bool
  trailingSlash :: bool

definition nextConfig :: next_config where
  "nextConfig = \<lparr>reactStrictMode = True, trailingSlash = False\<rparr>"

definition mount_effect :: "page \<Rightarrow> page" where
  "mount_effect s = s\<lparr>isMounted := True, importPending := True\<rparr>"

definition strict_remount :: "page \<Rightarrow> page" where
  "strict_remount s = render_markers (waypoints s) (mount_effect (unmount s))"

section \<open>The first mount\<close>

lemma App_render [simp]: "App render_page s = render_page s"
  by (simp add: App_def)

lemma strict_remount_no_map:
  "mapRef (strict_remount s) = None \<and> isMounted (strict_remount s)
   \<and> importPending (strict_remount s) \<and> waypoints (strict_remount s) = waypoints s"
  by (simp add: strict_remount_def mount_effect_def handler_defs)

text \<open>The cleanup and the second run of the effects that strict mode adds leave the
  initial page as one mount leaves it, with no map, no marker and one import in flight;
  the configuration of the repository asks for strict mode; and the wrapper shows the
  markup of the initial page.\<close>

lemma strict_mode_mount:
  "strict_remount page_init = page_init
   \<and> reactStrictMode nextConfig
   \<and> App render_page (strict_remount page_init)
     = \<lparr>prompt_box = [], scene_box = [], terrain_button = ''Enable Terrain'', list_rows = []\<rparr>"
  by (simp add: nextConfig_def strict_remount_def mount_effect_def page_init_def render_page_def
      rows_def handler_defs)

end
