(* ===== verification/Search_URL.thy ===== *)
theory Search_URL
  imports JS_String
begin

text \<open>
  The request that \<^verbatim>\<open>geocodeScenes\<close> of \<^verbatim>\<open>src/unnamed/part_000\<close> sends for one name
  (lines 214-219): the address of the search service with the name as the parameter
  \<^verbatim>\<open>q\<close>, encoded by \<^verbatim>\<open>encodeURIComponent\<close>, and one header.

  \<^item> \<open>encodeURIComponent\<close> keeps the letters, the digits and the marks
    \<^verbatim>\<open>- _ . ! ~ * ' ( )\<close> and writes every other character as the bytes of its UTF-8
    encoding, each byte as a percent sign and two upper-case hexadecimal digits. The
    code units of a name are below 256 (\<^verbatim>\<open>JS_String\<close>), so a character has one byte
    (\<open>utf8\<close>) below 128 and two from there on; no name of the model has a lone
    surrogate, for which the function throws.
  \<^item> \<open>search_url\<close> is the template literal of line 214, \<open>search_request\<close> the two
    arguments of \<^verbatim>\<open>fetch\<close>.
  \<^item> \<open>decode_bytes\<close>, \<open>utf8_decode\<close> and \<open>query_params\<close> are what the receiver of the
    request does with it: percent-decoding, UTF-8 decoding, and the split of the query at
    \<^verbatim>\<open>&\<close> and \<^verbatim>\<open>=\<close>. They are not code of the page; they state what the encoding is for.

  The lemmas show that the encoded name consists of URL-safe characters only, that the
  query of the request has exactly the three parameters of the template whatever the
  name contains, and that decoding gives back the name.
\<close>

section \<open>Encoding a name\<close>

definition unreserved :: "char list" where
  "unreserved = ''ABCDEFGHIJKLMNOPQRSTUVWXYZabcdefghijklmnopqrstuvwxyz0123456789-_.!~*()'' @ [CHR 0x27]"

definition hex_digit :: "nat \<Rightarrow> char" where
  "hex_digit d = ''0123456789ABCDEF'' ! d"

definition percent :: "nat \<Rightarrow> string" where
  "percent b = [CHR ''%'', hex_digit (b div 16), hex_digit (b mod 16)]"

definition utf8 :: "char \<Rightarrow> nat list" where
  "utf8 c = (let n = of_char c in if n < 128 then [n] else [192 + n div 64, 128 + n mod 64])"

definition encode_char :: "char \<Rightarrow> string" where
  "encode_char c = (if c \<in> set unreserved then [c] else concat (map percent (utf8 c)))"

definition encodeURIComponent :: "string \<Rightarrow> string" where
  "encodeURIComponent s = concat (map encode_char s)"

section \<open>The request\<close>

record request =
  url :: string
  headers :: "(string \<times> string) list"

definition search_url :: "string \<Rightarrow> string" where
  "search_url nm =
     ''https://nominatim.openstreetmap.org/search?q='' @ encodeURIComponent nm
       @ ''&format=json&limit=1''"

definition search_request :: "string \<Rightarrow> request" where
  "search_request nm =
     \<lparr>url = search_url nm, headers = [(''User-Agent'', ''journey-planner-next-demo'')]\<rparr>"

section \<open>The receiving side\<close>

definition hex_val :: "char \<Rightarrow> nat" where
  "hex_val c = (if of_char c < (65 :: nat) then of_char c - 48 else of_char c - 55)"

fun decode_bytes :: "string \<Rightarrow> nat list" where
  "decode_bytes [] = []"
| "decode_bytes (c # r) =
     (if c = CHR ''%'' \<and> 2 \<le> length r
      then (hex_val (r ! 0) * 16 + hex_val (r ! 1)) # decode_bytes (drop 2 r)
      else of_char c # decode_bytes r)"

fun utf8_decode :: "nat list \<Rightarrow> string" where
  "utf8_decode [] = []"
| "utf8_decode (a # r) =
     (if 192 \<le> a \<and> r \<noteq> []
      then char_of ((a - 192) * 64 + (hd r - 128)) # utf8_decode (tl r)
      else char_of a # utf8_decode r)"

definition decodeURIComponent :: "string \<Rightarrow> string" where
  "decodeURIComponent s = utf8_decode (decode_bytes s)"

definition query_params :: "string \<Rightarrow> string list list" where
  "query_params u =
     map (split_on CHR ''='') (split_on CHR ''&'' (tl (dropWhile (\<lambda>c. c \<noteq> CHR ''?'') u)))"

definition url_safe :: "char list" where
  "url_safe = unreserved @ ''%''"

section \<open>Facts about the encoding\<close>

lemma hex_digit_safe: "d < 16 \<Longrightarrow> hex_digit d \<in> set unreserved"
proof -
  assume "d < 16"
  then have "d \<in> set [0..<16]" by simp
  then show ?thesis
    unfolding hex_digit_def unreserved_def by (simp add: upt_rec) (elim disjE; simp)
qed

lemma hex_val_digit: "d < 16 \<Longrightarrow> hex_val (hex_digit d) = d"
proof -
  assume "d < 16"
  then have "d \<in> set [0..<16]" by simp
  then show ?thesis
    unfolding hex_digit_def hex_val_def by (simp add: upt_rec) (elim disjE; simp)
qed

lemma of_char_div_64: "of_char c div 64 < (4 :: nat)"
  by (simp add: div_less_iff_less_mult)

lemma utf8_bytes: "b \<in> set (utf8 c) \<Longrightarrow> b < 256"
  using nat_of_char_less_256 [of c] of_char_div_64 [of c]
  by (auto simp: utf8_def Let_def split: if_splits)

lemma percent_safe: "b < 256 \<Longrightarrow> set (percent b) \<subseteq> set url_safe"
  using hex_digit_safe [of "b div 16"] hex_digit_safe [of "b mod 16"]
  by (simp add: percent_def url_safe_def less_mult_imp_div_less)

lemma encode_char_safe: "set (encode_char c) \<subseteq> set url_safe"
proof (cases "c \<in> set unreserved")
  case True
  then show ?thesis by (simp add: encode_char_def url_safe_def)
next
  case False
  have "set (percent b) \<subseteq> set url_safe" if "b \<in> set (utf8 c)" for b
    using that by (intro percent_safe utf8_bytes)
  with False show ?thesis by (auto simp: encode_char_def)
qed

lemma encodeURIComponent_safe: "set (encodeURIComponent s) \<subseteq> set url_safe"
  using encode_char_safe by (auto simp: encodeURIComponent_def)

lemma not_url_safe:
  "CHR ''&'' \<notin> set url_safe" "CHR ''='' \<notin> set url_safe" "CHR ''?'' \<notin> set url_safe"
  "CHR ''#'' \<notin> set url_safe" "CHR ''/'' \<notin> set url_safe" "CHR '' '' \<notin> set url_safe"
  "CHR ''+'' \<notin> set url_safe"
  by (simp_all add: url_safe_def unreserved_def)

lemma unreserved_ascii:
  assumes "c \<in> set unreserved"
  shows "of_char c < (128 :: nat)" and "c \<noteq> CHR ''%''"
  using assms by (auto simp: unreserved_def)

section \<open>Decoding\<close>

lemma decode_bytes_literal:
  "c \<noteq> CHR ''%'' \<Longrightarrow> decode_bytes (c # r) = of_char c # decode_bytes r"
  by simp

lemma decode_bytes_percent:
  "b < 256 \<Longrightarrow> decode_bytes (percent b @ r) = b # decode_bytes r"
  using hex_val_digit [of "b div 16"] hex_val_digit [of "b mod 16"]
  by (simp add: percent_def less_mult_imp_div_less)

lemma decode_bytes_encode_char:
  "decode_bytes (encode_char c @ r) = utf8 c @ decode_bytes r"
proof (cases "c \<in> set unreserved")
  case True
  then show ?thesis
    using unreserved_ascii [OF True] by (simp add: encode_char_def utf8_def)
next
  case False
  have "192 + of_char c div 64 < (256 :: nat)" "128 + of_char c mod 64 < (256 :: nat)"
    using of_char_div_64 [of c] by simp_all
  with False show ?thesis
    by (simp add: encode_char_def utf8_def Let_def decode_bytes_percent
        del: decode_bytes.simps(2))
qed

lemma decode_bytes_encode: "decode_bytes (encodeURIComponent s) = concat (map utf8 s)"
  by (induction s) (simp_all add: encodeURIComponent_def decode_bytes_encode_char
      del: decode_bytes.simps(2))

lemma utf8_decode_utf8: "utf8_decode (utf8 c @ r) = c # utf8_decode r"
proof (cases "of_char c < (128 :: nat)")
  case True
  then show ?thesis by (simp add: utf8_def)
next
  case False
  have "of_char c div 64 * 64 + of_char c mod 64 = (of_char c :: nat)" by simp
  with False show ?thesis by (simp add: utf8_def Let_def)
qed

lemma utf8_decode_concat: "utf8_decode (concat (map utf8 s)) = s"
  by (induction s) (simp_all add: utf8_decode_utf8 del: utf8_decode.simps(2))

section \<open>What the service receives\<close>

lemma decode_encode: "decodeURIComponent (encodeURIComponent s) = s"
  by (simp add: decodeURIComponent_def decode_bytes_encode utf8_decode_concat)

lemma encodeURIComponent_inj: "encodeURIComponent a = encodeURIComponent b \<longleftrightarrow> a = b"
  by (metis decode_encode)

lemma encoded_delimiters:
  "CHR ''&'' \<notin> set (encodeURIComponent s)" "CHR ''='' \<notin> set (encodeURIComponent s)"
  "CHR ''?'' \<notin> set (encodeURIComponent s)" "CHR ''#'' \<notin> set (encodeURIComponent s)"
  "CHR ''/'' \<notin> set (encodeURIComponent s)" "CHR '' '' \<notin> set (encodeURIComponent s)"
  "CHR ''+'' \<notin> set (encodeURIComponent s)"
  using encodeURIComponent_safe [of s] not_url_safe by blast+

lemma query_params_search_url:
  "query_params (search_url nm)
     = [[''q'', encodeURIComponent nm], [''format'', ''json''], [''limit'', ''1'']]"
proof -
  let ?e = "encodeURIComponent nm"
  note safe = encoded_delimiters [of nm]
  have "tl (dropWhile (\<lambda>c. c \<noteq> CHR ''?'') (search_url nm)) = ''q='' @ ?e @ ''&format=json&limit=1''"
    by (simp add: search_url_def)
  moreover have "split_on CHR ''&'' ((''q='' @ ?e) @ CHR ''&'' # ''format=json&limit=1'')
      = (''q='' @ ?e) # split_on CHR ''&'' ''format=json&limit=1''"
    using safe(1) by (intro split_on_append_sep) simp
  moreover have "split_on CHR ''='' ([CHR ''q''] @ CHR ''='' # ?e) = [CHR ''q''] # split_on CHR ''='' ?e"
    by (intro split_on_append_sep) simp
  ultimately show ?thesis
    using safe(2) by (simp add: query_params_def split_on_no_sep)
qed

lemma encodeURIComponent_Nil_iff: "encodeURIComponent s = [] \<longleftrightarrow> s = []"
  using encodeURIComponent_inj [of s "[]"] by (simp add: encodeURIComponent_def)

text \<open>C26: A name cannot change the request, and it reaches the service as it was
  typed. Whatever characters the name has, the query of the request has exactly the three
  parameters of the template, \<^verbatim>\<open>q\<close> with the encoded name, \<^verbatim>\<open>format=json\<close> and
  \<^verbatim>\<open>limit=1\<close>; the encoded name has none of the characters that delimit a part of a URL;
  percent-decoding and UTF-8 decoding give back the name; and different names are sent
  as different requests.\<close>

theorem search_url_query:
  "query_params (search_url nm)
     = [[''q'', encodeURIComponent nm], [''format'', ''json''], [''limit'', ''1'']]
   \<and> set (encodeURIComponent nm) \<inter> set ''&=?#/ +'' = {}
   \<and> decodeURIComponent (encodeURIComponent nm) = nm
   \<and> (search_url nm = search_url nm' \<longleftrightarrow> nm = nm')"
proof -
  have "search_url nm = search_url nm' \<longleftrightarrow> nm = nm'"
    by (simp add: search_url_def encodeURIComponent_inj)
  then show ?thesis
    using encoded_delimiters [of nm] by (simp add: query_params_search_url decode_encode)
qed

lemma search_url_examples:
  "search_url ''Eiffel Tower'' = ''https://nominatim.openstreetmap.org/search?q=Eiffel%20Tower&format=json&limit=1''"
  "encodeURIComponent ''a&limit=50'' = ''a%26limit%3D50''"
  "encodeURIComponent [CHR 0xE9] = ''%C3%A9''"
  "map of_char (decodeURIComponent ''%C3%A9t%C3%A9'') = [233, 116, 233 :: nat]"
  by (simp_all add: search_url_def encodeURIComponent_def encode_char_def unreserved_def utf8_def
      percent_def hex_digit_def decodeURIComponent_def hex_val_def)

end
