(* ===== verification/Edge_Filter.thy ===== *)
theory Edge_Filter
  imports JS_String
begin

text \<open>
  The request filter that runs before a page is served, in its two revisions:
  \<^verbatim>\<open>src/unnamed/part_002\<close>, which reads the client address and the geo headers, and
  \<^verbatim>\<open>src/middleware.ts\<close>, which wraps the pass-through in \<^verbatim>\<open>try\<close> and \<^verbatim>\<open>catch\<close>.

  \<^item> \<open>headers\<close> is the request's \<^verbatim>\<open>Headers\<close> object as the list of its entries, names in
    lower case; \<open>header_get\<close> is \<^verbatim>\<open>headers.get\<close>, \<open>None\<close> for \<^verbatim>\<open>null\<close>.
  \<^item> \<open>or_else\<close> is \<^verbatim>\<open>||\<close> on values that are strings, \<^verbatim>\<open>null\<close> or \<^verbatim>\<open>undefined\<close>: the left
    operand if it is a non-empty string, else the right operand. \<open>None\<close> stands for both
    \<^verbatim>\<open>null\<close> and \<^verbatim>\<open>undefined\<close>, which the code never tells apart.
  \<^item> \<open>forwarded_first\<close> is the optional chain
    \<^verbatim>\<open>get('x-forwarded-for')?.split(',')[0]?.trim()\<close>, and \<open>getClientInfo\<close> the function of
    that name with its six header reads.
  \<^item> \<open>middleware_geo\<close> is the filter of \<^verbatim>\<open>part_002\<close>; \<open>middleware\<close> is the filter of
    \<^verbatim>\<open>middleware.ts\<close>. The framework call \<^verbatim>\<open>NextResponse.next()\<close> is a parameter: the
    outcome of its first and of its second call, each either a response or a thrown
    value.
  \<^item> \<open>matcher\<close> decides the two \<^verbatim>\<open>config.matcher\<close> patterns, both of the form
    \<^verbatim>\<open>/((?!a|b|c).*)\<close>: a path, then anything that does not begin with one of the
    alternatives. In an alternative a dot stands for any character but a line break, as
    in the regular expression; \<open>alt_prefix\<close> is that match.
\<close>

section \<open>Headers\<close>

type_synonym headers = "(string \<times> string) list"

definition header_get :: "headers \<Rightarrow> string \<Rightarrow> string option" where
  "header_get hs nm = map_of hs nm"

definition or_else :: "string option \<Rightarrow> string option \<Rightarrow> string option" where
  "or_else a b = (case a of None \<Rightarrow> b | Some s \<Rightarrow> if truthy s then Some s else b)"

section \<open>Client information\<close>

record geo =
  city :: "string option"
  country :: "string option"
  region :: "string option"
  latitude :: "string option"
  longitude :: "string option"

record client_info =
  ip :: "string option"
  geo :: geo

definition forwarded_first :: "headers \<Rightarrow> string option" where
  "forwarded_first hs =
     map_option (\<lambda>v. trim (hd (split_on CHR '','' v))) (header_get hs ''x-forwarded-for'')"

definition getClientInfo :: "headers \<Rightarrow> client_info" where
  "getClientInfo hs =
     \<lparr>ip = or_else (or_else (forwarded_first hs) (header_get hs ''x-real-ip'')) None,
      geo = \<lparr>city = or_else (header_get hs ''x-vercel-ip-city'') None,
             country = or_else (header_get hs ''x-vercel-ip-country'') None,
             region = or_else (header_get hs ''x-vercel-ip-country-region'') None,
             latitude = or_else (header_get hs ''x-vercel-ip-latitude'') None,
             longitude = or_else (header_get hs ''x-vercel-ip-longitude'') None\<rparr>\<rparr>"

section \<open>The two filters\<close>

datatype forwarded = Forward headers

datatype thrown = ErrorObject string | OtherValue string

datatype 'a completion = Returns 'a | Throws thrown

definition error_text :: "thrown \<Rightarrow> string" where
  "error_text err = (case err of ErrorObject message \<Rightarrow> message | OtherValue shown \<Rightarrow> shown)"

definition set_header :: "string \<Rightarrow> string \<Rightarrow> forwarded \<Rightarrow> forwarded" where
  "set_header nm v res =
     (case res of Forward hs \<Rightarrow> Forward ((nm, v) # filter (\<lambda>h. fst h \<noteq> nm) hs))"

definition middleware_geo :: "forwarded completion \<Rightarrow> headers \<Rightarrow> forwarded completion" where
  "middleware_geo next1 hs = (let info = getClientInfo hs in next1)"

definition middleware :: "forwarded completion \<Rightarrow> forwarded completion \<Rightarrow> forwarded completion" where
  "middleware next1 next2 =
     (case next1 of
        Returns res \<Rightarrow> Returns res
      | Throws err \<Rightarrow>
          (case next2 of
             Returns res \<Rightarrow> Returns (set_header ''x-middleware-error'' (error_text err) res)
           | Throws err2 \<Rightarrow> Throws err2))"

section \<open>Path matchers\<close>

definition line_break :: "char \<Rightarrow> bool" where
  "line_break c \<longleftrightarrow> c = CHR 0x0A \<or> c = CHR 0x0D"

fun alt_prefix :: "string \<Rightarrow> string \<Rightarrow> bool" where
  "alt_prefix [] s = True"
| "alt_prefix (p # ps) [] = False"
| "alt_prefix (p # ps) (c # cs) =
     ((if p = CHR ''.'' then \<not> line_break c else p = c) \<and> alt_prefix ps cs)"

definition matcher :: "string list \<Rightarrow> string \<Rightarrow> bool" where
  "matcher alts path =
     (case path of
        [] \<Rightarrow> False
      | c # rest \<Rightarrow> c = CHR ''/'' \<and> \<not> list_ex (\<lambda>a. alt_prefix a rest) alts
                    \<and> \<not> list_ex line_break rest)"

definition matcher_fallback :: "string list" where
  "matcher_fallback = [''_next/'', ''favicon.ico'', ''robots.txt'', ''sitemap.xml'', ''api/'']"

definition matcher_geo :: "string list" where
  "matcher_geo = [''_next/static'', ''_next/image'', ''favicon.ico'']"

section \<open>Facts\<close>

lemma or_else_None [simp]: "or_else None b = b"
  by (simp add: or_else_def)

lemma or_else_Some: "or_else (Some s) b = (if s = [] then b else Some s)"
  by (simp add: or_else_def truthy_def)

lemma or_else_SomeD: "or_else a None = Some s \<Longrightarrow> a = Some s \<and> s \<noteq> []"
  by (cases a) (simp_all add: or_else_Some split: if_splits)

lemma or_else_assoc: "or_else (or_else a b) c = or_else a (or_else b c)"
  by (cases a) (simp_all add: or_else_Some)

lemma hd_split_on: "hd (split_on c s) = takeWhile (\<lambda>x. x \<noteq> c) s"
  by (induction s) (auto split: list.splits)

lemma forwarded_first_Some:
  "header_get hs ''x-forwarded-for'' = Some v
   \<Longrightarrow> forwarded_first hs = Some (trim (takeWhile (\<lambda>x. x \<noteq> CHR '','') v))"
  by (simp add: forwarded_first_def hd_split_on)

lemma forwarded_first_None:
  "header_get hs ''x-forwarded-for'' = None \<Longrightarrow> forwarded_first hs = None"
  by (simp add: forwarded_first_def)

lemma comma_notin_first: "CHR '','' \<notin> set (trim (takeWhile (\<lambda>x. x \<noteq> CHR '','') v))"
  using set_trim_subset [of "takeWhile (\<lambda>x. x \<noteq> CHR '','') v"]
  by (auto dest: set_takeWhileD)

lemma alt_prefix_literal:
  "CHR ''.'' \<notin> set a \<Longrightarrow> alt_prefix a s \<longleftrightarrow> take (length a) s = a \<and> length a \<le> length s"
  by (induction a s rule: alt_prefix.induct) auto

lemma alt_prefix_mono: "alt_prefix (a @ b) s \<Longrightarrow> alt_prefix a s"
  by (induction a s rule: alt_prefix.induct) auto

lemma alt_prefix_hd:
  "alt_prefix (p # ps) s \<Longrightarrow> p \<noteq> CHR ''.'' \<Longrightarrow> \<exists>cs. s = p # cs"
  by (cases s) auto

lemma matcher_mono:
  assumes "matcher alts path" and "\<forall>b \<in> set alts'. \<exists>a \<in> set alts. \<exists>c. b = a @ c"
  shows "matcher alts' path"
proof (cases path)
  case Nil
  with assms(1) show ?thesis by (simp add: matcher_def)
next
  case (Cons c rest)
  have "\<not> alt_prefix b rest" if "b \<in> set alts'" for b
  proof -
    from that assms(2) obtain a d where "a \<in> set alts" and "b = a @ d" by blast
    with assms(1) Cons show ?thesis
      by (auto simp: matcher_def list_ex_iff dest: alt_prefix_mono)
  qed
  with assms(1) Cons show ?thesis
    by (auto simp: matcher_def list_ex_iff)
qed

lemma matcher_fallback_subset:
  assumes "matcher matcher_fallback path"
  shows "matcher matcher_geo path"
proof (rule matcher_mono [OF assms])
  have "''_next/static'' = ''_next/'' @ ''static''" and "''_next/image'' = ''_next/'' @ ''image''"
    and "''favicon.ico'' = ''favicon.ico'' @ []"
    by simp_all
  then show "\<forall>b \<in> set matcher_geo. \<exists>a \<in> set matcher_fallback. \<exists>c. b = a @ c"
    unfolding matcher_geo_def matcher_fallback_def by (simp del: append_Cons append_Nil, blast)
qed

lemmas edge_eval = getClientInfo_def forwarded_first_def header_get_def or_else_def truthy_def
  trim_def trimStart_def trimEnd_def is_js_space_def js_spaces_def

section \<open>The client address\<close>

text \<open>C27: An address reported by the filter is never the empty string. It is either the
  first entry of the forwarded-for header, cut at the first comma and trimmed (so it has
  no comma and no white space at either end), or, when that entry is missing or blank,
  the real-ip header as it is.\<close>

theorem client_ip_shape:
  assumes "ip (getClientInfo hs) = Some a"
  shows "a \<noteq> []
    \<and> ((\<exists>v. header_get hs ''x-forwarded-for'' = Some v
           \<and> a = trim (takeWhile (\<lambda>x. x \<noteq> CHR '','') v)
           \<and> CHR '','' \<notin> set a \<and> \<not> is_js_space (hd a) \<and> \<not> is_js_space (last a))
       \<or> header_get hs ''x-real-ip'' = Some a)"
proof -
  from assms have a: "or_else (forwarded_first hs) (header_get hs ''x-real-ip'') = Some a"
    and ne: "a \<noteq> []"
    using or_else_SomeD [of "or_else (forwarded_first hs) (header_get hs ''x-real-ip'')" a]
    by (simp_all add: getClientInfo_def)
  show ?thesis
  proof (cases "header_get hs ''x-forwarded-for''")
    case None
    with a ne show ?thesis by (simp add: forwarded_first_None)
  next
    case (Some v)
    let ?first = "trim (takeWhile (\<lambda>x. x \<noteq> CHR '','') v)"
    show ?thesis
    proof (cases "?first = []")
      case True
      with a ne Some show ?thesis by (simp add: forwarded_first_Some or_else_Some)
    next
      case False
      with a Some have "a = ?first" by (simp add: forwarded_first_Some or_else_Some)
      with False Some ne show ?thesis
        by (simp add: comma_notin_first hd_trim last_trim)
    qed
  qed
qed

theorem client_ip_shape_witness:
  "ip (getClientInfo [(''x-forwarded-for'', '' 203.0.113.7 , 10.0.0.1''), (''x-real-ip'', ''10.0.0.9'')])
     = Some ''203.0.113.7''
   \<and> ip (getClientInfo [(''x-forwarded-for'', '' , 10.0.0.1''), (''x-real-ip'', ''10.0.0.9'')])
     = Some ''10.0.0.9''"
  using client_ip_shape [of "[(''x-forwarded-for'', '' 203.0.113.7 , 10.0.0.1''), (''x-real-ip'', ''10.0.0.9'')]"
      "''203.0.113.7''"]
  by (simp add: edge_eval)

section \<open>Passing the request on\<close>

text \<open>C28: Both filters forward the request. The filter that reads the client
  information returns whatever the framework's pass-through returns, for every request.
  The filter with the fallback returns the pass-through response unchanged when the
  first call succeeds; when the first call throws, it returns the response of a second
  call with the error text in the header \<^verbatim>\<open>x-middleware-error\<close>; and it throws only when
  the second call throws as well.\<close>

theorem middleware_forwards:
  "middleware_geo next1 hs = next1
   \<and> middleware (Returns res) next2 = Returns res
   \<and> middleware (Throws err) (Returns res)
       = Returns (set_header ''x-middleware-error'' (error_text err) res)
   \<and> ((\<exists>e. middleware next1 next2 = Throws e)
        \<longleftrightarrow> (\<exists>e1 e2. next1 = Throws e1 \<and> next2 = Throws e2))"
  by (cases next1; cases next2) (simp_all add: middleware_def middleware_geo_def)

section \<open>Which requests are filtered\<close>

text \<open>C37: The two patterns are compared exactly. The filter that reads the client
  information handles a path precisely when the filter with the fallback handles it, or
  when the path (a slash, then no line break) continues with \<^verbatim>\<open>robots.txt\<close>,
  \<^verbatim>\<open>sitemap.xml\<close> or \<^verbatim>\<open>api/\<close> (the dots standing for any character), or with \<^verbatim>\<open>_next/\<close>
  but neither \<^verbatim>\<open>_next/static\<close> nor \<^verbatim>\<open>_next/image\<close>. So everything the fallback filter
  handles the other one handles too, and the paths handled by the other one alone are
  the API routes, the two crawler files and the routes under \<^verbatim>\<open>_next\<close> that are not
  static files or images.\<close>

theorem matcher_fallback_narrower:
  "matcher matcher_geo path \<longleftrightarrow>
     matcher matcher_fallback path
     \<or> (\<exists>rest. path = CHR ''/'' # rest \<and> \<not> list_ex line_break rest
          \<and> (alt_prefix ''_next/'' rest \<and> \<not> alt_prefix ''_next/static'' rest
                \<and> \<not> alt_prefix ''_next/image'' rest
              \<or> alt_prefix ''robots.txt'' rest \<or> alt_prefix ''sitemap.xml'' rest
              \<or> alt_prefix ''api/'' rest))"
proof (cases path)
  case Nil
  then show ?thesis by (simp add: matcher_def)
next
  case (Cons c rest)
  have under: "alt_prefix ''_next/'' rest"
    if "alt_prefix ''_next/static'' rest \<or> alt_prefix ''_next/image'' rest"
    using that alt_prefix_mono [of "''_next/''" "''static''" rest]
      alt_prefix_mono [of "''_next/''" "''image''" rest] by auto
  have other: "\<not> alt_prefix ''_next/'' rest \<and> \<not> alt_prefix ''favicon.ico'' rest"
    if "alt_prefix ''robots.txt'' rest \<or> alt_prefix ''sitemap.xml'' rest \<or> alt_prefix ''api/'' rest"
    using that by (auto dest!: alt_prefix_hd)
  have icon: "\<not> alt_prefix ''favicon.ico'' rest" if "alt_prefix ''_next/'' rest"
    using that by (auto dest!: alt_prefix_hd)
  show ?thesis
    unfolding Cons matcher_def matcher_geo_def matcher_fallback_def
    using under other icon by (simp del: alt_prefix.simps) blast
qed

theorem matcher_fallback_narrower_witness:
  "matcher matcher_fallback ''/journey'' \<and> matcher matcher_geo ''/journey''
   \<and> matcher matcher_geo ''/api/geo'' \<and> \<not> matcher matcher_fallback ''/api/geo''
   \<and> matcher matcher_geo ''/_next/data/a.json'' \<and> \<not> matcher matcher_fallback ''/_next/data/a.json''
   \<and> \<not> matcher matcher_geo ''/_next/static/a.js'' \<and> \<not> matcher matcher_geo ''/faviconXico''"
  using matcher_fallback_narrower [of "''/journey''"]
  by (simp add: matcher_def matcher_fallback_def matcher_geo_def line_break_def)

end
