(* ===== verification/Spec2Isabelle.thy ===== *)
theory Spec2Isabelle
  imports Store_Contract App_Config Search_URL Edge_Filter
begin

text \<open>
  \<^bold>\<open>A verification development for the journey planner.\<close>

  The program is a single-page web application: a React component
  (\<^verbatim>\<open>src/unnamed/part_000\<close>) that keeps an ordered list of named waypoints, fills it from
  a geocoding service or from clicks on a MapLibre map, lets the user reorder and clear
  it, and mirrors it on the map as numbered markers and a route line. Around it are the
  application wrapper (\<^verbatim>\<open>src/unnamed/part_001\<close>), the framework configuration
  (\<^verbatim>\<open>src/next.config.js\<close>) and two revisions of a pass-through request filter
  (\<^verbatim>\<open>src/middleware.ts\<close>, \<^verbatim>\<open>src/unnamed/part_002\<close>).

  \<^bold>\<open>How the parts interact.\<close> The waypoint list is one React state cell. Every
  handler changes it through the state setter, with an updater function of the previous
  list or with a new list. When the setter stores a new array, React re-renders the
  component and runs the effect that depends on the list, which removes the old markers
  from the map, adds one marker per waypoint and hands the coordinates to the route
  source. The geocoding handler sends one request per name, waits for each reply while
  the page goes on handling other events, builds a whole new list from the replies and
  also moves the camera. The map itself arrives late: the library is imported
  dynamically, the widget is created when the import resolves, and its route source
  exists only after the widget's \<^verbatim>\<open>load\<close> event. What the user sees besides the map is
  the markup the component returns: two text areas, three buttons and one row per
  waypoint with its number, name, coordinates and two arrow buttons.

  \<^bold>\<open>Theories, in import order.\<close>

  \<^item> \<^verbatim>\<open>Journey_Prelude\<close>: the fact collections \<open>handler_defs\<close>, \<open>frame\<close>, \<open>inv_defs\<close>;
    \<open>'a updated\<close>, the result of a state updater (\<open>Same\<close> reference, \<open>Fresh\<close> array, or an
    array with an \<^verbatim>\<open>undefined\<close> slot); \<open>swap_at\<close>, the destructuring swap; list facts.
  \<^item> \<^verbatim>\<open>JS_Number\<close>: JavaScript numbers as \<open>jsnum\<close> (NaN, the two infinities, finite
    reals) with the comparison \<open>js_lt\<close>, false whenever NaN is involved.
  \<^item> \<^verbatim>\<open>JS_String\<close>: strings as lists of characters; \<open>trim\<close>, \<open>truthy\<close>,
    \<open>split_newlines\<close> (the split at runs of line feeds, a \<open>function\<close> with a termination
    proof), its reference \<open>split_on\<close>, and \<open>string_of_nat\<close> (\<^verbatim>\<open>String(n)\<close>) with its
    inverse.
  \<^item> \<^verbatim>\<open>Waypoint_Store\<close>: the list and its four updaters, lines 140-146, 233-234,
    268-276 and 282-284 of the page: \<open>clickWaypoint\<close>, \<open>replaceAll\<close>, \<open>moveWaypoint\<close>,
    \<open>clearRoute\<close>. The lemmas give \<open>moveWaypoint\<close> on every branch (swap, boundary,
    out-of-range row), show that it permutes, is undone by the opposite move, and
    implements the contract \<open>moveAt\<close>; and give names and order of clicked waypoints.
  \<^item> \<^verbatim>\<open>Bounding_Box\<close>: the scan of lines 240-250 (and 326-335 in the self test) as a
    left fold \<open>bounds_of\<close> over \<open>bounds_step\<close>. The lemmas show that without NaN it is
    the least enclosing box, equal to \<open>Min\<close> and \<open>Max\<close> and independent of order, and
    what NaN does to it.
  \<^item> \<^verbatim>\<open>Parse_Float\<close>: JSON values and \<^verbatim>\<open>parseFloat\<close> on them (longest decimal-literal
    prefix, else NaN).
  \<^item> \<^verbatim>\<open>Search_URL\<close>: lines 214-219, the request for one name: \<open>encodeURIComponent\<close>,
    \<open>search_url\<close>, \<open>search_request\<close>. The lemmas show that the encoded name has URL-safe
    characters only, that the query of the request has the three parameters of the
    template whatever the name is, and that the receiver's decoding gives back the name.
  \<^item> \<^verbatim>\<open>Geocoding\<close>: lines 203-232: \<open>scene_names\<close>, the loop body \<open>geocode_one\<close> with
    every failure branch, the loop \<open>geocode_batch\<close>. The service is a parameter, a
    \<open>network\<close> that maps the position and name of a request to its \<open>response\<close>.
  \<^item> \<^verbatim>\<open>Map_View\<close>: the widget as the page observes it and the adapter state held in
    refs: lines 46-156 (\<open>import_resolved\<close>, \<open>new_map\<close>, \<open>map_loaded\<close>, \<open>unmount\<close>), 164-194
    (\<open>render_markers\<close>), 238-258 (\<open>fit_view\<close>), 292-298 (\<open>set_terrain\<close>).
  \<^item> \<^verbatim>\<open>Page_Controller\<close>: the component state \<open>page\<close> (lines 15-37), the setter with
    its effect \<open>setWaypoints\<close>, the handlers \<open>geocodeScenes\<close> (202-260) and
    \<open>toggleTerrain\<close> (291-300), the button guards (381, 388), the self test (306-337),
    and the transition system \<open>event\<close>, \<open>enabled\<close>, \<open>handle\<close>, \<open>page_step\<close>,
    \<open>reachable\<close>, \<open>run\<close>.
  \<^item> \<^verbatim>\<open>Page_Lifecycle\<close>: the lifecycle \<open>phase\<close> (a linear order), the invariant
    \<open>page_inv\<close> with one preservation lemma per handler, \<open>reachable_page_inv\<close> by rule
    induction, and the states in which the map does not show the list.
  \<^item> \<^verbatim>\<open>Page_Async\<close>: \<^verbatim>\<open>geocodeScenes\<close> as the \<^verbatim>\<open>async\<close> function it is. A \<open>job\<close> is a call
    waiting for a reply, a \<open>tab\<close> is the page with its jobs in flight; \<open>start_geocode\<close>
    (lines 202-219), \<open>job_step\<close> (220-231), \<open>finish_job\<close> (233-259) and \<open>deliver\<close> cut the
    function at its \<^verbatim>\<open>await\<close>; \<open>async_event\<close>, \<open>async_enabled\<close>, \<open>async_handle\<close>,
    \<open>async_step\<close>, \<open>async_reachable\<close>, \<open>async_run\<close> are the transition system in which
    replies and other events interleave. \<open>atomic_run_refined\<close> shows that the one-step
    batch of \<^verbatim>\<open>Page_Controller\<close> is the schedule in which nothing comes between the
    replies; \<open>async_reachable_inv\<close> carries the invariant over to every schedule;
    \<open>batch_terminates\<close> shows that every batch ends, with the measure \<open>pending\<close>; the
    other theorems are about the marker display, the lifecycle, and what a batch does
    to a list that changed or a page that was unmounted while it was in flight.
  \<^item> \<^verbatim>\<open>Store_Contract\<close>: the store of the design, a sequence with the operations
    append, replace, swap with a neighbour and clear (\<open>store_op\<close>, \<open>store_apply\<close>), and
    the simulation of the tab by it: \<open>step_refines_store\<close> for one event,
    \<open>store_refinement\<close> for runs, with the list of the page as the abstraction.
  \<^item> \<^verbatim>\<open>Row_Text\<close>: the markup of lines 339-397 as \<open>render_page\<close>, with the rows of the
    list (\<open>rows\<close>, \<open>row_text\<close>) and \<^verbatim>\<open>toFixed\<close>. The lemmas show that the text of a
    coordinate reads back as the coordinate rounded to four decimals, and relate the
    \<^verbatim>\<open>disabled\<close> attributes to \<open>moveWaypoint\<close>.
  \<^item> \<^verbatim>\<open>App_Config\<close>: the wrapper \<open>App\<close> of \<^verbatim>\<open>src/unnamed/part_001\<close> and the configuration
    \<open>nextConfig\<close> of \<^verbatim>\<open>src/next.config.js\<close>. \<open>strict_remount\<close> is the cleanup and second
    mount that React adds before the first event when strict mode is set; it is the
    framework's schedule, not code of the repository, and \<open>strict_mode_mount\<close> shows
    that it leaves the page in \<open>page_init\<close>.
  \<^item> \<^verbatim>\<open>Edge_Filter\<close> (independent of the page): \<open>getClientInfo\<close> and the filter of
    \<^verbatim>\<open>src/unnamed/part_002\<close>, the filter with fallback of \<^verbatim>\<open>src/middleware.ts\<close>, and
    the path patterns of both. The lemmas describe the client address the first one
    extracts, show that both forward every request, and compare the paths they handle.
  \<^item> This theory: what holds across the parts in every state the tab can reach.
    \<open>list_and_map_agree\<close> relates the markup to the map: a marker carries the number of
    its row, stands at the coordinate of that row's waypoint, and is a vertex of the
    route line. \<open>requests_on_the_wire\<close> relates the batches to the addresses requested:
    every request carries the encoding of a trimmed, non-empty line of a scene text,
    and every batch in flight waits for a request that has been sent. After them comes
    one visit as an example, once with the batch in one step (\<open>journey_session\<close>) and
    once as the browser runs it, with a click between the two replies
    (\<open>journey_on_screen\<close>).

  \<^bold>\<open>Modelling decisions.\<close>

  \<^item> Numbers are reals with NaN and infinities added; rounding of doubles is not
    modelled. Every comparison the page makes is \<open>js_lt\<close>, so what is proved about NaN
    is what the code does.
  \<^item> Strings are lists of 8-bit characters. \<open>is_js_space\<close> lists the white space of
    \<^verbatim>\<open>trim\<close> that fits in 8 bits.
  \<^item> An updater returns \<open>Same\<close> where the code returns \<^verbatim>\<open>prev\<close>, and React then does
    nothing; \<open>Fresh\<close> where it returns a new array. \<open>Holed k\<close> stands for the array that
    line 273 builds when \<^verbatim>\<open>index\<close> is no position of the list: slot \<open>k\<close> is \<^verbatim>\<open>undefined\<close>
    and the next render throws at line 374. \<open>Holed\<close> keeps only the first such slot and
    not the array, which for an \<^verbatim>\<open>index\<close> beyond the end has also grown: nothing reads
    that array, since \<open>setWaypoints\<close> records the throw as \<open>crashed\<close> and unmounts.
  \<^item> \<open>setWaypoints\<close> is the setter of line 23 together with what React does on a call
    of it: nothing for the same reference, else a render and the marker effect of
    lines 164-194 with the new list.
  \<^item> The operations of the map widget (\<open>addTo\<close>, \<open>remove_marker\<close>, \<open>setData\<close>,
    \<open>fitBounds\<close>, \<open>setTerrain\<close>) are total and record what the page asked for. What
    MapLibre does with a request it cannot serve (a \<open>NaN\<close> or out-of-range coordinate,
    terrain before the style has loaded) happens inside the library and is not
    modelled; the theorems about \<open>NaN\<close> say what the page hands over.
  \<^item> The effect of lines 164-194 runs in the same step as the update that triggers
    it; React runs it after the render and before the next event.
  \<^item> A geocoding run is modelled twice. In \<^verbatim>\<open>Page_Controller\<close> it is one event
    \<open>Geocode net\<close>, with the service as a function \<open>net\<close> from the position and the name
    of a request to its reply. In \<^verbatim>\<open>Page_Async\<close> every reply is an event of its own,
    \<open>Response k r\<close> for the job at position \<open>k\<close>, and any enabled event can come between
    two replies. The two awaits of one turn of the loop (the response and its body) are
    one reply: the function reads nothing of the page between them.
  \<^item> The service is addressed by the name. \<open>search_request\<close> is what goes on the wire
    for a name, and since the encoding can be undone a service that answers requests
    is a function of the name.
  \<^item> Markers are values (label and position), not objects.
  \<^item> The framework call of the request filter, \<^verbatim>\<open>NextResponse.next()\<close>, is a parameter
    of the model: the outcome of each call is given, a response or a thrown value. The
    path patterns are decided by a matcher for their one shape, a slash followed by
    anything that does not begin with one of the listed alternatives.
  \<^item> Fixed-point texts (\<^verbatim>\<open>toFixed\<close>) are exact: the digits are those of the real number,
    rounded half up in the last place as the language defines it.
  \<^item> No fuel is used: every loop of the program is a fold over a list or a structural
    recursion, \<open>split_newlines\<close> is proved terminating, and the loop of a batch in
    flight ends after as many replies as it has names left (\<open>batch_terminates\<close>). That
    a reply arrives at all is the environment's part: \<^verbatim>\<open>fetch\<close> has no timeout in the
    code, and a job whose reply never comes stays in flight.

  \<^bold>\<open>Not modelled.\<close> Exceptions thrown inside MapLibre; the static markup and the styles of lines 339-397 (headline,
  paragraph, placeholders, inline styles) and the stylesheet the wrapper imports;
  \<^verbatim>\<open>toFixed\<close> from \<open>10\<^sup>2\<^sup>1\<close> on, where it switches to exponent notation; the rounding
  of doubles; code units above 255 in strings; \<^verbatim>\<open>trailingSlash\<close>, which concerns the
  framework's routing; server-side rendering, in which no effect runs; what the page
  writes to the console (the error of line 229, the message of a failed assertion); the tile servers
  and the rendering inside the map widget; the routing of the framework around the
  request filter.
\<close>

section \<open>One visit, as an example\<close>

text \<open>A geocoder that knows the two places of the text area's placeholder, the states
  the session passes through, and what a user can see of a page: the names in the list,
  the labels of the markers on the map, the route line, the camera and the state of the
  terrain button.\<close>

definition tour_reply :: "string \<Rightarrow> string \<Rightarrow> response" where
  "tour_reply la lo = Replied True (Parsed (JArr [JObj [(''lat'', JStr la), (''lon'', JStr lo)]]))"

definition tour_net :: network where
  "tour_net k nm =
     (if nm = ''Eiffel Tower'' then tour_reply ''48.8584'' ''2.2945''
      else if nm = ''Louvre Museum'' then tour_reply ''48.8606'' ''2.3376''
      else Rejected ''Failed to fetch'')"

definition tour_ws :: "waypoint list" where
  "tour_ws = [\<lparr>name = ''Eiffel Tower'', coord = (Fin 2.2945, Fin 48.8584)\<rparr>,
              \<lparr>name = ''Louvre Museum'', coord = (Fin 2.3376, Fin 48.8606)\<rparr>]"

definition tour_box :: bounds where
  "tour_box = \<lparr>minLon = Fin 2.2945, maxLon = Fin 2.3376, minLat = Fin 48.8584, maxLat = Fin 48.8606\<rparr>"

definition ready_page :: page where
  "ready_page =
     \<lparr>mapRef = Some (on_load (addControl ''NavigationControl'' new_map)),
      markersRef = [], maplibreRef = True, isMounted = True, importPending = False,
      prompt = [], sceneText = eiffel_louvre, waypoints = [],
      terrainEnabled = False, alerts = [], crashed = False\<rparr>"

definition toured_page :: page where
  "toured_page =
     ready_page\<lparr>waypoints := tour_ws, markersRef := markers_of tour_ws,
       mapRef := Some ((on_load (addControl ''NavigationControl'' new_map))
          \<lparr>camera := Fitted tour_box 50, attached := markers_of tour_ws,
           route_data := Some (route tour_ws)\<rparr>)\<rparr>"

definition observe :: "page \<Rightarrow> string list \<times> string list \<times> lnglat list option \<times> camera option \<times> bool" where
  "observe s =
     (map name (waypoints s),
      (case mapRef s of None \<Rightarrow> [] | Some w \<Rightarrow> map label (attached w)),
      (case mapRef s of None \<Rightarrow> None | Some w \<Rightarrow> route_data w),
      map_option camera (mapRef s),
      terrainEnabled s)"

definition session :: "event list" where
  "session = [ImportResolved, MapLoad, SetSceneText eiffel_louvre] @ [Geocode tour_net]
     @ [MapClick (Fin 2.3) (Fin 48.9), MoveDown 0, ToggleTerrain]"

text \<open>The same visit as the browser runs it: the two replies of the batch arrive one by
  one, and the user clicks on the map between them. \<open>on_screen\<close> is what can be seen from
  outside the tab: the markup, the addresses requested and the number of batches still
  waiting.\<close>

definition eiffel_wp :: waypoint where
  "eiffel_wp = \<lparr>name = ''Eiffel Tower'', coord = (Fin 2.2945, Fin 48.8584)\<rparr>"

definition clicked_page :: page where
  "clicked_page =
     ready_page\<lparr>waypoints := [\<lparr>name = ''Waypoint 1'', coord = (Fin 2.3, Fin 48.9)\<rparr>],
       markersRef := [\<lparr>label = ''1'', pos = (Fin 2.3, Fin 48.9)\<rparr>],
       mapRef := Some ((on_load (addControl ''NavigationControl'' new_map))
          \<lparr>attached := [\<lparr>label = ''1'', pos = (Fin 2.3, Fin 48.9)\<rparr>],
           route_data := Some [(Fin 2.3, Fin 48.9)]\<rparr>)\<rparr>"

definition live_session :: "async_event list" where
  "live_session =
     map Page [ImportResolved, MapLoad, SetSceneText eiffel_louvre]
     @ [GeocodeClick, Response 0 (tour_reply ''48.8584'' ''2.2945'')]
     @ [Page (MapClick (Fin 2.3) (Fin 48.9)), Response 0 (tour_reply ''48.8606'' ''2.3376'')]
     @ map Page [MoveDown 0, ToggleTerrain]"

definition on_screen :: "tab \<Rightarrow> screen \<times> string list \<times> nat" where
  "on_screen t = (App render_page (shown t), map search_url (sent t), length (inflight t))"

section \<open>The list, the map and the requests\<close>

text \<open>C19: In every state the tab can reach, the markers that the map shows are the
  waypoints of the list under the same numbers. When the map shows a marker at a
  position, it has as many markers as the list has rows; the marker at that position
  stands at the coordinate of the waypoint at that position; the text of the row, when
  the coordinates can be shown, begins with the label of the marker, a dot, a blank and
  the name of the waypoint; and a route line that is not empty has one vertex per
  marker, the vertex at that position being the place of the marker.\<close>

theorem list_and_map_agree:
  assumes "async_reachable t" and "mapRef (shown t) = Some w" and "i < length (attached w)"
  shows "length (list_rows (App render_page (shown t))) = length (attached w)
    \<and> pos (attached w ! i) = coord (waypoints (shown t) ! i)
    \<and> label (attached w ! i) = string_of_nat (i + 1)
    \<and> (caption (list_rows (App render_page (shown t)) ! i) = None
        \<or> (\<exists>rest. caption (list_rows (App render_page (shown t)) ! i)
              = Some (label (attached w ! i) @ ''. '' @ name (waypoints (shown t) ! i) @ rest)))
    \<and> (\<forall>r. route_data w = Some r \<and> r \<noteq> []
          \<longrightarrow> length r = length (attached w) \<and> r ! i = pos (attached w ! i))"
proof -
  let ?ws = "waypoints (shown t)"
  from async_reachable_inv [OF assms(1)] assms(2,3)
  have att: "attached w = markers_of ?ws"
    and line: "route_data w = None \<or> route_data w = Some [] \<or> route_data w = Some (route ?ws)"
    by (auto simp: inv_defs)
  from att assms(3) have i: "i < length ?ws" by simp
  then have "caption (rows ?ws ! i) = None
      \<or> (\<exists>rest. caption (rows ?ws ! i) = Some (string_of_nat (i + 1) @ ''. '' @ name (?ws ! i) @ rest))"
    by (auto simp: rows_nth row_text_def split: option.splits)
  with att i line show ?thesis
    by (auto simp: render_page_def nth_markers_of route_def)
qed

theorem list_and_map_agree_witness:
  "\<exists>w. mapRef (shown (the (async_run busy_trace tab_init))) = Some w
     \<and> attached w = [\<lparr>label = ''1'', pos = (Fin 1, Fin 2)\<rparr>]
     \<and> route_data w = Some [(Fin 1, Fin 2)]
     \<and> map caption (list_rows (App render_page (shown (the (async_run busy_trace tab_init)))))
         = [Some ''1. Waypoint 1 (2.0000, 1.0000)'']"
  using list_and_map_agree [OF busy_trace_reachable, of
      "(on_load (addControl ''NavigationControl'' new_map))
         \<lparr>attached := markers_of [\<lparr>name = ''Waypoint 1'', coord = (Fin 1, Fin 2)\<rparr>],
          route_data := Some [(Fin 1, Fin 2)]\<rparr>" 0]
  by (simp add: busy_trace_run markers_of_def render_page_def rows_def row_text_def lon_def
      lat_def toFixed_eval string_of_nat_digit digit_char_def)

text \<open>C20: In every state the tab can reach, every request that has gone out is for a
  name that is not empty, has no line feed and has no white space at either end; the
  first parameter of its query is \<^verbatim>\<open>q\<close> with the encoding of that name, which is not
  empty and decodes to the name. Every batch in flight has a name left, and the first of
  them is among the names requested: a batch always waits for a reply to a request that
  was sent.\<close>

theorem requests_on_the_wire:
  assumes "async_reachable t"
  shows "(\<forall>nm \<in> set (sent t).
            nm \<noteq> [] \<and> newline \<notin> set nm \<and> \<not> is_js_space (hd nm) \<and> \<not> is_js_space (last nm)
            \<and> hd (query_params (search_url nm)) = [''q'', encodeURIComponent nm]
            \<and> encodeURIComponent nm \<noteq> []
            \<and> decodeURIComponent (encodeURIComponent nm) = nm)
    \<and> (\<forall>j \<in> set (inflight t). todo j \<noteq> [] \<and> hd (todo j) \<in> set (sent t))"
  using async_reachable_names [OF assms] async_reachable_inv [OF assms]
  by (auto simp: names_ok_def tab_inv_def jobs_ok_def list_all_iff request_name_def
      query_params_search_url encodeURIComponent_Nil_iff decode_encode)

theorem requests_on_the_wire_witness:
  "sent (the (async_run leaving_trace tab_init)) = [''Atlantis'']
   \<and> map todo (inflight (the (async_run leaving_trace tab_init))) = [[''Atlantis'', ''Paris'']]
   \<and> hd (query_params (search_url ''Atlantis'')) = [''q'', ''Atlantis'']"
  using requests_on_the_wire [OF leaving_trace_reachable]
  by (simp add: leaving_trace_run encodeURIComponent_def encode_char_def unreserved_def)

section \<open>The steps of the session\<close>

lemma tour_bounds: "waypoint_bounds tour_ws = Some tour_box"
  by (simp add: tour_ws_def tour_box_def waypoint_bounds_def route_def bounds_of_def bounds_init_def
      bounds_step_def lower_def upper_def)

lemma tour_batch:
  "geocode_batch tour_net [''Eiffel Tower'', ''Louvre Museum'']
     = \<lparr>requests = [''Eiffel Tower'', ''Louvre Museum''], notices = [], newWaypoints = tour_ws\<rparr>"
  by (simp add: geocode_batch_def batch_step_def batch_start_def geocode_one_def
      lookup_prop_def tour_net_def tour_reply_def tour_ws_def parseFloat_eval)

lemma session_ready:
  "run [ImportResolved, MapLoad, SetSceneText eiffel_louvre] page_init = Some ready_page"
  by (simp add: page_eval ready_page_def)

lemma session_toured: "run [Geocode tour_net] ready_page = Some toured_page"
proof -
  let ?w = "on_load (addControl ''NavigationControl'' new_map)"
  have "isMounted ready_page" and "mapRef ready_page = Some ?w"
    and "scene_names (sceneText ready_page) = [''Eiffel Tower'', ''Louvre Museum'']"
    and "tour_ws \<noteq> []"
    by (simp_all add: ready_page_def eiffel_louvre_names tour_ws_def)
  from this(1) geocodeScenes_found [OF this(1,2,3) tour_batch _ this(4) tour_bounds]
  show ?thesis
    by (simp add: toured_page_def render_markers_Some ready_page_def on_load_def addControl_def
        new_map_def)
qed

lemma session_rest:
  "map_option observe (run [MapClick (Fin 2.3) (Fin 48.9), MoveDown 0, ToggleTerrain] toured_page)
     = Some ([''Louvre Museum'', ''Eiffel Tower'', ''Waypoint 3''],
             [''1'', ''2'', ''3''],
             Some [(Fin 2.3376, Fin 48.8606), (Fin 2.2945, Fin 48.8584), (Fin 2.3, Fin 48.9)],
             Some (Fitted tour_box 50),
             True)"
  by (simp add: toured_page_def ready_page_def observe_def page_eval tour_ws_def markers_of_def
      route_def moveWaypoint_def swap_at_def waypoint_name_def string_of_nat_digit digit_char_def)

section \<open>The steps of the session in the browser\<close>

lemma live_ready:
  "async_run (map Page [ImportResolved, MapLoad, SetSceneText eiffel_louvre])
     (idle page_init []) = Some (idle ready_page [])"
  using page_run_idle [of "[ImportResolved, MapLoad, SetSceneText eiffel_louvre]" page_init "[]"]
  by (simp add: session_ready del: async_run.simps run.simps)

lemma live_first_reply:
  "async_run [GeocodeClick, Response 0 (tour_reply ''48.8584'' ''2.2945'')] (idle ready_page [])
     = Some \<lparr>shown = ready_page, inflight = [\<lparr>todo = [''Louvre Museum''], found = [eiffel_wp]\<rparr>],
              sent = [''Eiffel Tower'', ''Louvre Museum'']\<rparr>"
proof -
  have "scene_names (sceneText ready_page) = [''Eiffel Tower'', ''Louvre Museum'']"
    and "isMounted ready_page"
    by (simp_all add: ready_page_def eiffel_louvre_names)
  moreover have "geocode_one ''Eiffel Tower'' (tour_reply ''48.8584'' ''2.2945'') = Found eiffel_wp"
    by (simp add: geocode_one_def lookup_prop_def tour_reply_def eiffel_wp_def parseFloat_eval)
  ultimately show ?thesis
    by (simp add: idle_def start_geocode_def deliver_more found_of_def notice_of_def alert_def)
qed

lemma live_click:
  "handle (MapClick (Fin 2.3) (Fin 48.9)) ready_page = clicked_page
   \<and> enabled ready_page (MapClick (Fin 2.3) (Fin 48.9))"
  by (simp add: ready_page_def clicked_page_def page_eval markers_of_def route_def
      waypoint_name_def string_of_nat_digit digit_char_def)

lemma live_last_reply:
  "deliver 0 (tour_reply ''48.8606'' ''2.3376'')
     \<lparr>shown = clicked_page, inflight = [\<lparr>todo = [''Louvre Museum''], found = [eiffel_wp]\<rparr>],
      sent = [''Eiffel Tower'', ''Louvre Museum'']\<rparr>
   = idle toured_page [''Eiffel Tower'', ''Louvre Museum'']"
proof -
  let ?w = "(on_load (addControl ''NavigationControl'' new_map))
      \<lparr>attached := [\<lparr>label = ''1'', pos = (Fin 2.3, Fin 48.9)\<rparr>],
       route_data := Some [(Fin 2.3, Fin 48.9)]\<rparr>"
  have found: "geocode_one ''Louvre Museum'' (tour_reply ''48.8606'' ''2.3376'')
      = Found \<lparr>name = ''Louvre Museum'', coord = (Fin 2.3376, Fin 48.8606)\<rparr>"
    by (simp add: geocode_one_def lookup_prop_def tour_reply_def parseFloat_eval)
  have ws: "[eiffel_wp, \<lparr>name = ''Louvre Museum'', coord = (Fin 2.3376, Fin 48.8606)\<rparr>] = tour_ws"
    by (simp add: tour_ws_def eiffel_wp_def)
  have "finish_job tour_ws clicked_page = toured_page"
    using tour_bounds
    by (simp add: finish_job_def clicked_page_def toured_page_def ready_page_def tour_ws_def
        setWaypoints_def replaceAll_def fit_view_def render_markers_def fitBounds_def
        remove_marker_def addTo_def setData_def markers_of_def route_def on_load_def
        addControl_def new_map_def string_of_nat_digit digit_char_def Let_def)
  with found ws show ?thesis
    by (simp add: deliver_last found_of_def notice_of_def alert_def drop_job_def idle_def)
qed

lemma live_rest:
  "map_option render_page (run [MoveDown 0, ToggleTerrain] toured_page)
     = Some \<lparr>prompt_box = [], scene_box = eiffel_louvre, terrain_button = ''Disable Terrain'',
        list_rows =
          [\<lparr>caption = Some ''1. Louvre Museum (48.8606, 2.3376)'', up_off = True, down_off = False\<rparr>,
           \<lparr>caption = Some ''2. Eiffel Tower (48.8584, 2.2945)'', up_off = False, down_off = True\<rparr>]\<rparr>"
proof -
  have ws: "waypoints (the (run [MoveDown 0, ToggleTerrain] toured_page)) = rev tour_ws"
    and rest: "run [MoveDown 0, ToggleTerrain] toured_page \<noteq> None"
      "terrainEnabled (the (run [MoveDown 0, ToggleTerrain] toured_page))"
      "prompt (the (run [MoveDown 0, ToggleTerrain] toured_page)) = []"
      "sceneText (the (run [MoveDown 0, ToggleTerrain] toured_page)) = eiffel_louvre"
    by (simp_all add: toured_page_def ready_page_def page_eval tour_ws_def moveWaypoint_def
        swap_at_def)
  have "rows (rev tour_ws)
      = [\<lparr>caption = Some ''1. Louvre Museum (48.8606, 2.3376)'', up_off = True, down_off = False\<rparr>,
         \<lparr>caption = Some ''2. Eiffel Tower (48.8584, 2.2945)'', up_off = False, down_off = True\<rparr>]"
    by (simp add: rows_def tour_ws_def row_text_def lon_def lat_def up_disabled_def
        down_disabled_def toFixed_eval)
  with ws rest show ?thesis
    by (cases "run [MoveDown 0, ToggleTerrain] toured_page")
      (simp_all add: render_page_def del: run.simps)
qed

section \<open>The session end to end\<close>

text \<open>A whole session through every component. The library arrives and the map
  loads; the user enters two scene names separated by a blank line and geocodes them;
  clicks once on the map; moves the first row down; and turns terrain on. At the end the
  list reads Louvre Museum, Eiffel Tower, Waypoint 3; the map shows three markers
  numbered 1 to 3 and a route line through the three coordinates in list order; the
  camera is still the one fitted (padding 50) to the box of the two geocoded places; and
  the terrain button says terrain is on.\<close>

lemma journey_session:
  "map_option observe (run session page_init)
     = Some ([''Louvre Museum'', ''Eiffel Tower'', ''Waypoint 3''],
             [''1'', ''2'', ''3''],
             Some [(Fin 2.3376, Fin 48.8606), (Fin 2.2945, Fin 48.8584), (Fin 2.3, Fin 48.9)],
             Some (Fitted tour_box 50),
             True)"
  unfolding session_def
  by (simp only: run_append session_ready session_toured option.case session_rest)

text \<open>The same visit as the browser runs it, with the requests and the markup. The
  two requests go out one after the other, each with the encoded name in its
  query; the user clicks on the map while the second request is in flight, and the
  click's waypoint is gone when the batch ends; after moving the first row down and
  turning terrain on, the list shows Louvre Museum and Eiffel Tower with latitude and
  longitude to four decimals, the up arrow of the first row and the down arrow of the
  last are disabled, the terrain button offers to disable terrain, and no batch is left
  waiting.\<close>

lemma journey_on_screen:
  "map_option on_screen (async_run live_session (idle page_init []))
     = Some (\<lparr>prompt_box = [], scene_box = eiffel_louvre, terrain_button = ''Disable Terrain'',
               list_rows =
                 [\<lparr>caption = Some ''1. Louvre Museum (48.8606, 2.3376)'', up_off = True,
                   down_off = False\<rparr>,
                  \<lparr>caption = Some ''2. Eiffel Tower (48.8584, 2.2945)'', up_off = False,
                   down_off = True\<rparr>]\<rparr>,
             [''https://nominatim.openstreetmap.org/search?q=Eiffel%20Tower&format=json&limit=1'',
              ''https://nominatim.openstreetmap.org/search?q=Louvre%20Museum&format=json&limit=1''],
             0)"
proof -
  have urls: "map search_url [''Eiffel Tower'', ''Louvre Museum'']
      = [''https://nominatim.openstreetmap.org/search?q=Eiffel%20Tower&format=json&limit=1'',
         ''https://nominatim.openstreetmap.org/search?q=Louvre%20Museum&format=json&limit=1'']"
    by (simp add: search_url_def encodeURIComponent_def encode_char_def unreserved_def utf8_def
        percent_def hex_digit_def)
  have "async_run [Page (MapClick (Fin 2.3) (Fin 48.9)), Response 0 (tour_reply ''48.8606'' ''2.3376'')]
      \<lparr>shown = ready_page, inflight = [\<lparr>todo = [''Louvre Museum''], found = [eiffel_wp]\<rparr>],
       sent = [''Eiffel Tower'', ''Louvre Museum'']\<rparr>
      = Some (idle toured_page [''Eiffel Tower'', ''Louvre Museum''])"
    using live_click live_last_reply by simp
  then have "async_run live_session (idle page_init [])
      = map_option (\<lambda>s. idle s [''Eiffel Tower'', ''Louvre Museum''])
          (run [MoveDown 0, ToggleTerrain] toured_page)"
    unfolding live_session_def
    using page_run_idle [of "[MoveDown 0, ToggleTerrain]" toured_page
        "[''Eiffel Tower'', ''Louvre Museum'']"]
    by (simp only: async_run_append live_ready live_first_reply option.case)
      (simp del: async_run.simps run.simps)
  with live_rest urls show ?thesis
    by (cases "run [MoveDown 0, ToggleTerrain] toured_page")
      (simp_all add: on_screen_def idle_def del: run.simps)
qed

end
